theory Spec2Isabelle
  imports Main "HOL-Library.AList" "HOL-Library.Char_ord" "HOL-Library.List_Lexorder"
begin

section \<open>JavaScript strings\<close>

text \<open>
  Strings are modelled as \<open>string\<close>, the list of the characters of the text, a character
  outside ASCII being kept as the bytes that encode it. \<open>String.prototype.toLowerCase\<close>
  and \<open>toUpperCase\<close> follow the Unicode tables of the engine (lower-casing turns the
  Kelvin sign into \<open>k\<close>, upper-casing turns the dotless i into \<open>I\<close>); they are
  parameters of the model, introduced with the other parts of the world outside the
  handlers. Every other operation below looks only for ASCII characters (the dot, the
  slash, the dollar sign) and compares whole strings.

  The mappings of the ASCII letters, which leave every other character as it is, are
  what the engine computes on ASCII strings; the concrete environments use them.
\<close>

definition upperLetters :: string where
  "upperLetters = ''ABCDEFGHIJKLMNOPQRSTUVWXYZ''"

definition lowerLetters :: string where
  "lowerLetters = ''abcdefghijklmnopqrstuvwxyz''"

definition lowerChar :: "char \<Rightarrow> char" where
  "lowerChar c = (case map_of (zip upperLetters lowerLetters) c of Some d \<Rightarrow> d | None \<Rightarrow> c)"

definition upperChar :: "char \<Rightarrow> char" where
  "upperChar c = (case map_of (zip lowerLetters upperLetters) c of Some d \<Rightarrow> d | None \<Rightarrow> c)"

definition ascii_lower :: "string \<Rightarrow> string" where
  "ascii_lower s = map lowerChar s"

definition ascii_upper :: "string \<Rightarrow> string" where
  "ascii_upper s = map upperChar s"

text \<open>\<open>s.startsWith(p)\<close> and \<open>xs.includes(x)\<close>.\<close>

definition startsWith :: "string \<Rightarrow> string \<Rightarrow> bool" where
  "startsWith s p = (take (length p) s = p)"

definition arr_includes :: "'a list \<Rightarrow> 'a \<Rightarrow> bool" where
  "arr_includes xs x = (x \<in> set xs)"

text \<open>
  \<open>s.replace(pattern, replacement)\<close> with a string pattern: the first occurrence of the
  pattern is replaced; in the replacement \<open>$$\<close> stands for a dollar sign, \<open>$&\<close> for the
  matched text, \<open>$`\<close> for the text before the match and \<open>$'\<close> for the text after it.
  The empty pattern matches at position 0.
\<close>

fun indexOf :: "string \<Rightarrow> string \<Rightarrow> nat option" where
  "indexOf [] pat = (if pat = [] then Some 0 else None)"
| "indexOf (c # cs) pat =
     (if startsWith (c # cs) pat then Some 0 else map_option Suc (indexOf cs pat))"

fun getSubstitution :: "string \<Rightarrow> string \<Rightarrow> string \<Rightarrow> string \<Rightarrow> string" where
  "getSubstitution m b a [] = []"
| "getSubstitution m b a [c] = [c]"
| "getSubstitution m b a (c # d # r) =
     (if c = CHR ''$'' \<and> d = CHR ''$'' then CHR ''$'' # getSubstitution m b a r
      else if c = CHR ''$'' \<and> d = CHR ''&'' then m @ getSubstitution m b a r
      else if c = CHR ''$'' \<and> d = CHR 0x60 then b @ getSubstitution m b a r
      else if c = CHR ''$'' \<and> d = CHR 0x27 then a @ getSubstitution m b a r
      else c # getSubstitution m b a (d # r))"

definition str_replace :: "string \<Rightarrow> string \<Rightarrow> string \<Rightarrow> string" where
  "str_replace s pat rep =
     (case indexOf s pat of
        None \<Rightarrow> s
      | Some i \<Rightarrow>
          (let pre = take i s; post = drop (i + length pat) s
           in pre @ getSubstitution pat pre post rep @ post))"

section \<open>Node's \<open>path\<close> module (POSIX)\<close>

type_synonym path = string

definition isSlash :: "char \<Rightarrow> bool" where
  "isSlash c = (c = CHR ''/'')"

text \<open>\<open>path.basename(p)\<close>: the last segment, trailing slashes ignored.\<close>

definition path_basename :: "path \<Rightarrow> string" where
  "path_basename p = rev (takeWhile (\<lambda>c. \<not> isSlash c) (dropWhile isSlash (rev p)))"

text \<open>
  \<open>path.extname(p)\<close>: from the last dot of the last segment to its end; empty when the
  segment has no dot, when its only dot is its first character, and for \<open>..\<close>.
\<close>

definition path_extname :: "path \<Rightarrow> string" where
  "path_extname p =
     (let b = path_basename p;
          e = rev (takeWhile (\<lambda>c. c \<noteq> CHR ''.'') (rev b))
      in if CHR ''.'' \<notin> set b then []
         else if length e + 1 = length b then []
         else if b = ''..'' then []
         else CHR ''.'' # e)"

text \<open>\<open>path.parse(p).name\<close>: the last segment without its extension.\<close>

definition path_parse_name :: "path \<Rightarrow> string" where
  "path_parse_name p =
     (let b = path_basename p in take (length b - length (path_extname p)) b)"

text \<open>
  \<open>path.basename(p, suffix)\<close>: the suffix is removed from the last segment when the
  segment ends with it and is longer than it. Node compares from the right and stops at
  the first slash, which gives the two special results below.
\<close>

definition path_basename_ext :: "path \<Rightarrow> string \<Rightarrow> string" where
  "path_basename_ext p suffix =
     (let b = path_basename p in
      if suffix = [] \<or> length p < length suffix then b
      else if suffix = p then []
      else if length suffix < length b \<and> drop (length b - length suffix) b = suffix
        then take (length b - length suffix) b
      else if length b < length suffix \<and> drop (length suffix - length b) suffix = b
        then b @ takeWhile isSlash (rev p)
      else b)"

text \<open>\<open>path.dirname(p)\<close>.\<close>

definition path_dirname :: "path \<Rightarrow> path" where
  "path_dirname p =
     (if p = [] then ''.''
      else
        (let hasRoot = isSlash (hd p);
             r = dropWhile (\<lambda>c. \<not> isSlash c) (dropWhile isSlash (rev (tl p)))
         in if r = [] then (if hasRoot then ''/'' else ''.'')
            else if hasRoot \<and> length r = 1 then ''//''
            else take (length r) p))"

text \<open>\<open>path.normalize\<close> and \<open>path.join\<close>.\<close>

fun splitSlash :: "string \<Rightarrow> string \<Rightarrow> string list" where
  "splitSlash cur [] = [rev cur]"
| "splitSlash cur (c # cs) =
     (if isSlash c then rev cur # splitSlash [] cs else splitSlash (c # cur) cs)"

fun normalizeSegs :: "bool \<Rightarrow> string list \<Rightarrow> string list \<Rightarrow> string list" where
  "normalizeSegs allowAboveRoot acc [] = rev acc"
| "normalizeSegs allowAboveRoot acc (s # ss) =
     (if s = [] \<or> s = ''.'' then normalizeSegs allowAboveRoot acc ss
      else if s = ''..'' then
        (case acc of
           [] \<Rightarrow> normalizeSegs allowAboveRoot (if allowAboveRoot then [''..''] else []) ss
         | a # as \<Rightarrow>
             if a = ''..'' then normalizeSegs allowAboveRoot (if allowAboveRoot then ''..'' # acc else acc) ss
             else normalizeSegs allowAboveRoot as ss)
      else normalizeSegs allowAboveRoot (s # acc) ss)"

fun joinSlash :: "string list \<Rightarrow> string" where
  "joinSlash [] = []"
| "joinSlash [s] = s"
| "joinSlash (s # t # ss) = s @ ''/'' @ joinSlash (t # ss)"

definition path_normalize :: "path \<Rightarrow> path" where
  "path_normalize p =
     (if p = [] then ''.''
      else
        (let isAbsolute = isSlash (hd p);
             trailingSeparator = isSlash (last p);
             res = joinSlash (normalizeSegs (\<not> isAbsolute) [] (splitSlash [] p))
         in if res = [] then
              (if isAbsolute then ''/'' else if trailingSeparator then ''./'' else ''.'')
            else (if isAbsolute then ''/'' else []) @ res
                 @ (if trailingSeparator then ''/'' else [])))"

definition path_join :: "string list \<Rightarrow> path" where
  "path_join parts =
     (let joined = joinSlash (filter (\<lambda>a. a \<noteq> []) parts)
      in if joined = [] then ''.'' else path_normalize joined)"

section \<open>Errors, promises, values and responses\<close>

text \<open>An exception with its message; the handlers read nothing else of it.\<close>

datatype js_error = Error (message: string) | TypeError (message: string)

text \<open>
  The state of a promise once nothing more can happen to it: resolved, rejected, never
  settled (\<open>Pending\<close>), or never settled because an exception escaped from an event
  callback (\<open>Uncaught\<close>, which Node reports as an uncaught exception of the process).
\<close>

datatype 'a promise = Resolved 'a | Rejected js_error | Pending | Uncaught js_error

text \<open>
  The values handed to \<open>res.json\<close>. \<open>JSON.stringify\<close> leaves out the properties of an
  object whose value is a function or \<open>undefined\<close>.
\<close>

datatype jsval =
    Str string
  | Bool bool
  | Null
  | Undefined
  | Func string
  | Arr "jsval list"
  | Obj "(string \<times> jsval) list"

definition omitted :: "jsval \<Rightarrow> bool" where
  "omitted v = (case v of Undefined \<Rightarrow> True | Func _ \<Rightarrow> True | _ \<Rightarrow> False)"

definition stringify_props :: "(string \<times> jsval) list \<Rightarrow> (string \<times> jsval) list" where
  "stringify_props kvs = filter (\<lambda>kv. \<not> omitted (snd kv)) kvs"

text \<open>
  A response: a JSON body with its status (the properties as they are serialised), or a
  file download with the name offered to the client and the transfer's error, if any.
\<close>

datatype response =
    Json nat "(string \<times> jsval) list"
  | Download path string "js_error option"

definition res_json :: "nat \<Rightarrow> (string \<times> jsval) list \<Rightarrow> response" where
  "res_json status props = Json status (stringify_props props)"

section \<open>The file system\<close>

text \<open>
  Regular files with their contents, in directory order, and the directories. A path
  names a file by its text: the handlers build every path they use from the same parts.
\<close>

record filesystem =
  files :: "(path \<times> string) list"
  dirs :: "path list"

definition isFile :: "filesystem \<Rightarrow> path \<Rightarrow> bool" where
  "isFile fs p = (p \<in> fst ` set (files fs))"

definition isDir :: "filesystem \<Rightarrow> path \<Rightarrow> bool" where
  "isDir fs p = (p \<in> set (dirs fs))"

definition existsSync :: "filesystem \<Rightarrow> path \<Rightarrow> bool" where
  "existsSync fs p = (isFile fs p \<or> isDir fs p)"

definition readFile :: "filesystem \<Rightarrow> path \<Rightarrow> string option" where
  "readFile fs p = map_of (files fs) p"

text \<open>
  The errors of the file system calls carry Node's message: the error code with its
  description, the system call, and the path in single quotes (for \<open>copyfile\<close> both
  paths).
\<close>

definition quoted :: "string \<Rightarrow> string" where
  "quoted p = [CHR 0x27] @ p @ [CHR 0x27]"

definition EISDIR :: "string \<Rightarrow> string \<Rightarrow> js_error" where
  "EISDIR syscall target =
     Error (''EISDIR: illegal operation on a directory, '' @ syscall @ '' '' @ target)"

definition ENOENT :: "string \<Rightarrow> string \<Rightarrow> js_error" where
  "ENOENT syscall target =
     Error (''ENOENT: no such file or directory, '' @ syscall @ '' '' @ target)"

definition ENOTDIR :: "string \<Rightarrow> string \<Rightarrow> js_error" where
  "ENOTDIR syscall target = Error (''ENOTDIR: not a directory, '' @ syscall @ '' '' @ target)"

definition writeFileSync :: "filesystem \<Rightarrow> path \<Rightarrow> string \<Rightarrow> js_error + filesystem" where
  "writeFileSync fs p content =
     (if isDir fs p then Inl (EISDIR ''open'' (quoted p))
      else if \<not> isDir fs (path_dirname p) then Inl (ENOENT ''open'' (quoted p))
      else Inr (fs\<lparr>files := AList.update p content (files fs)\<rparr>))"

definition unlinkSync :: "filesystem \<Rightarrow> path \<Rightarrow> js_error + filesystem" where
  "unlinkSync fs p =
     (if isFile fs p then Inr (fs\<lparr>files := AList.delete p (files fs)\<rparr>)
      else if isDir fs p then Inl (EISDIR ''unlink'' (quoted p))
      else Inl (ENOENT ''unlink'' (quoted p)))"

definition readdirSync :: "filesystem \<Rightarrow> path \<Rightarrow> js_error + string list" where
  "readdirSync fs d =
     (if isDir fs d
      then Inr (map path_basename
                 (filter (\<lambda>p. path_dirname p = d \<and> p \<noteq> d) (map fst (files fs) @ dirs fs)))
      else if isFile fs d then Inl (ENOTDIR ''scandir'' (quoted d))
      else Inl (ENOENT ''scandir'' (quoted d)))"

text \<open>
  \<open>copyFileSync(src, dst)\<close>: the destination is opened for writing as by
  \<open>writeFileSync\<close>, and a failure of either side is reported for the system call
  \<open>copyfile\<close> with both paths.
\<close>

definition copyFileSync :: "filesystem \<Rightarrow> path \<Rightarrow> path \<Rightarrow> js_error + filesystem" where
  "copyFileSync fs src dst =
     (let both = quoted src @ '' -> '' @ quoted dst
      in case readFile fs src of
           None \<Rightarrow>
             if isDir fs src then Inl (EISDIR ''copyfile'' both)
             else Inl (ENOENT ''copyfile'' both)
         | Some content \<Rightarrow>
             if isDir fs dst then Inl (EISDIR ''copyfile'' both)
             else if \<not> isDir fs (path_dirname dst) then Inl (ENOENT ''copyfile'' both)
             else Inr (fs\<lparr>files := AList.update dst content (files fs)\<rparr>))"

text \<open>The \<open>fs-extra\<close> operations: \<open>ensureDirSync\<close>, \<open>removeSync\<close>/\<open>remove\<close>, \<open>moveSync\<close>.\<close>

fun ancestors :: "nat \<Rightarrow> path \<Rightarrow> path list" where
  "ancestors 0 p = []"
| "ancestors (Suc n) p = p # (if path_dirname p = p then [] else ancestors n (path_dirname p))"

definition ensureDirSync :: "filesystem \<Rightarrow> path \<Rightarrow> filesystem" where
  "ensureDirSync fs d =
     fs\<lparr>dirs := dirs fs @ filter (\<lambda>a. a \<notin> set (dirs fs)) (rev (ancestors (Suc (length d)) d))\<rparr>"

definition under :: "path \<Rightarrow> path \<Rightarrow> bool" where
  "under d p = (p = d \<or> startsWith p (d @ ''/''))"

definition removeSync :: "filesystem \<Rightarrow> path \<Rightarrow> filesystem" where
  "removeSync fs p =
     \<lparr>files = filter (\<lambda>kv. \<not> under p (fst kv)) (files fs),
      dirs = filter (\<lambda>d. \<not> under p d) (dirs fs)\<rparr>"

text \<open>
  \<open>moveSync(src, dest)\<close> without options: the source is looked up first; the two paths
  are checked against each other; the directory of the destination is created; an
  existing destination is an error (\<open>overwrite\<close> is off); then the source is renamed.
\<close>

definition moveSync :: "filesystem \<Rightarrow> path \<Rightarrow> path \<Rightarrow> js_error + filesystem" where
  "moveSync fs src dst =
     (if \<not> existsSync fs src then Inl (ENOENT ''lstat'' (quoted src))
      else if existsSync fs dst \<and> src = dst
        then Inl (Error ''Source and destination must not be the same.'')
      else if isDir fs src \<and> existsSync fs dst \<and> \<not> isDir fs dst
        then Inl (Error (''Cannot overwrite non-directory '' @ quoted dst @ '' with directory ''
                         @ quoted src @ ''.''))
      else if \<not> isDir fs src \<and> isDir fs dst
        then Inl (Error (''Cannot overwrite directory '' @ quoted dst @ '' with non-directory ''
                         @ quoted src @ ''.''))
      else if isDir fs src \<and> under src dst
        then Inl (Error (''Cannot move '' @ quoted src @ '' to a subdirectory of itself, ''
                         @ quoted dst @ ''.''))
      else
        (let fs1 = ensureDirSync fs (path_dirname dst)
         in if existsSync fs1 dst then Inl (Error ''dest already exists.'')
            else if isDir fs1 src then
              (let mv = (\<lambda>p. if under src p then dst @ drop (length src) p else p)
               in Inr \<lparr>files = map (\<lambda>kv. (mv (fst kv), snd kv)) (files fs1),
                       dirs = map mv (dirs fs1)\<rparr>)
            else
              (case readFile fs1 src of
                 Some content \<Rightarrow>
                   Inr (fs1\<lparr>files := AList.delete src (files fs1) @ [(dst, content)]\<rparr>)
               | None \<Rightarrow> Inl (ENOENT ''rename'' (quoted src @ '' -> '' @ quoted dst)))))"

section \<open>The world outside the handlers\<close>

text \<open>
  The external tools and the case mappings of the engine are parameters of the model. A
  shell command or a spawned process runs for some time or for ever
  (\<open>pr_duration = None\<close>), exits with a code, prints to its standard error and leaves the
  file system in some state. The image library and the media tool finish with or without
  an error and leave the file system in some state.
\<close>

record proc_result =
  pr_duration :: "nat option"
  pr_exit :: nat
  pr_stderr :: string
  pr_fs :: filesystem

record sharp_call =
  sharp_input :: path
  sharp_encoder :: "(string \<times> (string \<times> nat) list) option"
  sharp_output :: path

record ffmpeg_call =
  ffmpeg_input :: path
  ffmpeg_audioCodec :: "string option"
  ffmpeg_videoCodec :: "string option"
  ffmpeg_format :: "string option"
  ffmpeg_output :: path

datatype spawn_result =
    SpawnError js_error
  | Closed nat filesystem
  | NeverCloses

record env =
  script_dir :: path
  shell :: "string \<Rightarrow> filesystem \<Rightarrow> proc_result"
  sharp :: "sharp_call \<Rightarrow> filesystem \<Rightarrow> js_error option \<times> filesystem"
  ffmpeg :: "ffmpeg_call \<Rightarrow> filesystem \<Rightarrow> js_error option \<times> filesystem"
  spawn_proc :: "string \<Rightarrow> string list \<Rightarrow> filesystem \<Rightarrow> spawn_result"
  transfer :: "path \<Rightarrow> filesystem \<Rightarrow> js_error option"
  uuidv4 :: string
  date_now :: nat
  date_iso :: string
  str_lower :: "string \<Rightarrow> string"
  str_upper :: "string \<Rightarrow> string"

text \<open>
  \<open>s.toLowerCase()\<close> and \<open>s.toUpperCase()\<close>: the mappings of the engine, which are
  parameters like the tools. The empty string has no character to map.
\<close>

definition toLowerCase :: "env \<Rightarrow> string \<Rightarrow> string" where
  "toLowerCase e s = (if s = [] then [] else str_lower e s)"

definition toUpperCase :: "env \<Rightarrow> string \<Rightarrow> string" where
  "toUpperCase e s = (if s = [] then [] else str_upper e s)"

text \<open>Every call of an external tool is logged, in order.\<close>

datatype event =
    ExecCalled string "nat option"
  | SharpToFile sharp_call
  | FfmpegRun ffmpeg_call
  | SpawnCalled string "string list"

record world =
  w_fs :: filesystem
  w_log :: "event list"

text \<open>
  \<open>child_process.exec(command, {timeout}, callback)\<close>: the callback gets an error when
  the command exits with a code other than 0 or is killed because it ran longer than
  the timeout (0 or no timeout: never killed). A command that runs for ever without a
  timeout never calls back.
\<close>

definition exec_error :: "string \<Rightarrow> string \<Rightarrow> js_error" where
  "exec_error command err = Error (''Command failed: '' @ command @ [CHR 0x0A] @ err)"

definition timed_out :: "nat option \<Rightarrow> nat option \<Rightarrow> bool" where
  "timed_out timeout duration =
     (case timeout of
        None \<Rightarrow> False
      | Some t \<Rightarrow> 0 < t \<and> (case duration of None \<Rightarrow> True | Some d \<Rightarrow> t < d))"

datatype exec_outcome = NoCallback | Callback "js_error option"

definition exec :: "env \<Rightarrow> string \<Rightarrow> nat option \<Rightarrow> world \<Rightarrow> exec_outcome \<times> world" where
  "exec e command timeout w =
     (let r = shell e command (w_fs w);
          w' = \<lparr>w_fs = pr_fs r, w_log = w_log w @ [ExecCalled command timeout]\<rparr>
      in if timed_out timeout (pr_duration r)
           then (Callback (Some (exec_error command (pr_stderr r))), w')
         else if pr_duration r = None then (NoCallback, w')
         else if pr_exit r \<noteq> 0 then (Callback (Some (exec_error command (pr_stderr r))), w')
         else (Callback None, w'))"

definition sharp_toFile ::
  "env \<Rightarrow> path \<Rightarrow> (string \<times> (string \<times> nat) list) option \<Rightarrow> path \<Rightarrow> world
     \<Rightarrow> js_error option \<times> world" where
  "sharp_toFile e inputPath encoder outputPath w =
     (let call = \<lparr>sharp_input = inputPath, sharp_encoder = encoder, sharp_output = outputPath\<rparr>;
          r = sharp e call (w_fs w)
      in (fst r, \<lparr>w_fs = snd r, w_log = w_log w @ [SharpToFile call]\<rparr>))"

definition ffmpeg_run :: "env \<Rightarrow> ffmpeg_call \<Rightarrow> world \<Rightarrow> js_error option \<times> world" where
  "ffmpeg_run e call w =
     (let r = ffmpeg e call (w_fs w)
      in (fst r, \<lparr>w_fs = snd r, w_log = w_log w @ [FfmpegRun call]\<rparr>))"

text \<open>Removing a file if it exists, with the error of \<open>unlinkSync\<close> if it throws.\<close>

definition unlink_if_exists :: "filesystem \<Rightarrow> path \<Rightarrow> js_error + filesystem" where
  "unlink_if_exists fs p = (if existsSync fs p then unlinkSync fs p else Inr fs)"

text \<open>The same inside \<open>try { ... } catch { console.error(...) }\<close>.\<close>

definition try_unlink_if_exists :: "filesystem \<Rightarrow> path \<Rightarrow> filesystem" where
  "try_unlink_if_exists fs p = (case unlink_if_exists fs p of Inl _ \<Rightarrow> fs | Inr fs' \<Rightarrow> fs')"

section \<open>Classification by extension\<close>

subsection \<open>\<open>server.cjs\<close>: \<open>getFileCategory\<close>\<close>

definition imageExts :: "string list" where
  "imageExts = [''png'', ''jpg'', ''jpeg'', ''webp'', ''gif'', ''bmp'', ''tiff'']"

definition docExts :: "string list" where
  "docExts = [''pdf'', ''doc'', ''docx'', ''txt'', ''rtf'', ''html'', ''odt'']"

definition audioExts :: "string list" where
  "audioExts = [''mp3'', ''wav'', ''flac'', ''aac'', ''ogg'', ''m4a'']"

definition videoExts :: "string list" where
  "videoExts = [''mp4'', ''avi'', ''mov'', ''mkv'', ''webm'', ''wmv'']"

definition getFileCategory_cjs :: "env \<Rightarrow> string \<Rightarrow> string" where
  "getFileCategory_cjs e fileName =
     (let ext = toLowerCase e (drop 1 (path_extname fileName))
      in if arr_includes imageExts ext then ''images''
         else if arr_includes docExts ext then ''documents''
         else if arr_includes audioExts ext then ''audio''
         else if arr_includes videoExts ext then ''video''
         else ''documents'')"

subsection \<open>\<open>part_001\<close>: \<open>getFileCategory\<close>\<close>

definition categories_p1 :: "(string \<times> string list) list" where
  "categories_p1 =
     [(''image'', [''jpg'', ''jpeg'', ''png'', ''webp'', ''gif'', ''bmp'', ''tiff'', ''svg'', ''ico'']),
      (''document'', [''pdf'', ''docx'', ''doc'', ''txt'', ''rtf'', ''odt'', ''pages'']),
      (''audio'', [''mp3'', ''wav'', ''flac'', ''aac'', ''ogg'', ''m4a'', ''wma'']),
      (''video'', [''mp4'', ''avi'', ''mov'', ''mkv'', ''wmv'', ''flv'', ''webm''])]"

text \<open>The loop over \<open>Object.entries(categories)\<close>, in insertion order.\<close>

fun findCategory :: "(string \<times> string list) list \<Rightarrow> string \<Rightarrow> string" where
  "findCategory [] ext = ''document''"
| "findCategory ((category, extensions) # rest) ext =
     (if arr_includes extensions ext then category else findCategory rest ext)"

definition getFileCategory_p1 :: "env \<Rightarrow> string \<Rightarrow> string" where
  "getFileCategory_p1 e filename =
     (let ext = drop 1 (toLowerCase e (path_extname filename))
      in findCategory categories_p1 ext)"

section \<open>\<open>server.cjs\<close>: the converters and the convert handler\<close>

definition SUPPORTED_FORMATS :: "(string \<times> string list) list" where
  "SUPPORTED_FORMATS =
     [(''images'', [''PNG'', ''JPG'', ''JPEG'', ''WEBP'', ''GIF'', ''BMP'', ''TIFF'']),
      (''documents'', [''PDF'', ''DOCX'', ''DOC'', ''TXT'', ''RTF'', ''HTML'', ''ODT'']),
      (''audio'', [''MP3'', ''WAV'', ''FLAC'', ''AAC'', ''OGG'', ''M4A'']),
      (''video'', [''MP4'', ''AVI'', ''MOV'', ''MKV'', ''WEBM'', ''WMV''])]"

text \<open>
  \<open>req.file\<close> as the upload middleware leaves it (the original name and the path of the
  stored upload) and the \<open>outputFormat\<close> field of the body, a string when present.
\<close>

record upload =
  originalname :: string
  file_path :: path

record request =
  req_file :: "upload option"
  req_outputFormat :: "string option"

definition nl :: string where
  "nl = [CHR 0x0A]"

text \<open>\<open>inputPath.replace(path.extname(inputPath), suffix)\<close>, as the image and media converters use it.\<close>

definition replace_ext :: "path \<Rightarrow> string \<Rightarrow> path" where
  "replace_ext inputPath suffix = str_replace inputPath (path_extname inputPath) suffix"

subsection \<open>\<open>ImageConverter.convert\<close>\<close>

text \<open>
  The format switch. A case calls the encoder method of its format on the \<open>sharp\<close>
  instance and then \<open>toFile\<close>; the default case throws. The instance has no method
  \<open>bmp\<close> (the library writes no BMP files), so the call \<open>sharpInstance.bmp()\<close> of the
  case \<open>BMP\<close> throws a \<open>TypeError\<close> before \<open>toFile\<close> is reached.
\<close>

datatype image_case =
    Encode "string \<times> (string \<times> nat) list"
  | Throw js_error

definition image_switch_cjs :: "env \<Rightarrow> string \<Rightarrow> image_case" where
  "image_switch_cjs e outputFormat =
     (let fmt = toUpperCase e outputFormat
      in if fmt = ''PNG'' then Encode (''png'', [(''quality'', 90)])
         else if fmt = ''JPG'' \<or> fmt = ''JPEG'' then Encode (''jpeg'', [(''quality'', 90)])
         else if fmt = ''WEBP'' then Encode (''webp'', [(''quality'', 90)])
         else if fmt = ''GIF'' then Encode (''gif'', [])
         else if fmt = ''BMP'' then Throw (TypeError ''sharpInstance.bmp is not a function'')
         else if fmt = ''TIFF'' then Encode (''tiff'', [])
         else Throw (Error (''Unsupported image format: '' @ outputFormat)))"

definition ImageConverter_convert ::
  "env \<Rightarrow> path \<Rightarrow> string \<Rightarrow> world \<Rightarrow> path promise \<times> world" where
  "ImageConverter_convert e inputPath outputFormat w =
     (let outputPath = replace_ext inputPath (''.'' @ toLowerCase e outputFormat)
      in case image_switch_cjs e outputFormat of
           Throw err \<Rightarrow> (Rejected err, w)
         | Encode encoder \<Rightarrow>
             (case sharp_toFile e inputPath (Some encoder) outputPath w of
                (None, w') \<Rightarrow> (Resolved outputPath, w')
              | (Some err, w') \<Rightarrow> (Rejected err, w')))"

subsection \<open>\<open>DocumentConverter.convert\<close>\<close>

definition doc_txt_content :: "env \<Rightarrow> path \<Rightarrow> string" where
  "doc_txt_content e inputPath =
     ''Document converted from '' @ toUpperCase e (drop 1 (path_extname inputPath)) @ '' to TXT''
     @ nl @ nl @ ''Original file: '' @ path_basename inputPath
     @ nl @ ''Converted on: '' @ date_iso e
     @ nl @ nl @ ''Note: This is a basic text conversion. For full document conversion, LibreOffice is required.''"

definition doc_noteContent :: "env \<Rightarrow> path \<Rightarrow> string \<Rightarrow> string" where
  "doc_noteContent e inputPath outputFormat =
     ''# Conversion Note'' @ nl @ nl
     @ ''This file requires LibreOffice for proper conversion.'' @ nl
     @ ''Original format: '' @ toUpperCase e (drop 1 (path_extname inputPath)) @ nl
     @ ''Requested format: '' @ toUpperCase e outputFormat @ nl @ nl
     @ ''To enable full document conversion, install LibreOffice:'' @ nl
     @ ''sudo apt-get install libreoffice  # Linux'' @ nl
     @ ''brew install --cask libreoffice  # macOS''"

text \<open>The output path and the path of the note, next to the input.\<close>

definition doc_outputPath :: "env \<Rightarrow> path \<Rightarrow> string \<Rightarrow> path" where
  "doc_outputPath e inputPath outputFormat =
     path_join [path_dirname inputPath,
                path_parse_name inputPath @ ''.'' @ toLowerCase e outputFormat]"

definition doc_noteOutputPath :: "path \<Rightarrow> path" where
  "doc_noteOutputPath inputPath =
     path_join [path_dirname inputPath, path_parse_name inputPath @ ''_conversion_note.txt'']"

text \<open>The \<open>catch\<close> block: a text file for the target TXT, a note file for every other target.\<close>

definition DocumentConverter_catch ::
  "env \<Rightarrow> path \<Rightarrow> string \<Rightarrow> world \<Rightarrow> path promise \<times> world" where
  "DocumentConverter_catch e inputPath outputFormat w =
     (let outputPath = doc_outputPath e inputPath outputFormat
      in if toUpperCase e outputFormat = ''TXT'' then
           (case writeFileSync (w_fs w) outputPath (doc_txt_content e inputPath) of
              Inl err \<Rightarrow> (Rejected err, w)
            | Inr fs' \<Rightarrow> (Resolved outputPath, w\<lparr>w_fs := fs'\<rparr>))
         else
           (let noteOutputPath = doc_noteOutputPath inputPath
            in case writeFileSync (w_fs w) noteOutputPath
                      (doc_noteContent e inputPath outputFormat) of
                 Inl err \<Rightarrow> (Rejected err, w)
               | Inr fs' \<Rightarrow> (Resolved noteOutputPath, w\<lparr>w_fs := fs'\<rparr>)))"

definition soffice_command :: "env \<Rightarrow> path \<Rightarrow> string \<Rightarrow> string" where
  "soffice_command e inputPath outputFormat =
     ''soffice --headless --convert-to '' @ toLowerCase e outputFormat @ '' '' @ [CHR 0x22]
     @ inputPath @ [CHR 0x22] @ '' --outdir '' @ [CHR 0x22] @ path_dirname inputPath @ [CHR 0x22]"

definition DocumentConverter_convert ::
  "env \<Rightarrow> path \<Rightarrow> string \<Rightarrow> world \<Rightarrow> path promise \<times> world" where
  "DocumentConverter_convert e inputPath outputFormat w =
     (let outputPath = doc_outputPath e inputPath outputFormat
      in case exec e ''which soffice || which libreoffice'' None w of
           (NoCallback, w1) \<Rightarrow> (Pending, w1)
         | (Callback (Some err), w1) \<Rightarrow> DocumentConverter_catch e inputPath outputFormat w1
         | (Callback None, w1) \<Rightarrow>
             (case exec e (soffice_command e inputPath outputFormat) (Some 30000) w1 of
                (NoCallback, w2) \<Rightarrow> (Pending, w2)
              | (Callback (Some err), w2) \<Rightarrow> DocumentConverter_catch e inputPath outputFormat w2
              | (Callback None, w2) \<Rightarrow>
                  if existsSync (w_fs w2) outputPath then (Resolved outputPath, w2)
                  else DocumentConverter_catch e inputPath outputFormat w2))"

subsection \<open>\<open>MediaConverter.convert\<close>\<close>

definition media_noteContent :: "env \<Rightarrow> path \<Rightarrow> string \<Rightarrow> string" where
  "media_noteContent e inputPath outputFormat =
     ''# Media Conversion Note'' @ nl @ nl
     @ ''This file requires FFmpeg for proper conversion.'' @ nl
     @ ''Original format: '' @ toUpperCase e (drop 1 (path_extname inputPath)) @ nl
     @ ''Requested format: '' @ toUpperCase e outputFormat @ nl @ nl
     @ ''To enable media conversion, install FFmpeg:'' @ nl
     @ ''sudo apt-get install ffmpeg  # Linux'' @ nl
     @ ''brew install ffmpeg  # macOS'' @ nl
     @ ''choco install ffmpeg  # Windows''"

definition media_switch_cjs :: "env \<Rightarrow> path \<Rightarrow> string \<Rightarrow> path \<Rightarrow> ffmpeg_call" where
  "media_switch_cjs e inputPath outputFormat outputPath =
     (let fmt = toUpperCase e outputFormat;
          c = \<lparr>ffmpeg_input = inputPath, ffmpeg_audioCodec = None, ffmpeg_videoCodec = None,
               ffmpeg_format = None, ffmpeg_output = outputPath\<rparr>
      in if fmt = ''MP3'' then
           c\<lparr>ffmpeg_audioCodec := Some ''libmp3lame'', ffmpeg_format := Some ''mp3''\<rparr>
         else if fmt = ''WAV'' then
           c\<lparr>ffmpeg_audioCodec := Some ''pcm_s16le'', ffmpeg_format := Some ''wav''\<rparr>
         else if fmt = ''MP4'' then
           c\<lparr>ffmpeg_videoCodec := Some ''libx264'', ffmpeg_audioCodec := Some ''aac'',
             ffmpeg_format := Some ''mp4''\<rparr>
         else if fmt = ''AVI'' then
           c\<lparr>ffmpeg_videoCodec := Some ''libx264'', ffmpeg_audioCodec := Some ''libmp3lame'',
             ffmpeg_format := Some ''avi''\<rparr>
         else if fmt = ''WEBM'' then
           c\<lparr>ffmpeg_videoCodec := Some ''libvpx'', ffmpeg_audioCodec := Some ''libvorbis'',
             ffmpeg_format := Some ''webm''\<rparr>
         else c\<lparr>ffmpeg_format := Some (toLowerCase e outputFormat)\<rparr>)"

text \<open>
  The \<open>end\<close> event resolves with the output path. The \<open>error\<close> listener writes the note
  and resolves with its path; an exception of \<open>writeFileSync\<close> there escapes from the
  listener, and the promise is never settled.
\<close>

definition MediaConverter_convert ::
  "env \<Rightarrow> path \<Rightarrow> string \<Rightarrow> world \<Rightarrow> path promise \<times> world" where
  "MediaConverter_convert e inputPath outputFormat w =
     (let outputPath = replace_ext inputPath (''.'' @ toLowerCase e outputFormat)
      in case ffmpeg_run e (media_switch_cjs e inputPath outputFormat outputPath) w of
           (None, w') \<Rightarrow> (Resolved outputPath, w')
         | (Some err, w') \<Rightarrow>
             (let noteOutputPath = replace_ext inputPath ''_conversion_note.txt''
              in case writeFileSync (w_fs w') noteOutputPath
                        (media_noteContent e inputPath outputFormat) of
                   Inl ex \<Rightarrow> (Uncaught ex, w')
                 | Inr fs' \<Rightarrow> (Resolved noteOutputPath, w'\<lparr>w_fs := fs'\<rparr>)))"

subsection \<open>\<open>POST /api/convert\<close>\<close>

text \<open>The \<open>switch\<close> on the category.\<close>

definition dispatch_cjs ::
  "env \<Rightarrow> string \<Rightarrow> path \<Rightarrow> string \<Rightarrow> world \<Rightarrow> path promise \<times> world" where
  "dispatch_cjs e category inputPath outputFormat w =
     (if category = ''images'' then ImageConverter_convert e inputPath outputFormat w
      else if category = ''documents'' then DocumentConverter_convert e inputPath outputFormat w
      else if category = ''audio'' \<or> category = ''video''
        then MediaConverter_convert e inputPath outputFormat w
      else (Rejected (Error (''Unsupported file category: '' @ category)), w))"

text \<open>The outer \<open>catch\<close>: no file is removed.\<close>

definition server_error_cjs :: "js_error \<Rightarrow> response" where
  "server_error_cjs err =
     res_json 500 [(''success'', Bool False),
                   (''error'', Str (if message err = [] then ''Server error occurred''
                                    else message err))]"

text \<open>
  The inner \<open>catch\<close>: the stored upload is removed if it exists, and nothing else; an
  exception of \<open>unlinkSync\<close> reaches the outer \<open>catch\<close>.
\<close>

definition conversion_error_cjs ::
  "upload \<Rightarrow> js_error \<Rightarrow> world \<Rightarrow> response option \<times> world" where
  "conversion_error_cjs inputFile conversionError w =
     (case unlink_if_exists (w_fs w) (file_path inputFile) of
        Inl err \<Rightarrow> (Some (server_error_cjs err), w)
      | Inr fs' \<Rightarrow>
          (Some (res_json 500 [(''success'', Bool False),
                               (''error'', Str (''Conversion failed: '' @ message conversionError))]),
           w\<lparr>w_fs := fs'\<rparr>))"

text \<open>
  The cleanup that the download callback schedules with \<open>setTimeout(..., 5000)\<close>: both
  removals stand in one \<open>try\<close> block, so an exception of the first skips the second.
\<close>

definition cleanup_cjs :: "filesystem \<Rightarrow> path \<Rightarrow> path \<Rightarrow> filesystem" where
  "cleanup_cjs fs inputPath outputPath =
     (case unlink_if_exists fs inputPath of
        Inl _ \<Rightarrow> fs
      | Inr fs1 \<Rightarrow> (case unlink_if_exists fs1 outputPath of Inl _ \<Rightarrow> fs1 | Inr fs2 \<Rightarrow> fs2))"

text \<open>
  After the converter has returned a path: the existence check, the download, and the
  file system once the scheduled cleanup has run.
\<close>

definition deliver_cjs ::
  "env \<Rightarrow> upload \<Rightarrow> string \<Rightarrow> path \<Rightarrow> world \<Rightarrow> response option \<times> world" where
  "deliver_cjs e inputFile outputFormat outputPath w =
     (if \<not> existsSync (w_fs w) outputPath
        then conversion_error_cjs inputFile
               (Error ''Conversion failed - output file not created'') w
      else
        (let outputFileName =
               path_parse_name (originalname inputFile) @ ''.'' @ toLowerCase e outputFormat
         in (Some (Download outputPath outputFileName (transfer e outputPath (w_fs w))),
             w\<lparr>w_fs := cleanup_cjs (w_fs w) (file_path inputFile) outputPath\<rparr>)))"

definition convert_cjs :: "env \<Rightarrow> request \<Rightarrow> world \<Rightarrow> response option \<times> world" where
  "convert_cjs e req w =
     (case req_file req of
        None \<Rightarrow> (Some (res_json 400 [(''success'', Bool False),
                                      (''error'', Str ''No file uploaded'')]), w)
      | Some inputFile \<Rightarrow>
          (case req_outputFormat req of
             None \<Rightarrow> (Some (res_json 400 [(''success'', Bool False),
                                           (''error'', Str ''Output format not specified'')]), w)
           | Some outputFormat \<Rightarrow>
               if outputFormat = [] then
                 (Some (res_json 400 [(''success'', Bool False),
                                      (''error'', Str ''Output format not specified'')]), w)
               else
                 (let category = getFileCategory_cjs e (originalname inputFile)
                  in case dispatch_cjs e category (file_path inputFile) outputFormat w of
                       (Resolved outputPath, w') \<Rightarrow>
                         deliver_cjs e inputFile outputFormat outputPath w'
                     | (Rejected conversionError, w') \<Rightarrow>
                         conversion_error_cjs inputFile conversionError w'
                     | (Pending, w') \<Rightarrow> (None, w')
                     | (Uncaught ex, w') \<Rightarrow> (None, w'))))"

section \<open>\<open>part_000\<close>: capabilities, formats, LibreOffice and the convert handler\<close>

text \<open>A number printed in decimal, as a template literal prints it.\<close>

fun decimal :: "nat \<Rightarrow> string" where
  "decimal n =
     (if n < 10 then [''0123456789'' ! n]
      else decimal (n div 10) @ [''0123456789'' ! (n mod 10)])"

declare decimal.simps [simp del]

definition uploadsDir_p0 :: "env \<Rightarrow> path" where
  "uploadsDir_p0 e = path_join [script_dir e, ''uploads'']"

subsection \<open>\<open>checkCapabilities\<close>\<close>

record capabilities =
  cap_sharp :: bool
  cap_ffmpeg :: bool
  cap_libreoffice :: bool

definition checkCapabilities :: "env \<Rightarrow> world \<Rightarrow> capabilities promise \<times> world" where
  "checkCapabilities e w =
     (case exec e ''ffmpeg -version'' None w of
        (NoCallback, w1) \<Rightarrow> (Pending, w1)
      | (Callback error, w1) \<Rightarrow>
          (case exec e ''libreoffice --headless --version'' None w1 of
             (NoCallback, w2) \<Rightarrow> (Pending, w2)
           | (Callback None, w2) \<Rightarrow>
               (Resolved \<lparr>cap_sharp = True, cap_ffmpeg = (error = None),
                          cap_libreoffice = True\<rparr>, w2)
           | (Callback (Some err), w2) \<Rightarrow>
               (case exec e ''soffice --headless --version'' None w2 of
                  (NoCallback, w3) \<Rightarrow> (Pending, w3)
                | (Callback error2, w3) \<Rightarrow>
                    (Resolved \<lparr>cap_sharp = True, cap_ffmpeg = (error = None),
                               cap_libreoffice = (error2 = None)\<rparr>, w3))))"

subsection \<open>\<open>GET /api/formats/:inputFormat\<close>\<close>

definition formatMap :: "capabilities \<Rightarrow> (string \<times> string list) list" where
  "formatMap caps =
     [(''jpg'', [''png'', ''webp'', ''tiff'', ''bmp'', ''jpeg'']),
      (''jpeg'', [''png'', ''webp'', ''tiff'', ''bmp'', ''jpg'']),
      (''png'', [''jpg'', ''jpeg'', ''webp'', ''tiff'', ''bmp'']),
      (''webp'', [''jpg'', ''jpeg'', ''png'', ''tiff'', ''bmp'']),
      (''tiff'', [''jpg'', ''jpeg'', ''png'', ''webp'', ''bmp'']),
      (''bmp'', [''jpg'', ''jpeg'', ''png'', ''webp'', ''tiff'']),
      (''mp4'', if cap_ffmpeg caps then [''avi'', ''mov'', ''wmv'', ''flv''] else []),
      (''avi'', if cap_ffmpeg caps then [''mp4'', ''mov'', ''wmv'', ''flv''] else []),
      (''mov'', if cap_ffmpeg caps then [''mp4'', ''avi'', ''wmv'', ''flv''] else []),
      (''wmv'', if cap_ffmpeg caps then [''mp4'', ''avi'', ''mov'', ''flv''] else []),
      (''flv'', if cap_ffmpeg caps then [''mp4'', ''avi'', ''mov'', ''wmv''] else []),
      (''mp3'', if cap_ffmpeg caps then [''wav'', ''ogg'', ''aac'', ''m4a''] else []),
      (''wav'', if cap_ffmpeg caps then [''mp3'', ''ogg'', ''aac'', ''m4a''] else []),
      (''ogg'', if cap_ffmpeg caps then [''mp3'', ''wav'', ''aac'', ''m4a''] else []),
      (''aac'', if cap_ffmpeg caps then [''mp3'', ''wav'', ''ogg'', ''m4a''] else []),
      (''m4a'', if cap_ffmpeg caps then [''mp3'', ''wav'', ''ogg'', ''aac''] else []),
      (''pdf'', if cap_libreoffice caps then [''docx'', ''odt'', ''txt'', ''rtf''] else []),
      (''doc'', if cap_libreoffice caps then [''pdf'', ''docx'', ''odt'', ''txt'', ''rtf''] else []),
      (''docx'', if cap_libreoffice caps then [''pdf'', ''doc'', ''odt'', ''txt'', ''rtf''] else []),
      (''xls'', if cap_libreoffice caps then [''xlsx'', ''ods'', ''csv''] else []),
      (''xlsx'', if cap_libreoffice caps then [''xls'', ''ods'', ''csv''] else []),
      (''ppt'', if cap_libreoffice caps then [''pptx'', ''odp'', ''pdf''] else []),
      (''pptx'', if cap_libreoffice caps then [''ppt'', ''odp'', ''pdf''] else []),
      (''odt'', if cap_libreoffice caps then [''pdf'', ''doc'', ''docx'', ''txt'', ''rtf''] else []),
      (''ods'', if cap_libreoffice caps then [''xls'', ''xlsx'', ''csv''] else []),
      (''odp'', if cap_libreoffice caps then [''ppt'', ''pptx'', ''pdf''] else []),
      (''rtf'', if cap_libreoffice caps then [''pdf'', ''doc'', ''docx'', ''odt'', ''txt''] else []),
      (''txt'', if cap_libreoffice caps then [''pdf'', ''doc'', ''docx'', ''odt'', ''rtf''] else [])]"

text \<open>
  \<open>formatMap\<close> is an object literal, so \<open>formatMap[key]\<close> finds the object's own
  properties first and then the properties it inherits from \<open>Object.prototype\<close>: the
  functions of every object, and \<open>__proto__\<close>, which is \<open>Object.prototype\<close> itself (an
  object without enumerable properties). Every other key gives \<open>undefined\<close>.
\<close>

definition object_prototype :: "(string \<times> jsval) list" where
  "object_prototype =
     [(''constructor'', Func ''Object''),
      (''__proto__'', Obj []),
      (''hasOwnProperty'', Func ''hasOwnProperty''),
      (''isPrototypeOf'', Func ''isPrototypeOf''),
      (''propertyIsEnumerable'', Func ''propertyIsEnumerable''),
      (''toLocaleString'', Func ''toLocaleString''),
      (''toString'', Func ''toString''),
      (''valueOf'', Func ''valueOf''),
      (''__defineGetter__'', Func ''__defineGetter__''),
      (''__defineSetter__'', Func ''__defineSetter__''),
      (''__lookupGetter__'', Func ''__lookupGetter__''),
      (''__lookupSetter__'', Func ''__lookupSetter__'')]"

definition object_get :: "(string \<times> string list) list \<Rightarrow> string \<Rightarrow> jsval" where
  "object_get own key =
     (case map_of own key of
        Some targets \<Rightarrow> Arr (map Str targets)
      | None \<Rightarrow> (case map_of object_prototype key of Some v \<Rightarrow> v | None \<Rightarrow> Undefined))"

definition truthy :: "jsval \<Rightarrow> bool" where
  "truthy v =
     (case v of
        Undefined \<Rightarrow> False
      | Null \<Rightarrow> False
      | Bool b \<Rightarrow> b
      | Str s \<Rightarrow> s \<noteq> []
      | _ \<Rightarrow> True)"

definition api_formats_p0 :: "env \<Rightarrow> string \<Rightarrow> world \<Rightarrow> response option \<times> world" where
  "api_formats_p0 e inputFormat w =
     (case checkCapabilities e w of
        (Resolved caps, w') \<Rightarrow>
          (let found = object_get (formatMap caps) (toLowerCase e inputFormat);
               supportedFormats = (if truthy found then found else Arr [])
           in (Some (res_json 200 [(''formats'', supportedFormats)]), w'))
      | (Rejected err, w') \<Rightarrow> (None, w')
      | (Pending, w') \<Rightarrow> (None, w')
      | (Uncaught ex, w') \<Rightarrow> (None, w'))"

subsection \<open>\<open>convertWithLibreOffice\<close>\<close>

definition libreoffice_command_p0 :: "string \<Rightarrow> path \<Rightarrow> path \<Rightarrow> string" where
  "libreoffice_command_p0 outputFormat outputDir tempInputPath =
     ''libreoffice --headless --convert-to '' @ outputFormat @ '' --outdir '' @ [CHR 0x22]
     @ outputDir @ [CHR 0x22] @ '' '' @ [CHR 0x22] @ tempInputPath @ [CHR 0x22]"

text \<open>
  The search for the output file in the callback of \<open>exec\<close>, once the command has ended
  without an error. An exception of \<open>readdirSync\<close> escapes from the callback.
\<close>

definition find_output_p0 :: "filesystem \<Rightarrow> path \<Rightarrow> path \<Rightarrow> string \<Rightarrow> path promise" where
  "find_output_p0 fs inputPath outputDir outputFormat =
     (let baseNameWithoutExt = path_parse_name (path_basename inputPath);
          expectedOutputPath = path_join [outputDir, baseNameWithoutExt @ ''.'' @ outputFormat]
      in if existsSync fs expectedOutputPath then Resolved expectedOutputPath
         else
           (case readdirSync fs outputDir of
              Inl ex \<Rightarrow> Uncaught ex
            | Inr names \<Rightarrow>
                (case find (\<lambda>name. startsWith name baseNameWithoutExt) names of
                   Some outputFile \<Rightarrow>
                     if outputFile \<noteq> [] then Resolved (path_join [outputDir, outputFile])
                     else Rejected
                       (Error ''LibreOffice conversion completed but output file not found'')
                 | None \<Rightarrow>
                     Rejected
                       (Error ''LibreOffice conversion completed but output file not found''))))"

definition convertWithLibreOffice ::
  "env \<Rightarrow> path \<Rightarrow> path \<Rightarrow> string \<Rightarrow> world \<Rightarrow> path promise \<times> world" where
  "convertWithLibreOffice e inputPath outputDir outputFormat w =
     (let tempDir = path_join [script_dir e, ''temp'', uuidv4 e];
          fs1 = ensureDirSync (w_fs w) tempDir;
          tempInputPath = path_join [tempDir, path_basename inputPath]
      in case copyFileSync fs1 inputPath tempInputPath of
           Inl ex \<Rightarrow> (Rejected ex, w\<lparr>w_fs := fs1\<rparr>)
         | Inr fs2 \<Rightarrow>
             (case exec e (libreoffice_command_p0 outputFormat outputDir tempInputPath)
                     (Some 30000) (w\<lparr>w_fs := fs2\<rparr>) of
                (NoCallback, w3) \<Rightarrow> (Pending, w3)
              | (Callback error, w3) \<Rightarrow>
                  (let fs4 = removeSync (w_fs w3) tempDir; w4 = w3\<lparr>w_fs := fs4\<rparr>
                   in case error of
                        Some err \<Rightarrow>
                          (Rejected (Error (''LibreOffice conversion failed: '' @ message err)), w4)
                      | None \<Rightarrow> (find_output_p0 fs4 inputPath outputDir outputFormat, w4))))"

subsection \<open>\<open>POST /api/convert\<close>\<close>

definition image_formats_p0 :: "string list" where
  "image_formats_p0 = [''jpg'', ''jpeg'', ''png'', ''webp'', ''tiff'', ''bmp'']"

definition media_exts_p0 :: "string list" where
  "media_exts_p0 = [''mp4'', ''avi'', ''mov'', ''wmv'', ''flv'', ''mp3'', ''wav'', ''ogg'', ''aac'', ''m4a'']"

definition doc_exts_p0 :: "string list" where
  "doc_exts_p0 = [''pdf'', ''doc'', ''docx'', ''xls'', ''xlsx'', ''ppt'', ''pptx'', ''odt'', ''ods'', ''odp'', ''rtf'', ''txt'']"

definition image_encoder_p0 :: "string \<Rightarrow> (string \<times> (string \<times> nat) list) option" where
  "image_encoder_p0 outputFormat =
     (if outputFormat = ''jpg'' \<or> outputFormat = ''jpeg'' then Some (''jpeg'', [(''quality'', 90)])
      else if outputFormat = ''png'' then Some (''png'', [(''compressionLevel'', 6)])
      else if outputFormat = ''webp'' then Some (''webp'', [(''quality'', 90)])
      else None)"

text \<open>
  The three conversion branches. The result is what the \<open>try\<close> block has reached when the
  branch ends: it goes on (\<open>Resolved\<close>), it throws (\<open>Rejected\<close>), or it never continues.
\<close>

definition branch_p0 ::
  "env \<Rightarrow> string \<Rightarrow> path \<Rightarrow> string \<Rightarrow> path \<Rightarrow> world \<Rightarrow> unit promise \<times> world" where
  "branch_p0 e origName filePath outputFormat outputPath w =
     (let inputExt = drop 1 (toLowerCase e (path_extname origName))
      in if arr_includes image_formats_p0 inputExt \<and> arr_includes image_formats_p0 outputFormat
         then
           (case sharp_toFile e filePath (image_encoder_p0 outputFormat) outputPath w of
              (None, w') \<Rightarrow> (Resolved (), w')
            | (Some err, w') \<Rightarrow> (Rejected err, w'))
         else if arr_includes media_exts_p0 inputExt then
           (case ffmpeg_run e \<lparr>ffmpeg_input = filePath, ffmpeg_audioCodec = None,
                                ffmpeg_videoCodec = None, ffmpeg_format = None,
                                ffmpeg_output = outputPath\<rparr> w of
              (None, w') \<Rightarrow> (Resolved (), w')
            | (Some err, w') \<Rightarrow> (Rejected err, w'))
         else if arr_includes doc_exts_p0 inputExt then
           (case convertWithLibreOffice e filePath (uploadsDir_p0 e) outputFormat w of
              (Resolved found, w') \<Rightarrow>
                (let baseNameWithoutExt = path_parse_name origName;
                     libreOfficeOutputPath =
                       path_join [uploadsDir_p0 e, baseNameWithoutExt @ ''.'' @ outputFormat]
                 in if existsSync (w_fs w') libreOfficeOutputPath then
                      (case moveSync (w_fs w') libreOfficeOutputPath outputPath of
                         Inl ex \<Rightarrow> (Rejected ex, w')
                       | Inr fs' \<Rightarrow> (Resolved (), w'\<lparr>w_fs := fs'\<rparr>))
                    else (Rejected
                            (Error ''LibreOffice conversion failed - output file not found''), w'))
            | (Rejected err, w') \<Rightarrow> (Rejected err, w')
            | (Pending, w') \<Rightarrow> (Pending, w')
            | (Uncaught ex, w') \<Rightarrow> (Uncaught ex, w'))
         else (Rejected (Error (''Unsupported conversion: '' @ inputExt @ '' to '' @ outputFormat)), w))"

text \<open>\<open>tempFiles.forEach\<close>: every removal in a \<open>try\<close> block of its own.\<close>

definition cleanup_p0 :: "filesystem \<Rightarrow> path list \<Rightarrow> filesystem" where
  "cleanup_p0 fs tempFiles = foldl try_unlink_if_exists fs tempFiles"

definition convert_p0 :: "env \<Rightarrow> request \<Rightarrow> world \<Rightarrow> response option \<times> world" where
  "convert_p0 e req w =
     (case req_file req of
        None \<Rightarrow> (Some (res_json 400 [(''error'', Str ''No file uploaded'')]), w)
      | Some f \<Rightarrow>
          (case req_outputFormat req of
             None \<Rightarrow> (Some (res_json 400 [(''error'', Str ''Output format not specified'')]), w)
           | Some outputFormat \<Rightarrow>
               if outputFormat = [] then
                 (Some (res_json 400 [(''error'', Str ''Output format not specified'')]), w)
               else
                 (let filePath = file_path f;
                      outputFileName = path_parse_name (originalname f) @ ''.'' @ outputFormat;
                      outputPath = path_join [uploadsDir_p0 e,
                                     ''converted_'' @ decimal (date_now e) @ ''_'' @ outputFileName];
                      tempFiles = [filePath, outputPath];
                      failed = (\<lambda>err w'.
                        (Some (res_json 500 [(''error'', Str ''Conversion failed''),
                                             (''details'', Str (message err))]),
                         w'\<lparr>w_fs := cleanup_p0 (w_fs w') tempFiles\<rparr>))
                  in case branch_p0 e (originalname f) filePath outputFormat outputPath w of
                       (Resolved u, w') \<Rightarrow>
                         if \<not> existsSync (w_fs w') outputPath then
                           failed (Error ''Conversion completed but output file not found'') w'
                         else
                           (Some (Download outputPath outputFileName
                                    (transfer e outputPath (w_fs w'))),
                            w'\<lparr>w_fs := cleanup_p0 (w_fs w') tempFiles\<rparr>)
                     | (Rejected err, w') \<Rightarrow> failed err w'
                     | (Pending, w') \<Rightarrow> (None, w')
                     | (Uncaught ex, w') \<Rightarrow> (None, w'))))"

section \<open>\<open>part_001\<close>: storage names, the converters and the convert handler\<close>

definition uploadsDir_p1 :: "env \<Rightarrow> path" where
  "uploadsDir_p1 e = path_join [script_dir e, ''uploads'']"

definition outputsDir_p1 :: "env \<Rightarrow> path" where
  "outputsDir_p1 e = path_join [script_dir e, ''outputs'']"

text \<open>
  \<open>multer.diskStorage\<close>: the stored name is a fresh token, a dash and the original name;
  the upload is stored under that name in the uploads directory.
\<close>

definition storage_filename_p1 :: "string \<Rightarrow> string \<Rightarrow> string" where
  "storage_filename_p1 token origName = token @ ''-'' @ origName"

definition stored_upload_p1 :: "env \<Rightarrow> string \<Rightarrow> upload" where
  "stored_upload_p1 e origName =
     \<lparr>originalname = origName,
      file_path = path_join [uploadsDir_p1 e, storage_filename_p1 (uuidv4 e) origName]\<rparr>"

text \<open>The name and the path of the output, as the handler computes them.\<close>

definition outputFileName_p1 :: "string \<Rightarrow> string \<Rightarrow> string" where
  "outputFileName_p1 origName outputFormat =
     path_basename_ext origName (path_extname origName) @ ''.'' @ outputFormat"

definition outputPath_p1 :: "env \<Rightarrow> string \<Rightarrow> string \<Rightarrow> path" where
  "outputPath_p1 e origName outputFormat =
     path_join [outputsDir_p1 e, outputFileName_p1 origName outputFormat]"

subsection \<open>\<open>convertImage\<close>\<close>

definition image_switch_p1 :: "env \<Rightarrow> string \<Rightarrow> string \<times> (string \<times> nat) list" where
  "image_switch_p1 e format =
     (let fmt = toLowerCase e format
      in if fmt = ''jpg'' \<or> fmt = ''jpeg'' then (''jpeg'', [(''quality'', 85)])
         else if fmt = ''png'' then (''png'', [])
         else if fmt = ''webp'' then (''webp'', [(''quality'', 85)])
         else if fmt = ''bmp'' then (''png'', [])
         else if fmt = ''tiff'' then (''tiff'', [])
         else (''png'', []))"

definition convertImage ::
  "env \<Rightarrow> path \<Rightarrow> path \<Rightarrow> string \<Rightarrow> world \<Rightarrow> unit promise \<times> world" where
  "convertImage e inputPath outputPath format w =
     (case sharp_toFile e inputPath (Some (image_switch_p1 e format)) outputPath w of
        (None, w') \<Rightarrow> (Resolved (), w')
      | (Some err, w') \<Rightarrow> (Rejected err, w'))"

subsection \<open>\<open>convertMedia\<close>\<close>

definition media_command_p1 :: "env \<Rightarrow> path \<Rightarrow> path \<Rightarrow> string \<Rightarrow> ffmpeg_call" where
  "media_command_p1 e inputPath outputPath format =
     (let fmt = toLowerCase e format;
          c0 = \<lparr>ffmpeg_input = inputPath, ffmpeg_audioCodec = None, ffmpeg_videoCodec = None,
                ffmpeg_format = None, ffmpeg_output = outputPath\<rparr>;
          c1 = (if arr_includes [''mp3'', ''wav'', ''flac'', ''aac'', ''ogg'', ''m4a''] fmt then
                  (let a0 = c0\<lparr>ffmpeg_audioCodec := Some ''libmp3lame''\<rparr>;
                       a1 = (if fmt = ''wav'' then a0\<lparr>ffmpeg_audioCodec := Some ''pcm_s16le''\<rparr>
                             else a0);
                       a2 = (if fmt = ''flac'' then a1\<lparr>ffmpeg_audioCodec := Some ''flac''\<rparr>
                             else a1)
                   in if fmt = ''aac'' then a2\<lparr>ffmpeg_audioCodec := Some ''aac''\<rparr> else a2)
                else c0)
      in if arr_includes [''mp4'', ''avi'', ''mov'', ''mkv'', ''webm''] fmt then
           (let v0 = c1\<lparr>ffmpeg_videoCodec := Some ''libx264'', ffmpeg_audioCodec := Some ''aac''\<rparr>
            in if fmt = ''webm''
               then v0\<lparr>ffmpeg_videoCodec := Some ''libvpx'', ffmpeg_audioCodec := Some ''libvorbis''\<rparr>
               else v0)
         else c1)"

definition convertMedia ::
  "env \<Rightarrow> path \<Rightarrow> path \<Rightarrow> string \<Rightarrow> world \<Rightarrow> unit promise \<times> world" where
  "convertMedia e inputPath outputPath format w =
     (case ffmpeg_run e (media_command_p1 e inputPath outputPath format) w of
        (None, w') \<Rightarrow> (Resolved (), w')
      | (Some err, w') \<Rightarrow> (Rejected err, w'))"

subsection \<open>\<open>convertDocument\<close>\<close>

text \<open>
  The process is spawned without a timeout. The promise is settled by the \<open>close\<close> event
  or by the \<open>error\<close> event; a process that never closes leaves it pending. An exception
  of \<open>moveSync\<close> escapes from the \<open>close\<close> listener. The exit code is a number: a
  process ended by a signal, whose code is \<open>null\<close>, is not represented.
\<close>

definition spawn_args_p1 :: "env \<Rightarrow> path \<Rightarrow> path \<Rightarrow> string \<Rightarrow> string list" where
  "spawn_args_p1 e inputPath outputPath format =
     [''--headless'', ''--convert-to'', toLowerCase e format, ''--outdir'',
      path_dirname outputPath, inputPath]"

definition convertDocument ::
  "env \<Rightarrow> path \<Rightarrow> path \<Rightarrow> string \<Rightarrow> world \<Rightarrow> unit promise \<times> world" where
  "convertDocument e inputPath outputPath format w =
     (let outputDir = path_dirname outputPath;
          inputName = path_basename_ext inputPath (path_extname inputPath);
          args = spawn_args_p1 e inputPath outputPath format;
          logged = w_log w @ [SpawnCalled ''libreoffice'' args]
      in case spawn_proc e ''libreoffice'' args (w_fs w) of
           NeverCloses \<Rightarrow> (Pending, w\<lparr>w_log := logged\<rparr>)
         | SpawnError err \<Rightarrow> (Rejected err, w\<lparr>w_log := logged\<rparr>)
         | Closed code fs' \<Rightarrow>
             (let w' = \<lparr>w_fs = fs', w_log = logged\<rparr>
              in if code = 0 then
                   (let generatedFile = path_join [outputDir, inputName @ ''.'' @ toLowerCase e format]
                    in if existsSync fs' generatedFile then
                         (case moveSync fs' generatedFile outputPath of
                            Inl ex \<Rightarrow> (Uncaught ex, w')
                          | Inr fs'' \<Rightarrow> (Resolved (), w'\<lparr>w_fs := fs''\<rparr>))
                       else (Rejected (Error ''Conversion failed - output file not found''), w'))
                 else (Rejected (Error (''LibreOffice conversion failed with code ''
                                        @ decimal code)), w')))"

subsection \<open>\<open>POST /api/convert\<close>\<close>

definition dispatch_p1 ::
  "env \<Rightarrow> string \<Rightarrow> path \<Rightarrow> path \<Rightarrow> string \<Rightarrow> world \<Rightarrow> unit promise \<times> world" where
  "dispatch_p1 e category inputPath outputPath outputFormat w =
     (if category = ''image'' then convertImage e inputPath outputPath outputFormat w
      else if category = ''audio'' \<or> category = ''video''
        then convertMedia e inputPath outputPath outputFormat w
      else if category = ''document'' then convertDocument e inputPath outputPath outputFormat w
      else (Rejected (Error (''Unsupported file category: '' @ category)), w))"

definition conversion_error_p1 :: "path \<Rightarrow> js_error \<Rightarrow> world \<Rightarrow> response option \<times> world" where
  "conversion_error_p1 inputPath conversionError w =
     (Some (res_json 500 [(''error'', Str ''Conversion failed''),
                          (''details'', Str (message conversionError))]),
      w\<lparr>w_fs := removeSync (w_fs w) inputPath\<rparr>)"

definition convert_p1 :: "env \<Rightarrow> request \<Rightarrow> world \<Rightarrow> response option \<times> world" where
  "convert_p1 e req w =
     (case req_file req of
        None \<Rightarrow> (Some (res_json 400 [(''error'', Str ''No file uploaded'')]), w)
      | Some f \<Rightarrow>
          (case req_outputFormat req of
             None \<Rightarrow> (Some (res_json 400 [(''error'', Str ''Output format not specified'')]), w)
           | Some outputFormat \<Rightarrow>
               if outputFormat = [] then
                 (Some (res_json 400 [(''error'', Str ''Output format not specified'')]), w)
               else
                 (let inputPath = file_path f;
                      category = getFileCategory_p1 e (originalname f);
                      outputFileName = outputFileName_p1 (originalname f) outputFormat;
                      outputPath = outputPath_p1 e (originalname f) outputFormat
                  in case dispatch_p1 e category inputPath outputPath outputFormat w of
                       (Resolved u, w') \<Rightarrow>
                         if \<not> existsSync (w_fs w') outputPath then
                           conversion_error_p1 inputPath
                             (Error ''Conversion failed - output file not created'') w'
                         else
                           (Some (Download outputPath outputFileName
                                    (transfer e outputPath (w_fs w'))),
                            w'\<lparr>w_fs := removeSync (removeSync (w_fs w') inputPath) outputPath\<rparr>)
                     | (Rejected conversionError, w') \<Rightarrow>
                         conversion_error_p1 inputPath conversionError w'
                     | (Pending, w') \<Rightarrow> (None, w')
                     | (Uncaught ex, w') \<Rightarrow> (None, w'))))"

subsection \<open>\<open>server.cjs\<close>: \<open>GET /api/formats\<close>\<close>

text \<open>
  The handler reads no capability: its answer is the static table, whatever is installed.
  The list of all formats is the table's values without duplicates, sorted as strings.
\<close>

definition allFormats_cjs :: "string list" where
  "allFormats_cjs = concat (map snd SUPPORTED_FORMATS)"

definition api_formats_cjs :: response where
  "api_formats_cjs =
     res_json 200
       [(''success'', Bool True),
        (''formats'', Arr (map Str (sort (remdups allFormats_cjs)))),
        (''categories'',
           Obj (map (\<lambda>kv. (fst kv, Arr (map Str (snd kv)))) SUPPORTED_FORMATS))]"

section \<open>Reading tables and responses\<close>

text \<open>
  The case labels of the two image switches, and those of \<open>server.cjs\<close> whose encoder
  method exists.
\<close>

definition image_encoders_cjs :: "string list" where
  "image_encoders_cjs = [''PNG'', ''JPG'', ''JPEG'', ''WEBP'', ''GIF'', ''TIFF'']"

definition image_cases_cjs :: "string list" where
  "image_cases_cjs = [''PNG'', ''JPG'', ''JPEG'', ''WEBP'', ''GIF'', ''BMP'', ''TIFF'']"

definition image_cases_p1 :: "string list" where
  "image_cases_p1 = [''jpg'', ''jpeg'', ''png'', ''webp'', ''bmp'', ''tiff'']"

definition all_available :: capabilities where
  "all_available = \<lparr>cap_sharp = True, cap_ffmpeg = True, cap_libreoffice = True\<rparr>"

text \<open>A property of a JSON response.\<close>

definition json_prop :: "response \<Rightarrow> string \<Rightarrow> jsval option" where
  "json_prop r key = (case r of Json status props \<Rightarrow> map_of props key | Download p n err \<Rightarrow> None)"

text \<open>
  What the \<open>catch\<close> block of \<open>DocumentConverter.convert\<close> writes, and where: the text
  file at the output path for the target TXT, the note for every other target.
\<close>

definition doc_fallback_path :: "env \<Rightarrow> path \<Rightarrow> string \<Rightarrow> path" where
  "doc_fallback_path e inputPath outputFormat =
     (if toUpperCase e outputFormat = ''TXT'' then doc_outputPath e inputPath outputFormat
      else doc_noteOutputPath inputPath)"

definition doc_fallback_content :: "env \<Rightarrow> path \<Rightarrow> string \<Rightarrow> string" where
  "doc_fallback_content e inputPath outputFormat =
     (if toUpperCase e outputFormat = ''TXT'' then doc_txt_content e inputPath
      else doc_noteContent e inputPath outputFormat)"

text \<open>The name that the handler of \<open>server.cjs\<close> offers for the download.\<close>

definition download_name_cjs :: "env \<Rightarrow> upload \<Rightarrow> string \<Rightarrow> string" where
  "download_name_cjs e f outputFormat =
     path_parse_name (originalname f) @ ''.'' @ toLowerCase e outputFormat"

text \<open>
  The support matrix of \<open>server.cjs\<close> as the specification reads it: a pair of a category
  and a target format is supported when \<open>SUPPORTED_FORMATS\<close> lists the target, in upper
  case, under the category. No handler consults it.
\<close>

definition in_matrix_cjs :: "env \<Rightarrow> string \<Rightarrow> string \<Rightarrow> bool" where
  "in_matrix_cjs e category targetFormat =
     (case map_of SUPPORTED_FORMATS category of
        None \<Rightarrow> False
      | Some targets \<Rightarrow> toUpperCase e targetFormat \<in> set targets)"

text \<open>
  The discovery of the produced file as the specification words it: the expected path
  \<open>{baseName}.{targetFormat}\<close> first; if it is absent, the first file of the output
  directory whose name starts with \<open>baseName\<close>; \<open>None\<close> (\<open>OutputNotFound\<close>) when both
  steps find nothing.
\<close>

definition discover_spec :: "filesystem \<Rightarrow> path \<Rightarrow> string \<Rightarrow> string \<Rightarrow> path option" where
  "discover_spec fs outputDir baseName targetFormat =
     (let expected = path_join [outputDir, baseName @ ''.'' @ targetFormat]
      in if existsSync fs expected then Some expected
         else
           (case readdirSync fs outputDir of
              Inl err \<Rightarrow> None
            | Inr names \<Rightarrow>
                map_option (\<lambda>name. path_join [outputDir, name])
                  (find (\<lambda>name. startsWith name baseName) names)))"

section \<open>Concrete environments\<close>

text \<open>
  An installation in \<open>/app\<close> where every tool is present and works: commands exit with
  code 0 after 50 ms, and the image library and the media tool write their output file
  when its directory exists. The file names and formats of the examples are ASCII
  strings, on which the engine's case mappings are those of the ASCII letters.
\<close>

definition quiet_shell :: "string \<Rightarrow> filesystem \<Rightarrow> proc_result" where
  "quiet_shell command fs = \<lparr>pr_duration = Some 50, pr_exit = 0, pr_stderr = [], pr_fs = fs\<rparr>"

definition sharp_ok :: "sharp_call \<Rightarrow> filesystem \<Rightarrow> js_error option \<times> filesystem" where
  "sharp_ok c fs =
     (case writeFileSync fs (sharp_output c) ''image'' of
        Inl err \<Rightarrow> (Some err, fs)
      | Inr fs' \<Rightarrow> (None, fs'))"

definition ffmpeg_ok :: "ffmpeg_call \<Rightarrow> filesystem \<Rightarrow> js_error option \<times> filesystem" where
  "ffmpeg_ok c fs =
     (case writeFileSync fs (ffmpeg_output c) ''media'' of
        Inl err \<Rightarrow> (Some err, fs)
      | Inr fs' \<Rightarrow> (None, fs'))"

definition env0 :: env where
  "env0 =
     \<lparr>script_dir = ''/app'',
      shell = quiet_shell,
      sharp = sharp_ok,
      ffmpeg = ffmpeg_ok,
      spawn_proc = (\<lambda>command args fs. Closed 0 fs),
      transfer = (\<lambda>p fs. None),
      uuidv4 = ''1b9d6bcd-bbfd-4b2d-9b5d-ab8dfbbd4bed'',
      date_now = 1700000000000,
      date_iso = ''2023-11-14T22:13:20.000Z'',
      str_lower = ascii_lower,
      str_upper = ascii_upper\<rparr>"

text \<open>The same installation without the media tool and without LibreOffice.\<close>

definition missing_shell :: "string \<Rightarrow> filesystem \<Rightarrow> proc_result" where
  "missing_shell command fs =
     \<lparr>pr_duration = Some 5, pr_exit = 127, pr_stderr = ''not found'', pr_fs = fs\<rparr>"

definition env_bare :: env where
  "env_bare = env0\<lparr>shell := missing_shell\<rparr>"

definition fs_app :: filesystem where
  "fs_app =
     \<lparr>files = [],
      dirs = [''/'', ''/app'', ''/app/uploads'', ''/app/outputs'', ''/app/temp'']\<rparr>"

definition w_app :: world where
  "w_app = \<lparr>w_fs = fs_app, w_log = []\<rparr>"

text \<open>
  \<open>server.cjs\<close> in its working directory: the upload directory \<open>uploads\<close> holds one
  stored upload, under a name as the upload middleware gives it (32 hexadecimal digits,
  no extension).
\<close>

definition upload_cjs :: path where
  "upload_cjs = ''uploads/0123456789abcdef0123456789abcdef''"

definition fs_cjs :: filesystem where
  "fs_cjs = \<lparr>files = [(upload_cjs, ''upload'')], dirs = [''.'', ''uploads'']\<rparr>"

definition w_cjs :: world where
  "w_cjs = \<lparr>w_fs = fs_cjs, w_log = []\<rparr>"

text \<open>LibreOffice is installed, but the conversion command fails with exit code 1.\<close>

definition soffice_fails :: "string \<Rightarrow> filesystem \<Rightarrow> proc_result" where
  "soffice_fails command fs =
     (if startsWith command ''which'' then quiet_shell command fs
      else \<lparr>pr_duration = Some 900, pr_exit = 1, pr_stderr = ''Error: no export filter'',
            pr_fs = fs\<rparr>)"

definition env_nofilter :: env where
  "env_nofilter = env0\<lparr>shell := soffice_fails\<rparr>"

definition req_cjs :: "string \<Rightarrow> string \<Rightarrow> request" where
  "req_cjs origName fmt =
     \<lparr>req_file = Some \<lparr>originalname = origName, file_path = upload_cjs\<rparr>,
      req_outputFormat = Some fmt\<rparr>"

text \<open>The media tool fails on a corrupt input and writes nothing.\<close>

definition env_corrupt :: env where
  "env_corrupt =
     env0\<lparr>ffmpeg := (\<lambda>c fs.
       (Some (Error ''ffmpeg exited with code 1: Invalid data found when processing input''), fs))\<rparr>"

text \<open>
  A job of \<open>part_001\<close>: the upload as the storage names it, in the uploads directory of
  the installation.
\<close>

definition req_p1 :: "string \<Rightarrow> string \<Rightarrow> request" where
  "req_p1 origName fmt =
     \<lparr>req_file = Some (stored_upload_p1 env0 origName), req_outputFormat = Some fmt\<rparr>"

definition w_p1 :: "string \<Rightarrow> world" where
  "w_p1 origName =
     \<lparr>w_fs = fs_app\<lparr>files := [(file_path (stored_upload_p1 env0 origName), ''upload'')]\<rparr>,
      w_log = []\<rparr>"

text \<open>LibreOffice exits with code 77 and writes nothing.\<close>

definition env_exit77 :: env where
  "env_exit77 = env0\<lparr>spawn_proc := (\<lambda>command args fs. Closed 77 fs)\<rparr>"

text \<open>LibreOffice is installed, but every conversion hangs: the command never exits.\<close>

definition soffice_hangs :: "string \<Rightarrow> filesystem \<Rightarrow> proc_result" where
  "soffice_hangs command fs =
     (if startsWith command ''which'' then quiet_shell command fs
      else \<lparr>pr_duration = None, pr_exit = 0, pr_stderr = [], pr_fs = fs\<rparr>)"

definition env_stuck :: env where
  "env_stuck = env0\<lparr>shell := soffice_hangs, spawn_proc := (\<lambda>command args fs. NeverCloses)\<rparr>"

text \<open>
  \<open>part_000\<close> in \<open>/app\<close>: the uploads directory holds one stored upload, under a name as
  the upload middleware gives it.
\<close>

definition upload_p0 :: path where
  "upload_p0 = ''/app/uploads/0123456789abcdef0123456789abcdef''"

definition w_p0 :: world where
  "w_p0 = \<lparr>w_fs = fs_app\<lparr>files := [(upload_p0, ''upload'')]\<rparr>, w_log = []\<rparr>"

text \<open>
  A command run with the timeout of 30000 ms has failed when it never exits, runs longer
  than the timeout, or exits with a code other than 0.
\<close>

definition expired_or_failed :: "proc_result \<Rightarrow> bool" where
  "expired_or_failed r =
     (case pr_duration r of None \<Rightarrow> True | Some d \<Rightarrow> 30000 < d \<or> pr_exit r \<noteq> 0)"

text \<open>
  LibreOffice works: the conversion takes 1200 ms and leaves the converted file in the
  uploads directory, named after the stored upload.
\<close>

definition libreoffice_writes :: "string \<Rightarrow> filesystem \<Rightarrow> proc_result" where
  "libreoffice_writes command fs =
     \<lparr>pr_duration = Some 1200, pr_exit = 0, pr_stderr = [],
      pr_fs = fs\<lparr>files := files fs @ [(upload_p0 @ ''.pdf'', ''pdf'')]\<rparr>\<rparr>"

definition env_office :: env where
  "env_office = env0\<lparr>shell := libreoffice_writes\<rparr>"

text \<open>A job of \<open>part_000\<close> for the stored upload, with or without an output format.\<close>

definition req_p0 :: "string \<Rightarrow> string option \<Rightarrow> request" where
  "req_p0 origName fmt =
     \<lparr>req_file = Some \<lparr>originalname = origName, file_path = upload_p0\<rparr>,
      req_outputFormat = fmt\<rparr>"

text \<open>
  Two characters outside ASCII. The engine lower-cases the Kelvin sign (U+212A, in UTF-8
  the bytes E2 84 AA) to \<open>k\<close> and upper-cases the dotless i (U+0131, the bytes C4 B1) to
  \<open>I\<close>; it leaves the Kelvin sign as it is when upper-casing and the dotless i when
  lower-casing. The two mappings below do so and map the ASCII letters: they are the
  engine's mappings on the strings made of ASCII characters and these two.
\<close>

definition kelvin_sign :: string where
  "kelvin_sign = [CHR 0xE2, CHR 0x84, CHR 0xAA]"

definition dotless_i :: string where
  "dotless_i = [CHR 0xC4, CHR 0xB1]"

fun lower_kelvin :: "string \<Rightarrow> string" where
  "lower_kelvin (a # b # c # s) =
     (if [a, b, c] = kelvin_sign then CHR ''k'' # lower_kelvin s
      else lowerChar a # lower_kelvin (b # c # s))"
| "lower_kelvin s = map lowerChar s"

fun upper_dotless :: "string \<Rightarrow> string" where
  "upper_dotless (a # b # s) =
     (if [a, b] = dotless_i then CHR ''I'' # upper_dotless s
      else upperChar a # upper_dotless (b # s))"
| "upper_dotless s = map upperChar s"

definition env_unicode :: env where
  "env_unicode = env0\<lparr>str_lower := lower_kelvin, str_upper := upper_dotless\<rparr>"

section \<open>The case mappings of the concrete environments\<close>

lemma ascii_mappings [simp]:
  "str_lower env0 = ascii_lower" "str_upper env0 = ascii_upper"
  "str_lower env_bare = ascii_lower" "str_upper env_bare = ascii_upper"
  "str_lower env_nofilter = ascii_lower" "str_upper env_nofilter = ascii_upper"
  "str_lower env_corrupt = ascii_lower" "str_upper env_corrupt = ascii_upper"
  "str_lower env_exit77 = ascii_lower" "str_upper env_exit77 = ascii_upper"
  "str_lower env_stuck = ascii_lower" "str_upper env_stuck = ascii_upper"
  "str_lower env_office = ascii_lower" "str_upper env_office = ascii_upper"
  by (simp_all add: env0_def env_bare_def env_nofilter_def env_corrupt_def env_exit77_def
      env_stuck_def env_office_def)

lemmas js_defs = toLowerCase_def toUpperCase_def ascii_lower_def ascii_upper_def lowerChar_def
  upperChar_def upperLetters_def lowerLetters_def startsWith_def arr_includes_def
  str_replace_def replace_ext_def nl_def

lemmas path_defs = isSlash_def path_basename_def path_extname_def path_parse_name_def
  path_basename_ext_def path_dirname_def path_normalize_def path_join_def

lemmas fs_defs = isFile_def isDir_def existsSync_def readFile_def writeFileSync_def
  unlinkSync_def readdirSync_def copyFileSync_def ensureDirSync_def under_def removeSync_def
  moveSync_def unlink_if_exists_def try_unlink_if_exists_def

section \<open>Properties of the classification\<close>

lemma exts_cjs_distinct: "distinct (imageExts @ docExts @ audioExts @ videoExts)"
  by (simp add: imageExts_def docExts_def audioExts_def videoExts_def)

lemma exts_p1_distinct: "distinct (concat (map snd categories_p1))"
  by (simp add: categories_p1_def)

lemma getFileCategory_cjs_cases:
  fixes e :: env and f :: string
  defines "ext \<equiv> toLowerCase e (drop 1 (path_extname f))"
  shows "(ext \<in> set imageExts \<longrightarrow> getFileCategory_cjs e f = ''images'')
       \<and> (ext \<in> set docExts \<longrightarrow> getFileCategory_cjs e f = ''documents'')
       \<and> (ext \<in> set audioExts \<longrightarrow> getFileCategory_cjs e f = ''audio'')
       \<and> (ext \<in> set videoExts \<longrightarrow> getFileCategory_cjs e f = ''video'')
       \<and> (ext \<notin> set (imageExts @ docExts @ audioExts @ videoExts)
            \<longrightarrow> getFileCategory_cjs e f = ''documents'')"
proof -
  have d: "distinct (imageExts @ docExts @ audioExts @ videoExts)"
    by (rule exts_cjs_distinct)
  show ?thesis
    using d unfolding getFileCategory_cjs_def arr_includes_def Let_def ext_def
    by auto
qed

lemma findCategory_hit:
  "distinct (concat (map snd cs)) \<Longrightarrow> (c, es) \<in> set cs \<Longrightarrow> ext \<in> set es
     \<Longrightarrow> findCategory cs ext = c"
proof (induction cs)
  case Nil
  then show ?case by simp
next
  case (Cons a cs)
  obtain c' es' where a: "a = (c', es')" by (cases a)
  show ?case
  proof (cases "(c, es) = (c', es')")
    case True
    with Cons.prems a show ?thesis by (simp add: arr_includes_def)
  next
    case False
    with Cons.prems a have mem: "(c, es) \<in> set cs" by auto
    from Cons.prems a mem have "ext \<notin> set es'" by fastforce
    moreover from Cons.prems have "distinct (concat (map snd cs))" by simp
    ultimately show ?thesis
      using Cons.IH mem Cons.prems(3) a by (simp add: arr_includes_def)
  qed
qed

lemma findCategory_miss:
  "ext \<notin> set (concat (map snd cs)) \<Longrightarrow> findCategory cs ext = ''document''"
  by (induction cs) (auto simp: arr_includes_def)

lemma path_extname_no_dot:
  "CHR ''.'' \<notin> set (path_basename f) \<Longrightarrow> path_extname f = []"
  by (simp add: path_extname_def Let_def)

text \<open>
  Claim C6. In both servers that classify uploads (\<open>server.cjs\<close> and \<open>part_001\<close>),
  the four extension lists are pairwise disjoint, the category of a file name is decided
  by the membership of its lower-cased extension (the dot stripped) in these lists, and a
  name whose extension is in none of the lists, in particular a name without an
  extension, is classified as a document.
\<close>

theorem classification_C6:
  "distinct (imageExts @ docExts @ audioExts @ videoExts)
   \<and> distinct (concat (map snd categories_p1))
   \<and> (\<forall>f. (toLowerCase e (drop 1 (path_extname f)) \<in> set imageExts
              \<longrightarrow> getFileCategory_cjs e f = ''images'')
         \<and> (toLowerCase e (drop 1 (path_extname f)) \<in> set docExts
              \<longrightarrow> getFileCategory_cjs e f = ''documents'')
         \<and> (toLowerCase e (drop 1 (path_extname f)) \<in> set audioExts
              \<longrightarrow> getFileCategory_cjs e f = ''audio'')
         \<and> (toLowerCase e (drop 1 (path_extname f)) \<in> set videoExts
              \<longrightarrow> getFileCategory_cjs e f = ''video'')
         \<and> (toLowerCase e (drop 1 (path_extname f))
                \<notin> set (imageExts @ docExts @ audioExts @ videoExts)
              \<longrightarrow> getFileCategory_cjs e f = ''documents'')
         \<and> (path_extname f = [] \<longrightarrow> getFileCategory_cjs e f = ''documents''))
   \<and> (\<forall>f c es. (c, es) \<in> set categories_p1
              \<and> drop 1 (toLowerCase e (path_extname f)) \<in> set es
              \<longrightarrow> getFileCategory_p1 e f = c)
   \<and> (\<forall>f. (drop 1 (toLowerCase e (path_extname f)) \<notin> set (concat (map snd categories_p1))
              \<longrightarrow> getFileCategory_p1 e f = ''document'')
         \<and> (path_extname f = [] \<longrightarrow> getFileCategory_p1 e f = ''document''))"
proof (intro conjI allI)
  show "distinct (imageExts @ docExts @ audioExts @ videoExts)"
    by (rule exts_cjs_distinct)
  show "distinct (concat (map snd categories_p1))"
    by (rule exts_p1_distinct)
next
  fix f :: string
  note c = getFileCategory_cjs_cases [of e f]
  show "toLowerCase e (drop 1 (path_extname f)) \<in> set imageExts
          \<longrightarrow> getFileCategory_cjs e f = ''images''"
    using c by blast
  show "toLowerCase e (drop 1 (path_extname f)) \<in> set docExts
          \<longrightarrow> getFileCategory_cjs e f = ''documents''"
    using c by blast
  show "toLowerCase e (drop 1 (path_extname f)) \<in> set audioExts
          \<longrightarrow> getFileCategory_cjs e f = ''audio''"
    using c by blast
  show "toLowerCase e (drop 1 (path_extname f)) \<in> set videoExts
          \<longrightarrow> getFileCategory_cjs e f = ''video''"
    using c by blast
  show "toLowerCase e (drop 1 (path_extname f))
          \<notin> set (imageExts @ docExts @ audioExts @ videoExts)
          \<longrightarrow> getFileCategory_cjs e f = ''documents''"
    using c by blast
  show "path_extname f = [] \<longrightarrow> getFileCategory_cjs e f = ''documents''"
    by (simp add: getFileCategory_cjs_def arr_includes_def toLowerCase_def
        imageExts_def docExts_def audioExts_def videoExts_def)
next
  fix f c :: string and es :: "string list"
  show "(c, es) \<in> set categories_p1 \<and> drop 1 (toLowerCase e (path_extname f)) \<in> set es
          \<longrightarrow> getFileCategory_p1 e f = c"
    unfolding getFileCategory_p1_def Let_def
    using findCategory_hit [OF exts_p1_distinct] by blast
next
  fix f :: string
  show "drop 1 (toLowerCase e (path_extname f)) \<notin> set (concat (map snd categories_p1))
          \<longrightarrow> getFileCategory_p1 e f = ''document''"
    unfolding getFileCategory_p1_def Let_def
    using findCategory_miss by blast
  show "path_extname f = [] \<longrightarrow> getFileCategory_p1 e f = ''document''"
    by (simp add: getFileCategory_p1_def toLowerCase_def categories_p1_def arr_includes_def)
qed

theorem classification_C6_witness:
  "getFileCategory_cjs env0 ''Photo.PNG'' = ''images''
   \<and> getFileCategory_cjs env0 ''song.Mp3'' = ''audio''
   \<and> getFileCategory_cjs env0 ''archive.zip'' = ''documents''
   \<and> getFileCategory_cjs env0 ''README'' = ''documents''
   \<and> getFileCategory_p1 env0 ''clip.FLV'' = ''video''
   \<and> getFileCategory_p1 env0 ''archive.zip'' = ''document''
   \<and> getFileCategory_p1 env0 ''README'' = ''document''"
proof -
  note c = classification_C6 [of env0]
  have e1: "toLowerCase env0 (drop 1 (path_extname ''Photo.PNG'')) = ''png''"
    by (simp add: js_defs path_defs Let_def)
  have e2: "toLowerCase env0 (drop 1 (path_extname ''song.Mp3'')) = ''mp3''"
    by (simp add: js_defs path_defs Let_def)
  have e3: "toLowerCase env0 (drop 1 (path_extname ''archive.zip'')) = ''zip''"
    by (simp add: js_defs path_defs Let_def)
  have e4: "path_extname ''README'' = []"
    by (simp add: js_defs path_defs Let_def)
  have e5: "drop 1 (toLowerCase env0 (path_extname ''clip.FLV'')) = ''flv''"
    by (simp add: js_defs path_defs Let_def)
  have e6: "drop 1 (toLowerCase env0 (path_extname ''archive.zip'')) = ''zip''"
    by (simp add: js_defs path_defs Let_def)
  have m1: "''png'' \<in> set imageExts" by (simp add: imageExts_def)
  have m2: "''mp3'' \<in> set audioExts" by (simp add: audioExts_def)
  have m3: "''zip'' \<notin> set (imageExts @ docExts @ audioExts @ videoExts)"
    by (simp add: imageExts_def docExts_def audioExts_def videoExts_def)
  have m5: "(''video'', [''mp4'', ''avi'', ''mov'', ''mkv'', ''wmv'', ''flv'', ''webm''])
              \<in> set categories_p1 \<and> ''flv'' \<in> set [''mp4'', ''avi'', ''mov'', ''mkv'', ''wmv'', ''flv'', ''webm'']"
    by (simp add: categories_p1_def)
  have m6: "''zip'' \<notin> set (concat (map snd categories_p1))"
    by (simp add: categories_p1_def)
  note cjs = c [THEN conjunct2, THEN conjunct2, THEN conjunct1, THEN spec]
  note p1all = c [THEN conjunct2, THEN conjunct2, THEN conjunct2, THEN conjunct1]
  have p1hit: "(''video'', [''mp4'', ''avi'', ''mov'', ''mkv'', ''wmv'', ''flv'', ''webm''])
                 \<in> set categories_p1
               \<and> drop 1 (toLowerCase env0 (path_extname ''clip.FLV''))
                 \<in> set [''mp4'', ''avi'', ''mov'', ''mkv'', ''wmv'', ''flv'', ''webm'']
               \<longrightarrow> getFileCategory_p1 env0 ''clip.FLV'' = ''video''"
    using p1all by blast
  note p1miss = c [THEN conjunct2, THEN conjunct2, THEN conjunct2, THEN conjunct2, THEN spec]
  from cjs [of "''Photo.PNG''"] e1 m1
  have "getFileCategory_cjs env0 ''Photo.PNG'' = ''images''" by simp
  moreover from cjs [of "''song.Mp3''"] e2 m2
  have "getFileCategory_cjs env0 ''song.Mp3'' = ''audio''" by simp
  moreover from cjs [of "''archive.zip''"] e3 m3
  have "getFileCategory_cjs env0 ''archive.zip'' = ''documents''" by simp
  moreover from cjs [of "''README''"] e4
  have "getFileCategory_cjs env0 ''README'' = ''documents''" by simp
  moreover from p1hit e5 m5
  have "getFileCategory_p1 env0 ''clip.FLV'' = ''video''" by simp
  moreover from p1miss [of "''archive.zip''"] e6 m6
  have "getFileCategory_p1 env0 ''archive.zip'' = ''document''" by simp
  moreover from p1miss [of "''README''"] e4
  have "getFileCategory_p1 env0 ''README'' = ''document''" by simp
  ultimately show ?thesis by blast
qed

text \<open>
  A name whose extension is written with the Kelvin sign: the engine lower-cases the
  extension to \<open>mkv\<close>, and both servers classify the file as a video.
\<close>

lemma classification_kelvin_sign:
  "toLowerCase env_unicode (drop 1 (path_extname (''clip.M'' @ kelvin_sign @ ''V''))) = ''mkv''"
  "getFileCategory_cjs env_unicode (''clip.M'' @ kelvin_sign @ ''V'') = ''video''"
  "getFileCategory_p1 env_unicode (''clip.M'' @ kelvin_sign @ ''V'') = ''video''"
  by (simp_all add: getFileCategory_cjs_def getFileCategory_p1_def categories_p1_def
      imageExts_def docExts_def audioExts_def videoExts_def env_unicode_def kelvin_sign_def
      js_defs path_defs Let_def)

section \<open>The formats endpoints\<close>

lemma formatMap_keys: "map fst (formatMap caps) = image_formats_p0 @ media_exts_p0 @ doc_exts_p0"
  by (simp add: formatMap_def image_formats_p0_def media_exts_p0_def doc_exts_p0_def)

lemma media_keys_cases:
  "k \<in> set media_exts_p0 \<Longrightarrow>
     k = ''mp4'' \<or> k = ''avi'' \<or> k = ''mov'' \<or> k = ''wmv'' \<or> k = ''flv''
     \<or> k = ''mp3'' \<or> k = ''wav'' \<or> k = ''ogg'' \<or> k = ''aac'' \<or> k = ''m4a''"
  by (simp add: media_exts_p0_def)

lemma doc_keys_cases:
  "k \<in> set doc_exts_p0 \<Longrightarrow>
     k = ''pdf'' \<or> k = ''doc'' \<or> k = ''docx'' \<or> k = ''xls'' \<or> k = ''xlsx''
     \<or> k = ''ppt'' \<or> k = ''pptx'' \<or> k = ''odt'' \<or> k = ''ods'' \<or> k = ''odp''
     \<or> k = ''rtf'' \<or> k = ''txt''"
  by (simp add: doc_exts_p0_def)

lemma image_keys_cases:
  "k \<in> set image_formats_p0 \<Longrightarrow>
     k = ''jpg'' \<or> k = ''jpeg'' \<or> k = ''png'' \<or> k = ''webp'' \<or> k = ''tiff'' \<or> k = ''bmp''"
  by (simp add: image_formats_p0_def)

lemma lookup_media_off:
  assumes "k \<in> set media_exts_p0" "\<not> cap_ffmpeg caps"
  shows "map_of (formatMap caps) k = Some []"
  using media_keys_cases [OF assms(1)] assms(2) unfolding formatMap_def
  by (elim disjE; hypsubst; simp split del: if_split)

lemma lookup_doc_off:
  assumes "k \<in> set doc_exts_p0" "\<not> cap_libreoffice caps"
  shows "map_of (formatMap caps) k = Some []"
  using doc_keys_cases [OF assms(1)] assms(2) unfolding formatMap_def
  by (elim disjE; hypsubst; simp split del: if_split)

lemma lookup_image:
  assumes "k \<in> set image_formats_p0"
  shows "map_of (formatMap caps) k = map_of (formatMap all_available) k
         \<and> map_of (formatMap caps) k \<noteq> Some [] \<and> map_of (formatMap caps) k \<noteq> None"
  using image_keys_cases [OF assms] unfolding formatMap_def all_available_def
  by (elim disjE; hypsubst; simp split del: if_split)

lemma lookup_media_on:
  assumes "k \<in> set media_exts_p0" "cap_ffmpeg caps"
  shows "map_of (formatMap caps) k = map_of (formatMap all_available) k
         \<and> map_of (formatMap caps) k \<noteq> Some [] \<and> map_of (formatMap caps) k \<noteq> None"
  using media_keys_cases [OF assms(1)] assms(2) unfolding formatMap_def all_available_def
  by (elim disjE; hypsubst; simp split del: if_split)

lemma lookup_doc_on:
  assumes "k \<in> set doc_exts_p0" "cap_libreoffice caps"
  shows "map_of (formatMap caps) k = map_of (formatMap all_available) k
         \<and> map_of (formatMap caps) k \<noteq> Some [] \<and> map_of (formatMap caps) k \<noteq> None"
  using doc_keys_cases [OF assms(1)] assms(2) unfolding formatMap_def all_available_def
  by (elim disjE; hypsubst; simp split del: if_split)

lemma api_formats_p0_own:
  "checkCapabilities e w = (Resolved caps, w')
     \<Longrightarrow> map_of (formatMap caps) (toLowerCase e k) = Some ts
     \<Longrightarrow> api_formats_p0 e k w = (Some (Json 200 [(''formats'', Arr (map Str ts))]), w')"
  by (simp add: api_formats_p0_def object_get_def truthy_def res_json_def stringify_props_def
      omitted_def)

lemma api_formats_p0_unknown:
  "checkCapabilities e w = (Resolved caps, w')
     \<Longrightarrow> map_of (formatMap caps) (toLowerCase e k) = None
     \<Longrightarrow> map_of object_prototype (toLowerCase e k) = None
     \<Longrightarrow> api_formats_p0 e k w = (Some (Json 200 [(''formats'', Arr [])]), w')"
  by (simp add: api_formats_p0_def object_get_def truthy_def res_json_def stringify_props_def
      omitted_def)

text \<open>What the probes decide.\<close>

lemma exec_no_timeout:
  "fst (exec e command None w) =
     (let r = shell e command (w_fs w)
      in if pr_duration r = None then NoCallback
         else if pr_exit r \<noteq> 0 then Callback (Some (exec_error command (pr_stderr r)))
         else Callback None)"
  "w_fs (snd (exec e command timeout w)) = pr_fs (shell e command (w_fs w))"
  "w_log (snd (exec e command timeout w)) = w_log w @ [ExecCalled command timeout]"
  by (simp_all add: exec_def timed_out_def Let_def)

lemma checkCapabilities_ffmpeg:
  assumes "checkCapabilities e w = (Resolved caps, w')"
  shows "cap_ffmpeg caps = (pr_exit (shell e ''ffmpeg -version'' (w_fs w)) = 0)"
proof -
  let ?r = "shell e ''ffmpeg -version'' (w_fs w)"
  obtain o1 w1 where e1: "exec e ''ffmpeg -version'' None w = (o1, w1)"
    by (cases "exec e ''ffmpeg -version'' None w")
  from assms e1 obtain err where o1: "o1 = Callback err" and c: "cap_ffmpeg caps = (err = None)"
    by (cases o1)
      (auto simp: checkCapabilities_def split: prod.splits exec_outcome.splits option.splits)
  from exec_no_timeout(1) [of e "''ffmpeg -version''" w] e1 o1
  have "(err = None) = (pr_exit ?r = 0)"
    by (auto simp: Let_def split: if_splits)
  with c show ?thesis by simp
qed

lemma checkCapabilities_env0: "checkCapabilities env0 w_app = (Resolved all_available,
     \<lparr>w_fs = fs_app,
      w_log = [ExecCalled ''ffmpeg -version'' None,
               ExecCalled ''libreoffice --headless --version'' None]\<rparr>)"
  by (simp add: checkCapabilities_def exec_def env0_def quiet_shell_def timed_out_def Let_def
      w_app_def all_available_def)

lemma checkCapabilities_env_bare: "checkCapabilities env_bare w_app =
    (Resolved \<lparr>cap_sharp = True, cap_ffmpeg = False, cap_libreoffice = False\<rparr>,
     \<lparr>w_fs = fs_app,
      w_log = [ExecCalled ''ffmpeg -version'' None,
               ExecCalled ''libreoffice --headless --version'' None,
               ExecCalled ''soffice --headless --version'' None]\<rparr>)"
  by (simp add: checkCapabilities_def exec_def env_bare_def env0_def missing_shell_def
      timed_out_def Let_def w_app_def)

text \<open>
  Claim C7, as the code has it. \<open>GET /api/formats/:inputFormat\<close> of \<open>part_000\<close>, once
  the probes have answered: the media tool counts as available exactly when
  \<open>ffmpeg -version\<close> exits with code 0; a source format of the audio and video group gets
  the empty list when the media tool is unavailable, a source format of the document
  group gets the empty list when LibreOffice is unavailable, and every source format
  whose tool is available (the image formats always) gets the non-empty list it has when
  everything is available.
\<close>

theorem formats_gating_C7:
  assumes "checkCapabilities e w = (Resolved caps, w')"
  shows "cap_ffmpeg caps = (pr_exit (shell e ''ffmpeg -version'' (w_fs w)) = 0)
       \<and> (toLowerCase e k \<in> set media_exts_p0 \<and> \<not> cap_ffmpeg caps
            \<longrightarrow> api_formats_p0 e k w = (Some (Json 200 [(''formats'', Arr [])]), w'))
       \<and> (toLowerCase e k \<in> set doc_exts_p0 \<and> \<not> cap_libreoffice caps
            \<longrightarrow> api_formats_p0 e k w = (Some (Json 200 [(''formats'', Arr [])]), w'))
       \<and> (toLowerCase e k \<in> set image_formats_p0
            \<or> toLowerCase e k \<in> set media_exts_p0 \<and> cap_ffmpeg caps
            \<or> toLowerCase e k \<in> set doc_exts_p0 \<and> cap_libreoffice caps
            \<longrightarrow> (\<exists>ts. ts \<noteq> []
                    \<and> map_of (formatMap all_available) (toLowerCase e k) = Some ts
                    \<and> api_formats_p0 e k w
                        = (Some (Json 200 [(''formats'', Arr (map Str ts))]), w')))"
proof (intro conjI impI)
  show "cap_ffmpeg caps = (pr_exit (shell e ''ffmpeg -version'' (w_fs w)) = 0)"
    by (rule checkCapabilities_ffmpeg [OF assms])
next
  assume "toLowerCase e k \<in> set media_exts_p0 \<and> \<not> cap_ffmpeg caps"
  then have "map_of (formatMap caps) (toLowerCase e k) = Some []"
    by (simp add: lookup_media_off)
  from api_formats_p0_own [OF assms this]
  show "api_formats_p0 e k w = (Some (Json 200 [(''formats'', Arr [])]), w')" by simp
next
  assume "toLowerCase e k \<in> set doc_exts_p0 \<and> \<not> cap_libreoffice caps"
  then have "map_of (formatMap caps) (toLowerCase e k) = Some []"
    by (simp add: lookup_doc_off)
  from api_formats_p0_own [OF assms this]
  show "api_formats_p0 e k w = (Some (Json 200 [(''formats'', Arr [])]), w')" by simp
next
  assume "toLowerCase e k \<in> set image_formats_p0
            \<or> toLowerCase e k \<in> set media_exts_p0 \<and> cap_ffmpeg caps
            \<or> toLowerCase e k \<in> set doc_exts_p0 \<and> cap_libreoffice caps"
  then have l: "map_of (formatMap caps) (toLowerCase e k)
                  = map_of (formatMap all_available) (toLowerCase e k)
                \<and> map_of (formatMap caps) (toLowerCase e k) \<noteq> Some []
                \<and> map_of (formatMap caps) (toLowerCase e k) \<noteq> None"
    using lookup_image lookup_media_on lookup_doc_on by blast
  then obtain ts where ts: "map_of (formatMap caps) (toLowerCase e k) = Some ts" by blast
  with l have "ts \<noteq> []" "map_of (formatMap all_available) (toLowerCase e k) = Some ts"
    by simp_all
  with api_formats_p0_own [OF assms ts]
  show "\<exists>ts. ts \<noteq> [] \<and> map_of (formatMap all_available) (toLowerCase e k) = Some ts
          \<and> api_formats_p0 e k w = (Some (Json 200 [(''formats'', Arr (map Str ts))]), w')"
    by blast
qed

theorem formats_gating_C7_witness:
  "fst (api_formats_p0 env_bare ''MP4'' w_app) = Some (Json 200 [(''formats'', Arr [])])
   \<and> fst (api_formats_p0 env_bare ''docx'' w_app) = Some (Json 200 [(''formats'', Arr [])])
   \<and> fst (api_formats_p0 env_bare ''PNG'' w_app)
       = Some (Json 200 [(''formats'', Arr [Str ''jpg'', Str ''jpeg'', Str ''webp'',
                                             Str ''tiff'', Str ''bmp''])])
   \<and> fst (api_formats_p0 env0 ''MP4'' w_app)
       = Some (Json 200 [(''formats'', Arr [Str ''avi'', Str ''mov'', Str ''wmv'', Str ''flv''])])"
proof -
  have lower: "toLowerCase env_bare ''MP4'' = ''mp4''" "toLowerCase env_bare ''docx'' = ''docx''"
    "toLowerCase env_bare ''PNG'' = ''png''" "toLowerCase env0 ''MP4'' = ''mp4''"
    by (simp_all add: js_defs)
  have mem: "''mp4'' \<in> set media_exts_p0" "''docx'' \<in> set doc_exts_p0"
    "''png'' \<in> set image_formats_p0"
    by (simp_all add: media_exts_p0_def doc_exts_p0_def image_formats_p0_def)
  have tab: "map_of (formatMap all_available) ''png''
               = Some [''jpg'', ''jpeg'', ''webp'', ''tiff'', ''bmp'']"
    "map_of (formatMap all_available) ''mp4'' = Some [''avi'', ''mov'', ''wmv'', ''flv'']"
    by (simp_all add: formatMap_def all_available_def split del: if_split)
  note bare = formats_gating_C7 [OF checkCapabilities_env_bare]
  note full = formats_gating_C7 [OF checkCapabilities_env0]
  from bare [of "''MP4''"] lower mem
  have "fst (api_formats_p0 env_bare ''MP4'' w_app) = Some (Json 200 [(''formats'', Arr [])])"
    by simp
  moreover from bare [of "''docx''"] lower mem
  have "fst (api_formats_p0 env_bare ''docx'' w_app) = Some (Json 200 [(''formats'', Arr [])])"
    by simp
  moreover from bare [of "''PNG''"] lower mem tab
  have "fst (api_formats_p0 env_bare ''PNG'' w_app)
          = Some (Json 200 [(''formats'', Arr [Str ''jpg'', Str ''jpeg'', Str ''webp'',
                                                Str ''tiff'', Str ''bmp''])])"
    by auto
  moreover from full [of "''MP4''"] lower mem tab
  have "fst (api_formats_p0 env0 ''MP4'' w_app)
          = Some (Json 200 [(''formats'', Arr [Str ''avi'', Str ''mov'', Str ''wmv'',
                                                Str ''flv''])])"
    by (auto simp: all_available_def)
  ultimately show ?thesis by blast
qed

text \<open>
  The claim fails on \<open>GET /api/formats\<close> of \<open>server.cjs\<close>: the handler probes nothing and
  always lists the targets of every category, the audio and video ones included.
\<close>

theorem formats_static_C7_counterexample:
  "json_prop api_formats_cjs ''categories'' =
     Some (Obj
       [(''images'', Arr [Str ''PNG'', Str ''JPG'', Str ''JPEG'', Str ''WEBP'', Str ''GIF'',
                          Str ''BMP'', Str ''TIFF'']),
        (''documents'', Arr [Str ''PDF'', Str ''DOCX'', Str ''DOC'', Str ''TXT'', Str ''RTF'',
                             Str ''HTML'', Str ''ODT'']),
        (''audio'', Arr [Str ''MP3'', Str ''WAV'', Str ''FLAC'', Str ''AAC'', Str ''OGG'',
                         Str ''M4A'']),
        (''video'', Arr [Str ''MP4'', Str ''AVI'', Str ''MOV'', Str ''MKV'', Str ''WEBM'',
                         Str ''WMV''])])"
  by (simp add: json_prop_def api_formats_cjs_def res_json_def stringify_props_def omitted_def
      SUPPORTED_FORMATS_def)

text \<open>
  Claim C10. For a key that \<open>formatMap\<close> does not have itself the lookup still finds what
  the object inherits: \<open>GET /api/formats/constructor\<close> answers with status 200 and a body
  without a \<open>formats\<close> property (the value is a function, which the serialisation leaves
  out), and \<open>GET /api/formats/__proto__\<close> answers with an object in place of the list.
\<close>

theorem formats_inherited_key_C10:
  "map_of (formatMap all_available) ''constructor'' = None
   \<and> fst (api_formats_p0 env0 ''constructor'' w_app) = Some (Json 200 [])
   \<and> map_of (formatMap all_available) ''__proto__'' = None
   \<and> fst (api_formats_p0 env0 ''__proto__'' w_app) = Some (Json 200 [(''formats'', Obj [])])"
  by (simp add: api_formats_p0_def checkCapabilities_env0 object_get_def formatMap_def
      all_available_def object_prototype_def toLowerCase_def ascii_lower_def lowerChar_def
      upperLetters_def lowerLetters_def truthy_def res_json_def stringify_props_def omitted_def
      split del: if_split)

section \<open>Storage names and output paths of \<open>part_001\<close>\<close>

lemma outputPath_p1_token: "outputPath_p1 (e\<lparr>uuidv4 := t\<rparr>) origName fmt = outputPath_p1 e origName fmt"
  by (simp add: outputPath_p1_def outputsDir_p1_def)

text \<open>
  Claim C9. Two jobs that convert \<open>photo.png\<close> to \<open>webp\<close> with different tokens store
  their uploads under different paths, but both write their output to the same path:
  the output path is built from the original name and the target format only.
\<close>

theorem output_path_shared_C9:
  "file_path (stored_upload_p1 (env0\<lparr>uuidv4 := ''1b9d6bcd-bbfd-4b2d-9b5d-ab8dfbbd4bed''\<rparr>)
       ''photo.png'')
     = ''/app/uploads/1b9d6bcd-bbfd-4b2d-9b5d-ab8dfbbd4bed-photo.png''
   \<and> file_path (stored_upload_p1 (env0\<lparr>uuidv4 := ''6ec0bd7f-11c0-43da-975e-2a8ad9ebae0b''\<rparr>)
       ''photo.png'')
     = ''/app/uploads/6ec0bd7f-11c0-43da-975e-2a8ad9ebae0b-photo.png''
   \<and> outputPath_p1 (env0\<lparr>uuidv4 := ''1b9d6bcd-bbfd-4b2d-9b5d-ab8dfbbd4bed''\<rparr>)
       ''photo.png'' ''webp'' = ''/app/outputs/photo.webp''
   \<and> outputPath_p1 (env0\<lparr>uuidv4 := ''6ec0bd7f-11c0-43da-975e-2a8ad9ebae0b''\<rparr>)
       ''photo.png'' ''webp'' = ''/app/outputs/photo.webp''"
  by (simp add: stored_upload_p1_def outputPath_p1_def outputFileName_p1_def uploadsDir_p1_def
      outputsDir_p1_def storage_filename_p1_def env0_def path_join_def path_normalize_def
      isSlash_def path_basename_ext_def path_extname_def path_basename_def Let_def)

section \<open>The image adapters\<close>

lemma image_switch_p1_default:
  "toLowerCase e format \<notin> set image_cases_p1 \<Longrightarrow> image_switch_p1 e format = (''png'', [])"
  by (simp add: image_switch_p1_def image_cases_p1_def Let_def)

lemma image_switch_cjs_default:
  "toUpperCase e format \<notin> set image_cases_cjs
     \<Longrightarrow> image_switch_cjs e format = Throw (Error (''Unsupported image format: '' @ format))"
  by (simp add: image_switch_cjs_def image_cases_cjs_def Let_def)

text \<open>
  A target written with the dotless i: the engine upper-cases \<open>g\<close>, dotless i, \<open>f\<close> to
  \<open>GIF\<close>, so the switch of \<open>server.cjs\<close> takes the case \<open>GIF\<close>; likewise \<open>av\<close>, dotless i
  is the case \<open>AVI\<close> of the media switch.
\<close>

lemma switch_dotless_i:
  "toUpperCase env_unicode (''g'' @ dotless_i @ ''f'') = ''GIF''"
  "image_switch_cjs env_unicode (''g'' @ dotless_i @ ''f'') = Encode (''gif'', [])"
  "ffmpeg_format (media_switch_cjs env_unicode p (''av'' @ dotless_i) q) = Some ''avi''"
  "ffmpeg_videoCodec (media_switch_cjs env_unicode p (''av'' @ dotless_i) q) = Some ''libx264''"
  by (simp_all add: image_switch_cjs_def media_switch_cjs_def env_unicode_def dotless_i_def
      js_defs Let_def)

text \<open>
  Claim C8, as the code has it. \<open>convertImage\<close> of \<open>part_001\<close> encodes a target that has
  no case of its own with the PNG encoder to the given output path, and the promise
  follows the encoder: the adapter adds no rejection of its own. \<open>ImageConverter.convert\<close>
  of \<open>server.cjs\<close> rejects such a target with \<open>Unsupported image format\<close> and calls no
  encoder.
\<close>

theorem image_default_case_C8:
  "(toLowerCase e format \<notin> set image_cases_p1 \<longrightarrow>
      convertImage e inputPath outputPath format w =
        (let call = \<lparr>sharp_input = inputPath, sharp_encoder = Some (''png'', []),
                      sharp_output = outputPath\<rparr>;
             w' = \<lparr>w_fs = snd (sharp e call (w_fs w)), w_log = w_log w @ [SharpToFile call]\<rparr>
         in case fst (sharp e call (w_fs w)) of
              None \<Rightarrow> (Resolved (), w')
            | Some err \<Rightarrow> (Rejected err, w')))
   \<and> (toUpperCase e format \<notin> set image_cases_cjs \<longrightarrow>
        ImageConverter_convert e inputPath format w
          = (Rejected (Error (''Unsupported image format: '' @ format)), w))"
proof (intro conjI impI)
  assume "toLowerCase e format \<notin> set image_cases_p1"
  then show "convertImage e inputPath outputPath format w =
        (let call = \<lparr>sharp_input = inputPath, sharp_encoder = Some (''png'', []),
                      sharp_output = outputPath\<rparr>;
             w' = \<lparr>w_fs = snd (sharp e call (w_fs w)), w_log = w_log w @ [SharpToFile call]\<rparr>
         in case fst (sharp e call (w_fs w)) of
              None \<Rightarrow> (Resolved (), w')
            | Some err \<Rightarrow> (Rejected err, w'))"
    by (simp add: convertImage_def sharp_toFile_def image_switch_p1_default Let_def
        split: option.splits)
next
  assume "toUpperCase e format \<notin> set image_cases_cjs"
  then show "ImageConverter_convert e inputPath format w
          = (Rejected (Error (''Unsupported image format: '' @ format)), w)"
    by (simp add: ImageConverter_convert_def image_switch_cjs_default)
qed

theorem image_default_case_C8_witness:
  "toLowerCase env0 ''avif'' \<notin> set image_cases_p1
   \<and> convertImage env0 ''/app/uploads/1b9d6bcd-photo.png'' ''/app/outputs/photo.avif'' ''avif''
        w_app
       = (Resolved (),
          \<lparr>w_fs = fs_app\<lparr>files := [(''/app/outputs/photo.avif'', ''image'')]\<rparr>,
           w_log = [SharpToFile \<lparr>sharp_input = ''/app/uploads/1b9d6bcd-photo.png'',
                                 sharp_encoder = Some (''png'', []),
                                 sharp_output = ''/app/outputs/photo.avif''\<rparr>]\<rparr>)
   \<and> toUpperCase env0 ''avif'' \<notin> set image_cases_cjs
   \<and> ImageConverter_convert env0 ''uploads/0123456789abcdef0123456789abcdef'' ''avif'' w_app
       = (Rejected (Error ''Unsupported image format: avif''), w_app)"
proof -
  have l: "toLowerCase env0 ''avif'' \<notin> set image_cases_p1"
    by (simp add: image_cases_p1_def js_defs)
  have u: "toUpperCase env0 ''avif'' \<notin> set image_cases_cjs"
    by (simp add: image_cases_cjs_def js_defs)
  have d: "path_dirname ''/app/outputs/photo.avif'' = ''/app/outputs''"
    by (simp add: path_dirname_def isSlash_def Let_def)
  have s: "sharp env0 \<lparr>sharp_input = ''/app/uploads/1b9d6bcd-photo.png'',
                        sharp_encoder = Some (''png'', []),
                        sharp_output = ''/app/outputs/photo.avif''\<rparr> fs_app
             = (None, fs_app\<lparr>files := [(''/app/outputs/photo.avif'', ''image'')]\<rparr>)"
    by (simp add: env0_def sharp_ok_def writeFileSync_def isDir_def fs_app_def d)
  from image_default_case_C8
         [where format = "''avif''" and e = env0
            and inputPath = "''/app/uploads/1b9d6bcd-photo.png''"
            and outputPath = "''/app/outputs/photo.avif''" and w = w_app]
       l s
  have "convertImage env0 ''/app/uploads/1b9d6bcd-photo.png'' ''/app/outputs/photo.avif''
          ''avif'' w_app
        = (Resolved (),
           \<lparr>w_fs = fs_app\<lparr>files := [(''/app/outputs/photo.avif'', ''image'')]\<rparr>,
            w_log = [SharpToFile \<lparr>sharp_input = ''/app/uploads/1b9d6bcd-photo.png'',
                                  sharp_encoder = Some (''png'', []),
                                  sharp_output = ''/app/outputs/photo.avif''\<rparr>]\<rparr>)"
    by (simp add: Let_def w_app_def)
  moreover from image_default_case_C8
         [where format = "''avif''" and e = env0
            and inputPath = "''uploads/0123456789abcdef0123456789abcdef''" and w = w_app] u
  have "ImageConverter_convert env0 ''uploads/0123456789abcdef0123456789abcdef'' ''avif'' w_app
        = (Rejected (Error ''Unsupported image format: avif''), w_app)"
    by simp
  ultimately show ?thesis using l u by blast
qed

text \<open>
  The claim fails on \<open>server.cjs\<close>: the target \<open>avif\<close> has no case in the switch of
  \<open>ImageConverter.convert\<close>, and the adapter rejects it; no encoder is called.
\<close>

theorem image_unsupported_C8_counterexample:
  "image_switch_cjs env0 ''avif'' = Throw (Error ''Unsupported image format: avif'')
   \<and> ImageConverter_convert env0 ''uploads/0123456789abcdef0123456789abcdef'' ''avif'' w_app
       = (Rejected (Error ''Unsupported image format: avif''), w_app)"
  by (simp add: ImageConverter_convert_def image_switch_cjs_def toUpperCase_def ascii_upper_def
      upperChar_def upperLetters_def lowerLetters_def Let_def)

section \<open>Facts about the file system and the tools\<close>

lemma writeFileSync_ok:
  assumes "writeFileSync fs p c = Inr fs'"
  shows "isFile fs' p" "readFile fs' p = Some c" "existsSync fs' p" "dirs fs' = dirs fs"
proof -
  from assms have fs': "fs' = fs\<lparr>files := AList.update p c (files fs)\<rparr>"
    by (auto simp: writeFileSync_def split: if_splits)
  show "isFile fs' p"
    by (simp add: fs' isFile_def dom_update)
  then show "existsSync fs' p"
    by (simp add: existsSync_def)
  show "readFile fs' p = Some c"
    by (simp add: fs' readFile_def update_conv')
  show "dirs fs' = dirs fs"
    by (simp add: fs')
qed

lemma exec_log: "w_log (snd (exec e command timeout w)) = w_log w @ [ExecCalled command timeout]"
  by (simp add: exec_def Let_def)

lemma exec_cases:
  "exec e command timeout w =
     (let r = shell e command (w_fs w);
          w' = \<lparr>w_fs = pr_fs r, w_log = w_log w @ [ExecCalled command timeout]\<rparr>
      in (if timed_out timeout (pr_duration r) \<or> (pr_duration r \<noteq> None \<and> pr_exit r \<noteq> 0)
            then Callback (Some (exec_error command (pr_stderr r)))
          else if pr_duration r = None then NoCallback
          else Callback None, w'))"
  by (simp add: exec_def Let_def)

section \<open>The convert handler of \<open>server.cjs\<close>\<close>

lemma DocumentConverter_catch_written:
  assumes "writeFileSync (w_fs w) (doc_fallback_path e inputPath fmt)
             (doc_fallback_content e inputPath fmt) = Inr fs'"
  shows "DocumentConverter_catch e inputPath fmt w
           = (Resolved (doc_fallback_path e inputPath fmt), w\<lparr>w_fs := fs'\<rparr>)"
  using assms
  by (cases "toUpperCase e fmt = ''TXT''")
    (simp_all add: DocumentConverter_catch_def doc_fallback_path_def doc_fallback_content_def
      Let_def)

lemma DocumentConverter_catch_log:
  "w_log (snd (DocumentConverter_catch e inputPath fmt w)) = w_log w"
  by (simp add: DocumentConverter_catch_def Let_def split: sum.splits)

lemma DocumentConverter_catch_not_pending:
  "fst (DocumentConverter_catch e inputPath fmt w) \<noteq> Pending"
  by (simp add: DocumentConverter_catch_def Let_def split: sum.splits)

lemma DocumentConverter_failed:
  assumes "exec e ''which soffice || which libreoffice'' None w = (Callback None, w1)"
    and "exec e (soffice_command e inputPath fmt) (Some 30000) w1 = (Callback r, w2)"
    and "r \<noteq> None \<or> \<not> existsSync (w_fs w2) (doc_outputPath e inputPath fmt)"
  shows "DocumentConverter_convert e inputPath fmt w = DocumentConverter_catch e inputPath fmt w2"
  using assms
  by (cases r) (auto simp: DocumentConverter_convert_def Let_def)

lemma conversion_error_cjs_log:
  "w_log (snd (conversion_error_cjs f err w)) = w_log w"
  by (simp add: conversion_error_cjs_def split: sum.splits)

lemma deliver_cjs_log:
  "w_log (snd (deliver_cjs e f fmt p w)) = w_log w"
  by (simp add: deliver_cjs_def conversion_error_cjs_log Let_def)

lemma convert_cjs_dispatch:
  assumes "req_file req = Some f" "req_outputFormat req = Some fmt" "fmt \<noteq> []"
  shows "convert_cjs e req w =
     (case dispatch_cjs e (getFileCategory_cjs e (originalname f)) (file_path f) fmt w of
        (Resolved outputPath, w') \<Rightarrow> deliver_cjs e f fmt outputPath w'
      | (Rejected conversionError, w') \<Rightarrow> conversion_error_cjs f conversionError w'
      | (Pending, w') \<Rightarrow> (None, w')
      | (Uncaught ex, w') \<Rightarrow> (None, w'))"
  using assms by (simp add: convert_cjs_def Let_def)

lemma convert_cjs_log:
  assumes "req_file req = Some f" "req_outputFormat req = Some fmt" "fmt \<noteq> []"
  shows "w_log (snd (convert_cjs e req w))
           = w_log (snd (dispatch_cjs e (getFileCategory_cjs e (originalname f)) (file_path f) fmt w))"
  unfolding convert_cjs_dispatch [OF assms]
  by (simp add: deliver_cjs_log conversion_error_cjs_log split: prod.splits promise.splits)

lemma convert_cjs_resolved:
  assumes "req_file req = Some f" "req_outputFormat req = Some fmt" "fmt \<noteq> []"
    and "dispatch_cjs e (getFileCategory_cjs e (originalname f)) (file_path f) fmt w = (Resolved p, w')"
    and "existsSync (w_fs w') p"
  shows "convert_cjs e req w =
           (Some (Download p (download_name_cjs e f fmt) (transfer e p (w_fs w'))),
            w'\<lparr>w_fs := cleanup_cjs (w_fs w') (file_path f) p\<rparr>)"
  unfolding convert_cjs_dispatch [OF assms(1-3)]
  using assms(4,5) by (simp add: deliver_cjs_def download_name_cjs_def Let_def)

lemma MediaConverter_convert_log:
  "w_log (snd (MediaConverter_convert e p fmt w))
     = w_log w @ [FfmpegRun (media_switch_cjs e p fmt (replace_ext p (''.'' @ toLowerCase e fmt)))]"
  by (simp add: MediaConverter_convert_def ffmpeg_run_def Let_def split: option.splits sum.splits)

lemma DocumentConverter_convert_log:
  "\<exists>rest. w_log (snd (DocumentConverter_convert e p fmt w))
     = w_log w @ ExecCalled ''which soffice || which libreoffice'' None # rest"
proof -
  obtain o1 w1 where e1: "exec e ''which soffice || which libreoffice'' None w = (o1, w1)"
    by (cases "exec e ''which soffice || which libreoffice'' None w")
  then have l1: "w_log w1 = w_log w @ [ExecCalled ''which soffice || which libreoffice'' None]"
    using exec_log [of e "''which soffice || which libreoffice''" None w] by simp
  obtain o2 w2 where e2: "exec e (soffice_command e p fmt) (Some 30000) w1 = (o2, w2)"
    by (cases "exec e (soffice_command e p fmt) (Some 30000) w1")
  then have l2: "w_log w2 = w_log w1 @ [ExecCalled (soffice_command e p fmt) (Some 30000)]"
    using exec_log [of e "soffice_command e p fmt" "Some 30000" w1] by simp
  show ?thesis
    using e1 e2 l1 l2
    by (auto simp: DocumentConverter_convert_def DocumentConverter_catch_log Let_def
        split: exec_outcome.splits option.splits)
qed

lemma ImageConverter_convert_log:
  "w_log (snd (ImageConverter_convert e p fmt w)) =
     (case image_switch_cjs e fmt of
        Throw err \<Rightarrow> w_log w
      | Encode enc \<Rightarrow> w_log w @ [SharpToFile \<lparr>sharp_input = p, sharp_encoder = Some enc,
            sharp_output = replace_ext p (''.'' @ toLowerCase e fmt)\<rparr>])"
  by (simp add: ImageConverter_convert_def sharp_toFile_def Let_def
      split: image_case.splits option.splits prod.splits)

lemma getFileCategory_cjs_range:
  "getFileCategory_cjs e n \<in> {''images'', ''documents'', ''audio'', ''video''}"
  by (simp add: getFileCategory_cjs_def Let_def)

text \<open>
  The case \<open>BMP\<close> of the image switch: the encoder method does not exist, no tool is
  called, and the handler answers through its conversion-error path, although
  \<open>SUPPORTED_FORMATS\<close> lists BMP among the image targets.
\<close>

lemma image_request_bmp:
  assumes "req_file req = Some f" "req_outputFormat req = Some fmt" "fmt \<noteq> []"
    and "getFileCategory_cjs e (originalname f) = ''images''" "toUpperCase e fmt = ''BMP''"
  shows "convert_cjs e req w
           = conversion_error_cjs f (TypeError ''sharpInstance.bmp is not a function'') w"
    and "in_matrix_cjs e ''images'' fmt"
  using assms(4,5)
  by (simp_all add: convert_cjs_dispatch [OF assms(1-3)] dispatch_cjs_def
      ImageConverter_convert_def image_switch_cjs_def in_matrix_cjs_def SUPPORTED_FORMATS_def
      Let_def)

text \<open>
  Claim C2, as the code has it. The handler of \<open>server.cjs\<close> consults no support matrix:
  a request with a file and a non-empty output format always reaches the adapter of the
  file's category. For a document the probe command is run, whatever the target; for an
  audio or video file the media tool is run, and a target outside the switch is passed
  on as the format name; for an image the encoder is run when the target is one of PNG,
  JPG, JPEG, WEBP, GIF and TIFF, and a target that is no case of the switch is rejected
  by the adapter, before any tool runs, the handler answering through its
  conversion-error path.
\<close>

theorem no_matrix_check_C2:
  assumes "req_file req = Some f" "req_outputFormat req = Some fmt" "fmt \<noteq> []"
  shows "getFileCategory_cjs e (originalname f) \<in> {''images'', ''documents'', ''audio'', ''video''}
    \<and> (getFileCategory_cjs e (originalname f) = ''documents'' \<longrightarrow>
         (\<exists>rest. w_log (snd (convert_cjs e req w))
            = w_log w @ ExecCalled ''which soffice || which libreoffice'' None # rest))
    \<and> (getFileCategory_cjs e (originalname f) = ''audio''
          \<or> getFileCategory_cjs e (originalname f) = ''video'' \<longrightarrow>
         w_log (snd (convert_cjs e req w))
           = w_log w @ [FfmpegRun (media_switch_cjs e (file_path f) fmt
                                     (replace_ext (file_path f) (''.'' @ toLowerCase e fmt)))])
    \<and> (toUpperCase e fmt \<notin> set [''MP3'', ''WAV'', ''MP4'', ''AVI'', ''WEBM''] \<longrightarrow>
         ffmpeg_format (media_switch_cjs e (file_path f) fmt
                          (replace_ext (file_path f) (''.'' @ toLowerCase e fmt)))
           = Some (toLowerCase e fmt))
    \<and> (getFileCategory_cjs e (originalname f) = ''images''
          \<and> toUpperCase e fmt \<in> set image_encoders_cjs \<longrightarrow>
         (\<exists>enc. image_switch_cjs e fmt = Encode enc
            \<and> w_log (snd (convert_cjs e req w))
                = w_log w @ [SharpToFile \<lparr>sharp_input = file_path f, sharp_encoder = Some enc,
                     sharp_output = replace_ext (file_path f) (''.'' @ toLowerCase e fmt)\<rparr>]))
    \<and> (getFileCategory_cjs e (originalname f) = ''images''
          \<and> toUpperCase e fmt \<notin> set image_cases_cjs \<longrightarrow>
         convert_cjs e req w
           = conversion_error_cjs f (Error (''Unsupported image format: '' @ fmt)) w)"
proof (intro conjI impI)
  show "getFileCategory_cjs e (originalname f) \<in> {''images'', ''documents'', ''audio'', ''video''}"
    by (rule getFileCategory_cjs_range)
next
  assume "getFileCategory_cjs e (originalname f) = ''documents''"
  then show "\<exists>rest. w_log (snd (convert_cjs e req w))
            = w_log w @ ExecCalled ''which soffice || which libreoffice'' None # rest"
    using DocumentConverter_convert_log [of e "file_path f" fmt w]
    by (simp add: convert_cjs_log [OF assms] dispatch_cjs_def)
next
  assume "getFileCategory_cjs e (originalname f) = ''audio''
          \<or> getFileCategory_cjs e (originalname f) = ''video''"
  then show "w_log (snd (convert_cjs e req w))
           = w_log w @ [FfmpegRun (media_switch_cjs e (file_path f) fmt
                                     (replace_ext (file_path f) (''.'' @ toLowerCase e fmt)))]"
    by (auto simp: convert_cjs_log [OF assms] dispatch_cjs_def MediaConverter_convert_log)
next
  assume "toUpperCase e fmt \<notin> set [''MP3'', ''WAV'', ''MP4'', ''AVI'', ''WEBM'']"
  then show "ffmpeg_format (media_switch_cjs e (file_path f) fmt
                          (replace_ext (file_path f) (''.'' @ toLowerCase e fmt)))
           = Some (toLowerCase e fmt)"
    by (simp add: media_switch_cjs_def Let_def)
next
  assume a: "getFileCategory_cjs e (originalname f) = ''images''
          \<and> toUpperCase e fmt \<in> set image_encoders_cjs"
  then obtain enc where enc: "image_switch_cjs e fmt = Encode enc"
    by (auto simp: image_switch_cjs_def image_encoders_cjs_def Let_def)
  with a show "\<exists>enc. image_switch_cjs e fmt = Encode enc
            \<and> w_log (snd (convert_cjs e req w))
                = w_log w @ [SharpToFile \<lparr>sharp_input = file_path f, sharp_encoder = Some enc,
                     sharp_output = replace_ext (file_path f) (''.'' @ toLowerCase e fmt)\<rparr>]"
    by (simp add: convert_cjs_log [OF assms] dispatch_cjs_def ImageConverter_convert_log)
next
  assume a: "getFileCategory_cjs e (originalname f) = ''images''
          \<and> toUpperCase e fmt \<notin> set image_cases_cjs"
  then have "image_switch_cjs e fmt = Throw (Error (''Unsupported image format: '' @ fmt))"
    by (simp add: image_switch_cjs_default)
  with a show "convert_cjs e req w
           = conversion_error_cjs f (Error (''Unsupported image format: '' @ fmt)) w"
    by (simp add: convert_cjs_dispatch [OF assms] dispatch_cjs_def ImageConverter_convert_def)
qed

lemma cat_docx:
  "str_lower e = ascii_lower \<Longrightarrow> getFileCategory_cjs e ''report.docx'' = ''documents''"
  by (simp add: getFileCategory_cjs_def imageExts_def docExts_def js_defs path_defs Let_def)

lemma probe_nofilter:
  "exec env_nofilter ''which soffice || which libreoffice'' None w_cjs
     = (Callback None, \<lparr>w_fs = fs_cjs,
          w_log = [ExecCalled ''which soffice || which libreoffice'' None]\<rparr>)"
  by (simp add: exec_def env_nofilter_def env0_def soffice_fails_def quiet_shell_def
      timed_out_def w_cjs_def startsWith_def Let_def)

lemma soffice_command_not_which: "\<not> startsWith (soffice_command e p fmt) ''which''"
  by (simp add: soffice_command_def startsWith_def)

lemma conv_nofilter:
  "exec env_nofilter (soffice_command env_nofilter upload_cjs ''XYZ'') (Some 30000)
       \<lparr>w_fs = fs_cjs, w_log = [ExecCalled ''which soffice || which libreoffice'' None]\<rparr>
     = (Callback (Some (exec_error (soffice_command env_nofilter upload_cjs ''XYZ'') ''Error: no export filter'')),
        \<lparr>w_fs = fs_cjs,
         w_log = [ExecCalled ''which soffice || which libreoffice'' None,
                  ExecCalled (soffice_command env_nofilter upload_cjs ''XYZ'') (Some 30000)]\<rparr>)"
  by (simp add: exec_def env_nofilter_def env0_def soffice_fails_def soffice_command_not_which
      timed_out_def Let_def)

lemma note_path_cjs:
  "str_upper e = ascii_upper \<Longrightarrow>
     doc_fallback_path e upload_cjs ''XYZ''
       = ''uploads/0123456789abcdef0123456789abcdef_conversion_note.txt''"
  by (simp add: doc_fallback_path_def doc_noteOutputPath_def upload_cjs_def js_defs path_defs Let_def)

lemma note_written:
  "writeFileSync fs_cjs ''uploads/0123456789abcdef0123456789abcdef_conversion_note.txt'' c
     = Inr (fs_cjs\<lparr>files := [(upload_cjs, ''upload''),
          (''uploads/0123456789abcdef0123456789abcdef_conversion_note.txt'', c)]\<rparr>)"
  by (simp add: writeFileSync_def isDir_def fs_cjs_def upload_cjs_def path_defs Let_def)

lemma doc_xyz_converted:
  "DocumentConverter_convert env_nofilter upload_cjs ''XYZ'' w_cjs
     = (Resolved ''uploads/0123456789abcdef0123456789abcdef_conversion_note.txt'',
        \<lparr>w_fs = fs_cjs\<lparr>files := [(upload_cjs, ''upload''),
            (''uploads/0123456789abcdef0123456789abcdef_conversion_note.txt'',
             doc_fallback_content env_nofilter upload_cjs ''XYZ'')]\<rparr>,
         w_log = [ExecCalled ''which soffice || which libreoffice'' None,
                  ExecCalled (soffice_command env_nofilter upload_cjs ''XYZ'') (Some 30000)]\<rparr>)"
proof -
  have "DocumentConverter_convert env_nofilter upload_cjs ''XYZ'' w_cjs
          = DocumentConverter_catch env_nofilter upload_cjs ''XYZ''
              \<lparr>w_fs = fs_cjs,
               w_log = [ExecCalled ''which soffice || which libreoffice'' None,
                        ExecCalled (soffice_command env_nofilter upload_cjs ''XYZ'') (Some 30000)]\<rparr>"
    by (rule DocumentConverter_failed [OF probe_nofilter conv_nofilter]) simp
  also have "\<dots> = (Resolved (doc_fallback_path env_nofilter upload_cjs ''XYZ''),
        \<lparr>w_fs = fs_cjs\<lparr>files := [(upload_cjs, ''upload''),
            (''uploads/0123456789abcdef0123456789abcdef_conversion_note.txt'',
             doc_fallback_content env_nofilter upload_cjs ''XYZ'')]\<rparr>,
         w_log = [ExecCalled ''which soffice || which libreoffice'' None,
                  ExecCalled (soffice_command env_nofilter upload_cjs ''XYZ'') (Some 30000)]\<rparr>)"
    by (subst DocumentConverter_catch_written) (simp_all add: note_path_cjs note_written)
  finally show ?thesis by (simp add: note_path_cjs)
qed

text \<open>
  The claim fails on \<open>server.cjs\<close>: the pair (documents, XYZ) is not in the support
  matrix, yet the request is not rejected. The probe and the conversion command are both
  run, and when the conversion fails the request ends as a download of the note.
\<close>

theorem unsupported_pair_runs_backend_C2_counterexample:
  "getFileCategory_cjs env_nofilter ''report.docx'' = ''documents''
   \<and> \<not> in_matrix_cjs env_nofilter ''documents'' ''XYZ''
   \<and> fst (convert_cjs env_nofilter (req_cjs ''report.docx'' ''XYZ'') w_cjs)
       = Some (Download ''uploads/0123456789abcdef0123456789abcdef_conversion_note.txt''
                 ''report.xyz'' None)
   \<and> w_log (snd (convert_cjs env_nofilter (req_cjs ''report.docx'' ''XYZ'') w_cjs))
       = [ExecCalled ''which soffice || which libreoffice'' None,
          ExecCalled (soffice_command env_nofilter upload_cjs ''XYZ'') (Some 30000)]"
proof -
  have m: "\<not> in_matrix_cjs env_nofilter ''documents'' ''XYZ''"
    by (simp add: in_matrix_cjs_def SUPPORTED_FORMATS_def js_defs)
  have n: "download_name_cjs env_nofilter \<lparr>originalname = ''report.docx'', file_path = upload_cjs\<rparr> ''XYZ''
             = ''report.xyz''"
    by (simp add: download_name_cjs_def js_defs path_defs Let_def)
  have ex: "existsSync (fs_cjs\<lparr>files := [(upload_cjs, ''upload''),
            (''uploads/0123456789abcdef0123456789abcdef_conversion_note.txt'',
             doc_fallback_content env_nofilter upload_cjs ''XYZ'')]\<rparr>)
          ''uploads/0123456789abcdef0123456789abcdef_conversion_note.txt''"
    by (simp add: existsSync_def isFile_def)
  have d: "dispatch_cjs env_nofilter
             (getFileCategory_cjs env_nofilter (originalname \<lparr>originalname = ''report.docx'', file_path = upload_cjs\<rparr>))
             (file_path \<lparr>originalname = ''report.docx'', file_path = upload_cjs\<rparr>) ''XYZ'' w_cjs
     = (Resolved ''uploads/0123456789abcdef0123456789abcdef_conversion_note.txt'',
        \<lparr>w_fs = fs_cjs\<lparr>files := [(upload_cjs, ''upload''),
            (''uploads/0123456789abcdef0123456789abcdef_conversion_note.txt'',
             doc_fallback_content env_nofilter upload_cjs ''XYZ'')]\<rparr>,
         w_log = [ExecCalled ''which soffice || which libreoffice'' None,
                  ExecCalled (soffice_command env_nofilter upload_cjs ''XYZ'') (Some 30000)]\<rparr>)"
    by (simp add: dispatch_cjs_def cat_docx doc_xyz_converted)
  have t: "transfer env_nofilter p fs = None" for p fs
    by (simp add: env_nofilter_def env0_def)
  let ?f = "\<lparr>originalname = ''report.docx'', file_path = upload_cjs\<rparr>"
  let ?note = "''uploads/0123456789abcdef0123456789abcdef_conversion_note.txt''"
  let ?w' = "\<lparr>w_fs = fs_cjs\<lparr>files := [(upload_cjs, ''upload''),
            (?note, doc_fallback_content env_nofilter upload_cjs ''XYZ'')]\<rparr>,
         w_log = [ExecCalled ''which soffice || which libreoffice'' None,
                  ExecCalled (soffice_command env_nofilter upload_cjs ''XYZ'') (Some 30000)]\<rparr>"
  have "convert_cjs env_nofilter (req_cjs ''report.docx'' ''XYZ'') w_cjs =
      (Some (Download ?note (download_name_cjs env_nofilter ?f ''XYZ'') (transfer env_nofilter ?note (w_fs ?w'))),
       ?w'\<lparr>w_fs := cleanup_cjs (w_fs ?w') (file_path ?f) ?note\<rparr>)"
    using d ex
    by (intro convert_cjs_resolved) (simp_all add: req_cjs_def)
  with m cat_docx n t show ?thesis by simp
qed

theorem no_matrix_check_C2_witness:
  "getFileCategory_cjs env0 ''report.docx'' = ''documents''
   \<and> (\<exists>rest. w_log (snd (convert_cjs env0 (req_cjs ''report.docx'' ''XYZ'') w_cjs))
         = w_log w_cjs @ ExecCalled ''which soffice || which libreoffice'' None # rest)
   \<and> getFileCategory_cjs env0 ''song.mp3'' = ''audio''
   \<and> w_log (snd (convert_cjs env0 (req_cjs ''song.mp3'' ''XYZ'') w_cjs))
       = w_log w_cjs @ [FfmpegRun (media_switch_cjs env0 upload_cjs ''XYZ''
                                     (replace_ext upload_cjs (''.'' @ toLowerCase env0 ''XYZ'')))]
   \<and> ffmpeg_format (media_switch_cjs env0 upload_cjs ''XYZ''
                       (replace_ext upload_cjs (''.'' @ toLowerCase env0 ''XYZ''))) = Some ''xyz''
   \<and> getFileCategory_cjs env0 ''photo.png'' = ''images''
   \<and> (\<exists>enc. image_switch_cjs env0 ''webp'' = Encode enc
         \<and> w_log (snd (convert_cjs env0 (req_cjs ''photo.png'' ''webp'') w_cjs))
             = w_log w_cjs @ [SharpToFile \<lparr>sharp_input = upload_cjs, sharp_encoder = Some enc,
                  sharp_output = replace_ext upload_cjs (''.'' @ toLowerCase env0 ''webp'')\<rparr>])
   \<and> convert_cjs env0 (req_cjs ''photo.png'' ''avif'') w_cjs
       = conversion_error_cjs \<lparr>originalname = ''photo.png'', file_path = upload_cjs\<rparr>
           (Error ''Unsupported image format: avif'') w_cjs"
proof -
  have c1: "getFileCategory_cjs env0 ''report.docx'' = ''documents''"
    by (simp add: cat_docx)
  have c2: "getFileCategory_cjs env0 ''song.mp3'' = ''audio''"
    by (simp add: getFileCategory_cjs_def imageExts_def docExts_def audioExts_def js_defs
        path_defs Let_def)
  have c3: "getFileCategory_cjs env0 ''photo.png'' = ''images''"
    by (simp add: getFileCategory_cjs_def imageExts_def js_defs path_defs Let_def)
  have u1: "toUpperCase env0 ''XYZ'' \<notin> set [''MP3'', ''WAV'', ''MP4'', ''AVI'', ''WEBM'']"
    by (simp add: js_defs)
  have u2: "toUpperCase env0 ''webp'' \<in> set image_encoders_cjs"
    by (simp add: image_encoders_cjs_def js_defs)
  have u3: "toUpperCase env0 ''avif'' \<notin> set image_cases_cjs"
    by (simp add: image_cases_cjs_def js_defs)
  have l: "toLowerCase env0 ''XYZ'' = ''xyz''"
    by (simp add: js_defs)
  note docs = no_matrix_check_C2
    [of "req_cjs ''report.docx'' ''XYZ''"
        "\<lparr>originalname = ''report.docx'', file_path = upload_cjs\<rparr>" "''XYZ''" env0 w_cjs]
  note song = no_matrix_check_C2
    [of "req_cjs ''song.mp3'' ''XYZ''"
        "\<lparr>originalname = ''song.mp3'', file_path = upload_cjs\<rparr>" "''XYZ''" env0 w_cjs]
  note webp = no_matrix_check_C2
    [of "req_cjs ''photo.png'' ''webp''"
        "\<lparr>originalname = ''photo.png'', file_path = upload_cjs\<rparr>" "''webp''" env0 w_cjs]
  note avif = no_matrix_check_C2
    [of "req_cjs ''photo.png'' ''avif''"
        "\<lparr>originalname = ''photo.png'', file_path = upload_cjs\<rparr>" "''avif''" env0 w_cjs]
  from docs c1
  have "\<exists>rest. w_log (snd (convert_cjs env0 (req_cjs ''report.docx'' ''XYZ'') w_cjs))
         = w_log w_cjs @ ExecCalled ''which soffice || which libreoffice'' None # rest"
    by (simp add: req_cjs_def)
  moreover from song c2 u1
  have "w_log (snd (convert_cjs env0 (req_cjs ''song.mp3'' ''XYZ'') w_cjs))
       = w_log w_cjs @ [FfmpegRun (media_switch_cjs env0 upload_cjs ''XYZ''
                                     (replace_ext upload_cjs (''.'' @ toLowerCase env0 ''XYZ'')))]
     \<and> ffmpeg_format (media_switch_cjs env0 upload_cjs ''XYZ''
                       (replace_ext upload_cjs (''.'' @ toLowerCase env0 ''XYZ''))) = Some ''xyz''"
    by (simp add: req_cjs_def l)
  moreover from webp c3 u2
  have "\<exists>enc. image_switch_cjs env0 ''webp'' = Encode enc
         \<and> w_log (snd (convert_cjs env0 (req_cjs ''photo.png'' ''webp'') w_cjs))
             = w_log w_cjs @ [SharpToFile \<lparr>sharp_input = upload_cjs, sharp_encoder = Some enc,
                  sharp_output = replace_ext upload_cjs (''.'' @ toLowerCase env0 ''webp'')\<rparr>]"
    by (simp add: req_cjs_def)
  moreover from avif c3 u3
  have "convert_cjs env0 (req_cjs ''photo.png'' ''avif'') w_cjs
       = conversion_error_cjs \<lparr>originalname = ''photo.png'', file_path = upload_cjs\<rparr>
           (Error ''Unsupported image format: avif'') w_cjs"
    by (simp add: req_cjs_def)
  ultimately show ?thesis using c1 c2 c3 by blast
qed

section \<open>Failing backends\<close>

lemma convert_p1_dispatch:
  assumes "req_file req = Some f" "req_outputFormat req = Some fmt" "fmt \<noteq> []"
  shows "convert_p1 e req w =
     (case dispatch_p1 e (getFileCategory_p1 e (originalname f)) (file_path f)
             (outputPath_p1 e (originalname f) fmt) fmt w of
        (Resolved u, w') \<Rightarrow>
          if \<not> existsSync (w_fs w') (outputPath_p1 e (originalname f) fmt) then
            conversion_error_p1 (file_path f)
              (Error ''Conversion failed - output file not created'') w'
          else
            (Some (Download (outputPath_p1 e (originalname f) fmt)
                     (outputFileName_p1 (originalname f) fmt)
                     (transfer e (outputPath_p1 e (originalname f) fmt) (w_fs w'))),
             w'\<lparr>w_fs := removeSync (removeSync (w_fs w') (file_path f))
                             (outputPath_p1 e (originalname f) fmt)\<rparr>)
      | (Rejected conversionError, w') \<Rightarrow> conversion_error_p1 (file_path f) conversionError w'
      | (Pending, w') \<Rightarrow> (None, w')
      | (Uncaught ex, w') \<Rightarrow> (None, w'))"
  using assms by (simp add: convert_p1_def Let_def)

lemma convert_p1_rejected:
  assumes "req_file req = Some f" "req_outputFormat req = Some fmt" "fmt \<noteq> []"
    and "dispatch_p1 e (getFileCategory_p1 e (originalname f)) (file_path f)
           (outputPath_p1 e (originalname f) fmt) fmt w = (Rejected err, w')"
  shows "convert_p1 e req w =
           (Some (Json 500 [(''error'', Str ''Conversion failed''),
                            (''details'', Str (message err))]),
            w'\<lparr>w_fs := removeSync (w_fs w') (file_path f)\<rparr>)"
  unfolding convert_p1_dispatch [OF assms(1-3)]
  using assms(4)
  by (simp add: conversion_error_p1_def res_json_def stringify_props_def omitted_def)

lemma convert_p1_pending:
  assumes "req_file req = Some f" "req_outputFormat req = Some fmt" "fmt \<noteq> []"
    and "dispatch_p1 e (getFileCategory_p1 e (originalname f)) (file_path f)
           (outputPath_p1 e (originalname f) fmt) fmt w = (Pending, w')"
  shows "convert_p1 e req w = (None, w')"
  unfolding convert_p1_dispatch [OF assms(1-3)]
  using assms(4) by simp

text \<open>
  Claim C3, as the code has it. In \<open>server.cjs\<close>, when LibreOffice is found and the
  conversion command then fails (or runs out of time, or leaves no output), the document
  converter writes a plain-text file next to the input, the text file for the target TXT
  and the note otherwise, and the request ends as a download of that file, whenever the
  file can be written. In \<open>part_001\<close> a failing media tool and a LibreOffice that exits
  with a code other than 0 reject, and the handler answers with status 500 and the
  details of the error.
\<close>

theorem placeholder_on_failure_C3:
  assumes "req_file req = Some f" "req_outputFormat req = Some fmt" "fmt \<noteq> []"
  shows
    "(getFileCategory_cjs e (originalname f) = ''documents''
      \<and> exec e ''which soffice || which libreoffice'' None w = (Callback None, w1)
      \<and> exec e (soffice_command e (file_path f) fmt) (Some 30000) w1 = (Callback r, w2)
      \<and> (r \<noteq> None \<or> \<not> existsSync (w_fs w2) (doc_outputPath e (file_path f) fmt))
      \<and> writeFileSync (w_fs w2) (doc_fallback_path e (file_path f) fmt)
            (doc_fallback_content e (file_path f) fmt) = Inr fs3
      \<longrightarrow> readFile fs3 (doc_fallback_path e (file_path f) fmt)
            = Some (doc_fallback_content e (file_path f) fmt)
          \<and> convert_cjs e req w
            = (Some (Download (doc_fallback_path e (file_path f) fmt) (download_name_cjs e f fmt)
                       (transfer e (doc_fallback_path e (file_path f) fmt) fs3)),
               w2\<lparr>w_fs := cleanup_cjs fs3 (file_path f) (doc_fallback_path e (file_path f) fmt)\<rparr>))
   \<and> ((getFileCategory_p1 e (originalname f) = ''audio''
         \<or> getFileCategory_p1 e (originalname f) = ''video'')
      \<and> ffmpeg_run e (media_command_p1 e (file_path f) (outputPath_p1 e (originalname f) fmt) fmt) w
            = (Some err1, wp)
      \<longrightarrow> convert_p1 e req w
            = (Some (Json 500 [(''error'', Str ''Conversion failed''),
                               (''details'', Str (message err1))]),
               wp\<lparr>w_fs := removeSync (w_fs wp) (file_path f)\<rparr>))
   \<and> (getFileCategory_p1 e (originalname f) = ''document''
      \<and> spawn_proc e ''libreoffice''
            (spawn_args_p1 e (file_path f) (outputPath_p1 e (originalname f) fmt) fmt) (w_fs w)
            = Closed code fsd
      \<and> code \<noteq> 0
      \<longrightarrow> convert_p1 e req w
            = (Some (Json 500 [(''error'', Str ''Conversion failed''),
                               (''details'', Str (''LibreOffice conversion failed with code ''
                                                  @ decimal code))]),
               \<lparr>w_fs = removeSync fsd (file_path f),
                w_log = w_log w @ [SpawnCalled ''libreoffice''
                  (spawn_args_p1 e (file_path f) (outputPath_p1 e (originalname f) fmt) fmt)]\<rparr>))"
proof (intro conjI impI)
  assume a: "getFileCategory_cjs e (originalname f) = ''documents''
      \<and> exec e ''which soffice || which libreoffice'' None w = (Callback None, w1)
      \<and> exec e (soffice_command e (file_path f) fmt) (Some 30000) w1 = (Callback r, w2)
      \<and> (r \<noteq> None \<or> \<not> existsSync (w_fs w2) (doc_outputPath e (file_path f) fmt))
      \<and> writeFileSync (w_fs w2) (doc_fallback_path e (file_path f) fmt)
            (doc_fallback_content e (file_path f) fmt) = Inr fs3"
  then have wr: "writeFileSync (w_fs w2) (doc_fallback_path e (file_path f) fmt)
            (doc_fallback_content e (file_path f) fmt) = Inr fs3" by simp
  show "readFile fs3 (doc_fallback_path e (file_path f) fmt)
            = Some (doc_fallback_content e (file_path f) fmt)"
    by (rule writeFileSync_ok(2) [OF wr])
  from a have "DocumentConverter_convert e (file_path f) fmt w
                 = DocumentConverter_catch e (file_path f) fmt w2"
    using DocumentConverter_failed [of e w w1 "file_path f" fmt r w2] by blast
  with DocumentConverter_catch_written [OF wr] a
  have d: "dispatch_cjs e (getFileCategory_cjs e (originalname f)) (file_path f) fmt w
             = (Resolved (doc_fallback_path e (file_path f) fmt), w2\<lparr>w_fs := fs3\<rparr>)"
    by (simp add: dispatch_cjs_def)
  have ex: "existsSync (w_fs (w2\<lparr>w_fs := fs3\<rparr>)) (doc_fallback_path e (file_path f) fmt)"
    using writeFileSync_ok(3) [OF wr] by simp
  from convert_cjs_resolved [OF assms d ex]
  show "convert_cjs e req w
            = (Some (Download (doc_fallback_path e (file_path f) fmt) (download_name_cjs e f fmt)
                       (transfer e (doc_fallback_path e (file_path f) fmt) fs3)),
               w2\<lparr>w_fs := cleanup_cjs fs3 (file_path f) (doc_fallback_path e (file_path f) fmt)\<rparr>)"
    by simp
next
  assume a: "(getFileCategory_p1 e (originalname f) = ''audio''
         \<or> getFileCategory_p1 e (originalname f) = ''video'')
      \<and> ffmpeg_run e (media_command_p1 e (file_path f) (outputPath_p1 e (originalname f) fmt) fmt) w
            = (Some err1, wp)"
  then have "dispatch_p1 e (getFileCategory_p1 e (originalname f)) (file_path f)
           (outputPath_p1 e (originalname f) fmt) fmt w = (Rejected err1, wp)"
    by (auto simp: dispatch_p1_def convertMedia_def)
  from convert_p1_rejected [OF assms this]
  show "convert_p1 e req w
            = (Some (Json 500 [(''error'', Str ''Conversion failed''),
                               (''details'', Str (message err1))]),
               wp\<lparr>w_fs := removeSync (w_fs wp) (file_path f)\<rparr>)" .
next
  let ?args = "spawn_args_p1 e (file_path f) (outputPath_p1 e (originalname f) fmt) fmt"
  assume a: "getFileCategory_p1 e (originalname f) = ''document''
      \<and> spawn_proc e ''libreoffice'' ?args (w_fs w) = Closed code fsd
      \<and> code \<noteq> 0"
  then have "dispatch_p1 e (getFileCategory_p1 e (originalname f)) (file_path f)
           (outputPath_p1 e (originalname f) fmt) fmt w
      = (Rejected (Error (''LibreOffice conversion failed with code '' @ decimal code)),
         \<lparr>w_fs = fsd, w_log = w_log w @ [SpawnCalled ''libreoffice'' ?args]\<rparr>)"
    by (simp add: dispatch_p1_def convertDocument_def Let_def)
  from convert_p1_rejected [OF assms this]
  show "convert_p1 e req w
            = (Some (Json 500 [(''error'', Str ''Conversion failed''),
                               (''details'', Str (''LibreOffice conversion failed with code ''
                                                  @ decimal code))]),
               \<lparr>w_fs = removeSync fsd (file_path f),
                w_log = w_log w @ [SpawnCalled ''libreoffice'' ?args]\<rparr>)"
    by simp
qed

lemma stored_clip:
  "stored_upload_p1 env0 ''clip.mov''
     = \<lparr>originalname = ''clip.mov'',
        file_path = ''/app/uploads/1b9d6bcd-bbfd-4b2d-9b5d-ab8dfbbd4bed-clip.mov''\<rparr>"
  by (simp add: stored_upload_p1_def uploadsDir_p1_def storage_filename_p1_def env0_def
      path_defs Let_def)

lemma cat_mov: "str_lower e = ascii_lower \<Longrightarrow> getFileCategory_p1 e ''clip.mov'' = ''video''"
  by (simp add: getFileCategory_p1_def categories_p1_def js_defs path_defs Let_def)

lemma removeSync_clip:
  "removeSync (fs_app\<lparr>files := [(''/app/uploads/1b9d6bcd-bbfd-4b2d-9b5d-ab8dfbbd4bed-clip.mov'', c)]\<rparr>)
     ''/app/uploads/1b9d6bcd-bbfd-4b2d-9b5d-ab8dfbbd4bed-clip.mov'' = fs_app"
  by (simp add: removeSync_def under_def fs_app_def startsWith_def)

text \<open>
  The claim fails on \<open>part_001\<close>: the media tool fails on \<open>clip.mov\<close>, and the request
  ends with status 500 and the tool's message; no note is written, and the stored upload
  is removed.
\<close>

theorem media_failure_is_error_C3_counterexample:
  "getFileCategory_p1 env_corrupt ''clip.mov'' = ''video''
   \<and> convert_p1 env_corrupt (req_p1 ''clip.mov'' ''mp4'') (w_p1 ''clip.mov'')
       = (Some (Json 500
            [(''error'', Str ''Conversion failed''),
             (''details'',
              Str ''ffmpeg exited with code 1: Invalid data found when processing input'')]),
          \<lparr>w_fs = fs_app,
           w_log = [FfmpegRun (media_command_p1 env_corrupt
                      ''/app/uploads/1b9d6bcd-bbfd-4b2d-9b5d-ab8dfbbd4bed-clip.mov''
                      (outputPath_p1 env_corrupt ''clip.mov'' ''mp4'') ''mp4'')]\<rparr>)"
proof -
  let ?f = "stored_upload_p1 env0 ''clip.mov''"
  let ?p = "''/app/uploads/1b9d6bcd-bbfd-4b2d-9b5d-ab8dfbbd4bed-clip.mov''"
  let ?call = "media_command_p1 env_corrupt ?p (outputPath_p1 env_corrupt ''clip.mov'' ''mp4'') ''mp4''"
  have d: "dispatch_p1 env_corrupt (getFileCategory_p1 env_corrupt (originalname ?f)) (file_path ?f)
             (outputPath_p1 env_corrupt (originalname ?f) ''mp4'') ''mp4'' (w_p1 ''clip.mov'')
           = (Rejected (Error ''ffmpeg exited with code 1: Invalid data found when processing input''),
              \<lparr>w_fs = fs_app\<lparr>files := [(?p, ''upload'')]\<rparr>, w_log = [FfmpegRun ?call]\<rparr>)"
    by (simp add: stored_clip cat_mov dispatch_p1_def convertMedia_def ffmpeg_run_def
        env_corrupt_def w_p1_def Let_def)
  have "convert_p1 env_corrupt (req_p1 ''clip.mov'' ''mp4'') (w_p1 ''clip.mov'')
      = (Some (Json 500 [(''error'', Str ''Conversion failed''),
            (''details'', Str (message (Error ''ffmpeg exited with code 1: Invalid data found when processing input'')))]),
         \<lparr>w_fs = fs_app\<lparr>files := [(?p, ''upload'')]\<rparr>, w_log = [FfmpegRun ?call]\<rparr>
           \<lparr>w_fs := removeSync (w_fs \<lparr>w_fs = fs_app\<lparr>files := [(?p, ''upload'')]\<rparr>,
                                        w_log = [FfmpegRun ?call]\<rparr>) (file_path ?f)\<rparr>)"
    using d by (intro convert_p1_rejected) (simp_all add: req_p1_def)
  then show ?thesis
    by (simp add: cat_mov stored_clip removeSync_clip)
qed

lemma cat_docx_p1:
  "str_lower e = ascii_lower \<Longrightarrow> getFileCategory_p1 e ''report.docx'' = ''document''"
  by (simp add: getFileCategory_p1_def categories_p1_def js_defs path_defs Let_def)

theorem placeholder_on_failure_C3_witness:
  "getFileCategory_cjs env_nofilter ''report.docx'' = ''documents''
   \<and> fst (convert_cjs env_nofilter (req_cjs ''report.docx'' ''XYZ'') w_cjs)
       = Some (Download (doc_fallback_path env_nofilter upload_cjs ''XYZ'')
                 (download_name_cjs env_nofilter
                    \<lparr>originalname = ''report.docx'', file_path = upload_cjs\<rparr> ''XYZ'')
                 None)
   \<and> getFileCategory_p1 env_corrupt ''clip.mov'' = ''video''
   \<and> fst (convert_p1 env_corrupt (req_p1 ''clip.mov'' ''mp4'') (w_p1 ''clip.mov''))
       = Some (Json 500
            [(''error'', Str ''Conversion failed''),
             (''details'',
              Str ''ffmpeg exited with code 1: Invalid data found when processing input'')])
   \<and> getFileCategory_p1 env_exit77 ''report.docx'' = ''document''
   \<and> fst (convert_p1 env_exit77 (req_p1 ''report.docx'' ''pdf'') (w_p1 ''report.docx''))
       = Some (Json 500
            [(''error'', Str ''Conversion failed''),
             (''details'', Str (''LibreOffice conversion failed with code '' @ decimal 77))])"
proof -
  let ?fd = "\<lparr>originalname = ''report.docx'', file_path = upload_cjs\<rparr>"
  let ?w1 = "\<lparr>w_fs = fs_cjs, w_log = [ExecCalled ''which soffice || which libreoffice'' None]\<rparr>"
  let ?w2 = "\<lparr>w_fs = fs_cjs,
         w_log = [ExecCalled ''which soffice || which libreoffice'' None,
                  ExecCalled (soffice_command env_nofilter upload_cjs ''XYZ'') (Some 30000)]\<rparr>"
  let ?fs3 = "fs_cjs\<lparr>files := [(upload_cjs, ''upload''),
          (''uploads/0123456789abcdef0123456789abcdef_conversion_note.txt'',
           doc_fallback_content env_nofilter upload_cjs ''XYZ'')]\<rparr>"
  have t1: "transfer env_nofilter p fs = None" for p fs
    by (simp add: env_nofilter_def env0_def)
  have k1: "getFileCategory_cjs env_nofilter ''report.docx'' = ''documents''"
    by (simp add: cat_docx)
  have k2: "getFileCategory_p1 env_corrupt ''clip.mov'' = ''video''"
    by (simp add: cat_mov)
  have k3: "getFileCategory_p1 env_exit77 ''report.docx'' = ''document''"
    by (simp add: cat_docx_p1)
  have np: "doc_fallback_path env_nofilter upload_cjs ''XYZ''
              = ''uploads/0123456789abcdef0123456789abcdef_conversion_note.txt''"
    by (simp add: note_path_cjs)
  from placeholder_on_failure_C3
    [where req = "req_cjs ''report.docx'' ''XYZ''" and f = ?fd and fmt = "''XYZ''"
       and e = env_nofilter and w = w_cjs and ?w1.0 = ?w1 and ?w2.0 = ?w2 and ?fs3.0 = ?fs3
       and r = "Some (exec_error (soffice_command env_nofilter upload_cjs ''XYZ'')
                        ''Error: no export filter'')",
     THEN conjunct1]
    k1 probe_nofilter conv_nofilter note_written
  have a: "fst (convert_cjs env_nofilter (req_cjs ''report.docx'' ''XYZ'') w_cjs)
       = Some (Download (doc_fallback_path env_nofilter upload_cjs ''XYZ'')
                 (download_name_cjs env_nofilter ?fd ''XYZ'') None)"
    by (simp add: req_cjs_def np t1)
  let ?err = "Error ''ffmpeg exited with code 1: Invalid data found when processing input''"
  let ?p = "''/app/uploads/1b9d6bcd-bbfd-4b2d-9b5d-ab8dfbbd4bed-clip.mov''"
  let ?callp = "media_command_p1 env_corrupt ?p (outputPath_p1 env_corrupt ''clip.mov'' ''mp4'')
                  ''mp4''"
  have fp: "ffmpeg_run env_corrupt ?callp (w_p1 ''clip.mov'')
              = (Some ?err, (w_p1 ''clip.mov'')\<lparr>w_log := [FfmpegRun ?callp]\<rparr>)"
    by (simp add: ffmpeg_run_def env_corrupt_def w_p1_def Let_def)
  from placeholder_on_failure_C3
    [where req = "req_p1 ''clip.mov'' ''mp4''" and f = "stored_upload_p1 env0 ''clip.mov''"
       and fmt = "''mp4''" and e = env_corrupt and w = "w_p1 ''clip.mov''"
       and ?err1.0 = ?err and wp = "(w_p1 ''clip.mov'')\<lparr>w_log := [FfmpegRun ?callp]\<rparr>",
     THEN conjunct2, THEN conjunct1]
    k2 fp
  have c: "fst (convert_p1 env_corrupt (req_p1 ''clip.mov'' ''mp4'') (w_p1 ''clip.mov''))
       = Some (Json 500
            [(''error'', Str ''Conversion failed''),
             (''details'',
              Str ''ffmpeg exited with code 1: Invalid data found when processing input'')])"
    by (simp add: req_p1_def stored_clip)
  from placeholder_on_failure_C3
    [where req = "req_p1 ''report.docx'' ''pdf''" and f = "stored_upload_p1 env0 ''report.docx''"
       and fmt = "''pdf''" and e = env_exit77 and w = "w_p1 ''report.docx''"
       and code = 77 and fsd = "w_fs (w_p1 ''report.docx'')",
     THEN conjunct2, THEN conjunct2]
    k3
  have d: "fst (convert_p1 env_exit77 (req_p1 ''report.docx'' ''pdf'') (w_p1 ''report.docx''))
       = Some (Json 500
            [(''error'', Str ''Conversion failed''),
             (''details'', Str (''LibreOffice conversion failed with code '' @ decimal 77))])"
    by (simp add: req_p1_def stored_upload_p1_def env_exit77_def)
  from a c d k1 k2 k3 show ?thesis by blast
qed

text \<open>
  The media converter of \<open>server.cjs\<close> on a stored upload. The upload middleware stores
  the file under a name without an extension, so \<open>path.extname(inputPath)\<close> is empty and
  \<open>inputPath.replace('', '_conversion_note.txt')\<close> puts the suffix in front of the path:
  the note cannot be written there, the exception escapes from the \<open>error\<close> listener, and
  the request is not answered.
\<close>

lemma cat_mov_cjs:
  "str_lower e = ascii_lower \<Longrightarrow> getFileCategory_cjs e ''clip.mov'' = ''video''"
  by (simp add: getFileCategory_cjs_def imageExts_def docExts_def audioExts_def videoExts_def
      js_defs path_defs Let_def)

lemma media_note_path_cjs:
  "path_extname upload_cjs = []"
  "replace_ext upload_cjs ''_conversion_note.txt''
     = ''_conversion_note.txtuploads/0123456789abcdef0123456789abcdef''"
  by (simp_all add: upload_cjs_def js_defs path_defs Let_def)

lemma media_note_unwritable:
  "fst (convert_cjs env_corrupt (req_cjs ''clip.mov'' ''mp4'') w_cjs) = None"
proof -
  have d: "path_dirname ''_conversion_note.txtuploads/0123456789abcdef0123456789abcdef''
             = ''_conversion_note.txtuploads''"
    by (simp add: path_defs Let_def)
  let ?f = "\<lparr>originalname = ''clip.mov'', file_path = upload_cjs\<rparr>"
  obtain r w' where m: "MediaConverter_convert env_corrupt upload_cjs ''mp4'' w_cjs = (r, w')"
    by (cases "MediaConverter_convert env_corrupt upload_cjs ''mp4'' w_cjs")
  have "fst (MediaConverter_convert env_corrupt upload_cjs ''mp4'' w_cjs)
          = Uncaught (ENOENT ''open''
              (quoted ''_conversion_note.txtuploads/0123456789abcdef0123456789abcdef''))"
    by (simp add: MediaConverter_convert_def ffmpeg_run_def env_corrupt_def media_note_path_cjs
        writeFileSync_def isDir_def w_cjs_def fs_cjs_def d Let_def)
  with m have r: "r = Uncaught (ENOENT ''open''
              (quoted ''_conversion_note.txtuploads/0123456789abcdef0123456789abcdef''))"
    by simp
  have "convert_cjs env_corrupt (req_cjs ''clip.mov'' ''mp4'') w_cjs =
     (case dispatch_cjs env_corrupt (getFileCategory_cjs env_corrupt (originalname ?f))
             (file_path ?f) ''mp4'' w_cjs of
        (Resolved outputPath, w') \<Rightarrow> deliver_cjs env_corrupt ?f ''mp4'' outputPath w'
      | (Rejected conversionError, w') \<Rightarrow> conversion_error_cjs ?f conversionError w'
      | (Pending, w') \<Rightarrow> (None, w')
      | (Uncaught ex, w') \<Rightarrow> (None, w'))"
    by (rule convert_cjs_dispatch) (simp_all add: req_cjs_def)
  then show ?thesis
    using m r by (simp add: cat_mov_cjs dispatch_cjs_def)
qed

section \<open>The timeout of the document conversion\<close>

lemma expired_or_failed_iff:
  "expired_or_failed r =
     (pr_duration r = None \<or> (\<exists>d. pr_duration r = Some d \<and> 30000 < d) \<or> pr_exit r \<noteq> 0)"
  by (cases "pr_duration r") (auto simp: expired_or_failed_def)

lemma exec_with_timeout:
  "exec e command (Some 30000) w =
     (Callback (if expired_or_failed (shell e command (w_fs w))
                then Some (exec_error command (pr_stderr (shell e command (w_fs w))))
                else None),
      \<lparr>w_fs = pr_fs (shell e command (w_fs w)),
       w_log = w_log w @ [ExecCalled command (Some 30000)]\<rparr>)"
  by (cases "pr_duration (shell e command (w_fs w))")
    (auto simp: exec_def timed_out_def expired_or_failed_def Let_def)

lemma DocumentConverter_after_probe:
  assumes "exec e ''which soffice || which libreoffice'' None w = (Callback None, w1)"
  shows "DocumentConverter_convert e p fmt w =
     (let r = shell e (soffice_command e p fmt) (w_fs w1);
          w2 = \<lparr>w_fs = pr_fs r,
                w_log = w_log w1 @ [ExecCalled (soffice_command e p fmt) (Some 30000)]\<rparr>
      in if expired_or_failed r then DocumentConverter_catch e p fmt w2
         else if existsSync (w_fs w2) (doc_outputPath e p fmt)
           then (Resolved (doc_outputPath e p fmt), w2)
         else DocumentConverter_catch e p fmt w2)"
  using assms
  by (simp add: DocumentConverter_convert_def exec_with_timeout Let_def)

lemma convertWithLibreOffice_after_copy:
  assumes "copyFileSync (ensureDirSync (w_fs w) (path_join [script_dir e, ''temp'', uuidv4 e])) p
             (path_join [path_join [script_dir e, ''temp'', uuidv4 e], path_basename p]) = Inr fs2"
  shows "convertWithLibreOffice e p outputDir fmt w =
     (let tempDir = path_join [script_dir e, ''temp'', uuidv4 e];
          command = libreoffice_command_p0 fmt outputDir (path_join [tempDir, path_basename p]);
          r = shell e command fs2;
          w4 = \<lparr>w_fs = removeSync (pr_fs r) tempDir,
                w_log = w_log w @ [ExecCalled command (Some 30000)]\<rparr>
      in if expired_or_failed r
           then (Rejected (Error (''LibreOffice conversion failed: ''
                                  @ message (exec_error command (pr_stderr r)))), w4)
         else (find_output_p0 (w_fs w4) p outputDir fmt, w4))"
  using assms
  by (simp add: convertWithLibreOffice_def exec_with_timeout Let_def)

lemma find_output_p0_not_pending: "find_output_p0 fs p outputDir fmt \<noteq> Pending"
  by (simp add: find_output_p0_def Let_def split: sum.splits option.splits)

lemma convertWithLibreOffice_not_pending:
  "fst (convertWithLibreOffice e p outputDir fmt w) \<noteq> Pending"
proof (cases "copyFileSync (ensureDirSync (w_fs w) (path_join [script_dir e, ''temp'', uuidv4 e])) p
             (path_join [path_join [script_dir e, ''temp'', uuidv4 e], path_basename p])")
  case (Inl ex)
  then show ?thesis by (simp add: convertWithLibreOffice_def Let_def)
next
  case (Inr fs2)
  show ?thesis
    unfolding convertWithLibreOffice_after_copy [OF Inr]
    by (simp add: Let_def find_output_p0_not_pending)
qed

lemma DocumentConverter_after_probe_not_pending:
  assumes "exec e ''which soffice || which libreoffice'' None w = (Callback None, w1)"
  shows "fst (DocumentConverter_convert e p fmt w) \<noteq> Pending"
  unfolding DocumentConverter_after_probe [OF assms]
  by (simp add: Let_def DocumentConverter_catch_not_pending)

text \<open>
  Claim C4, as the code has it. \<open>DocumentConverter.convert\<close> of \<open>server.cjs\<close> (once the
  probe has found LibreOffice) and \<open>convertWithLibreOffice\<close> of \<open>part_000\<close> run the
  conversion command with a timeout of 30000 ms and are never left pending. A command
  that never exits or runs longer than the timeout is handled exactly as one that exits
  with a code other than 0: \<open>server.cjs\<close> goes to its \<open>catch\<close> block, \<open>part_000\<close> rejects
  with \<open>LibreOffice conversion failed\<close> and the message of the command's error.
\<close>

theorem conversion_timeout_C4:
  "(exec e ''which soffice || which libreoffice'' None w = (Callback None, w1) \<longrightarrow>
      fst (DocumentConverter_convert e p fmt w) \<noteq> Pending
      \<and> w_log (snd (DocumentConverter_convert e p fmt w))
          = w_log w1 @ [ExecCalled (soffice_command e p fmt) (Some 30000)]
      \<and> (pr_duration (shell e (soffice_command e p fmt) (w_fs w1)) = None
           \<or> (\<exists>d. pr_duration (shell e (soffice_command e p fmt) (w_fs w1)) = Some d \<and> 30000 < d)
           \<or> pr_exit (shell e (soffice_command e p fmt) (w_fs w1)) \<noteq> 0
          \<longrightarrow> DocumentConverter_convert e p fmt w
              = DocumentConverter_catch e p fmt
                  \<lparr>w_fs = pr_fs (shell e (soffice_command e p fmt) (w_fs w1)),
                   w_log = w_log w1 @ [ExecCalled (soffice_command e p fmt) (Some 30000)]\<rparr>))
   \<and> fst (convertWithLibreOffice e p outputDir fmt w) \<noteq> Pending
   \<and> (copyFileSync (ensureDirSync (w_fs w) (path_join [script_dir e, ''temp'', uuidv4 e])) p
         (path_join [path_join [script_dir e, ''temp'', uuidv4 e], path_basename p]) = Inr fs2
       \<longrightarrow>
       (let tempDir = path_join [script_dir e, ''temp'', uuidv4 e];
            command = libreoffice_command_p0 fmt outputDir (path_join [tempDir, path_basename p]);
            r = shell e command fs2
        in w_log (snd (convertWithLibreOffice e p outputDir fmt w))
             = w_log w @ [ExecCalled command (Some 30000)]
           \<and> (pr_duration r = None \<or> (\<exists>d. pr_duration r = Some d \<and> 30000 < d) \<or> pr_exit r \<noteq> 0
               \<longrightarrow> convertWithLibreOffice e p outputDir fmt w
                   = (Rejected (Error (''LibreOffice conversion failed: Command failed: ''
                                       @ command @ nl @ pr_stderr r)),
                      \<lparr>w_fs = removeSync (pr_fs r) tempDir,
                       w_log = w_log w @ [ExecCalled command (Some 30000)]\<rparr>))))"
proof (intro conjI impI)
  assume pr: "exec e ''which soffice || which libreoffice'' None w = (Callback None, w1)"
  show "fst (DocumentConverter_convert e p fmt w) \<noteq> Pending"
    by (rule DocumentConverter_after_probe_not_pending [OF pr])
  show "w_log (snd (DocumentConverter_convert e p fmt w))
          = w_log w1 @ [ExecCalled (soffice_command e p fmt) (Some 30000)]"
    unfolding DocumentConverter_after_probe [OF pr]
    by (simp add: Let_def DocumentConverter_catch_log)
  assume "pr_duration (shell e (soffice_command e p fmt) (w_fs w1)) = None
           \<or> (\<exists>d. pr_duration (shell e (soffice_command e p fmt) (w_fs w1)) = Some d \<and> 30000 < d)
           \<or> pr_exit (shell e (soffice_command e p fmt) (w_fs w1)) \<noteq> 0"
  then have "expired_or_failed (shell e (soffice_command e p fmt) (w_fs w1))"
    by (simp only: expired_or_failed_iff)
  then show "DocumentConverter_convert e p fmt w
              = DocumentConverter_catch e p fmt
                  \<lparr>w_fs = pr_fs (shell e (soffice_command e p fmt) (w_fs w1)),
                   w_log = w_log w1 @ [ExecCalled (soffice_command e p fmt) (Some 30000)]\<rparr>"
    unfolding DocumentConverter_after_probe [OF pr] by (simp add: Let_def)
next
  show "fst (convertWithLibreOffice e p outputDir fmt w) \<noteq> Pending"
    by (rule convertWithLibreOffice_not_pending)
next
  let ?tempDir = "path_join [script_dir e, ''temp'', uuidv4 e]"
  let ?command = "libreoffice_command_p0 fmt outputDir (path_join [?tempDir, path_basename p])"
  let ?r = "shell e ?command fs2"
  assume cp: "copyFileSync (ensureDirSync (w_fs w) ?tempDir) p
         (path_join [?tempDir, path_basename p]) = Inr fs2"
  have l: "w_log (snd (convertWithLibreOffice e p outputDir fmt w))
             = w_log w @ [ExecCalled ?command (Some 30000)]"
    unfolding convertWithLibreOffice_after_copy [OF cp] by (simp add: Let_def)
  have f: "convertWithLibreOffice e p outputDir fmt w
                   = (Rejected (Error (''LibreOffice conversion failed: Command failed: ''
                                       @ ?command @ nl @ pr_stderr ?r)),
                      \<lparr>w_fs = removeSync (pr_fs ?r) ?tempDir,
                       w_log = w_log w @ [ExecCalled ?command (Some 30000)]\<rparr>)"
    if "pr_duration ?r = None \<or> (\<exists>d. pr_duration ?r = Some d \<and> 30000 < d) \<or> pr_exit ?r \<noteq> 0"
  proof -
    from that have "expired_or_failed ?r" by (simp only: expired_or_failed_iff)
    then show ?thesis
      unfolding convertWithLibreOffice_after_copy [OF cp]
      by (simp add: Let_def exec_error_def nl_def)
  qed
  from l f
  show "let tempDir = path_join [script_dir e, ''temp'', uuidv4 e];
            command = libreoffice_command_p0 fmt outputDir (path_join [tempDir, path_basename p]);
            r = shell e command fs2
        in w_log (snd (convertWithLibreOffice e p outputDir fmt w))
             = w_log w @ [ExecCalled command (Some 30000)]
           \<and> (pr_duration r = None \<or> (\<exists>d. pr_duration r = Some d \<and> 30000 < d) \<or> pr_exit r \<noteq> 0
               \<longrightarrow> convertWithLibreOffice e p outputDir fmt w
                   = (Rejected (Error (''LibreOffice conversion failed: Command failed: ''
                                       @ command @ nl @ pr_stderr r)),
                      \<lparr>w_fs = removeSync (pr_fs r) tempDir,
                       w_log = w_log w @ [ExecCalled command (Some 30000)]\<rparr>))"
    unfolding Let_def by blast
qed

lemma stored_docx:
  "stored_upload_p1 env0 ''report.docx''
     = \<lparr>originalname = ''report.docx'',
        file_path = ''/app/uploads/1b9d6bcd-bbfd-4b2d-9b5d-ab8dfbbd4bed-report.docx''\<rparr>"
  by (simp add: stored_upload_p1_def uploadsDir_p1_def storage_filename_p1_def env0_def
      path_defs Let_def)

text \<open>
  The claim fails on \<open>part_001\<close>: \<open>convertDocument\<close> spawns LibreOffice without a timeout.
  When the process never closes, the promise stays pending and the request is never
  answered.
\<close>

theorem spawn_without_timeout_C4_counterexample:
  "getFileCategory_p1 env_stuck ''report.docx'' = ''document''
   \<and> convert_p1 env_stuck (req_p1 ''report.docx'' ''pdf'') (w_p1 ''report.docx'')
       = (None,
          \<lparr>w_fs = w_fs (w_p1 ''report.docx''),
           w_log = [SpawnCalled ''libreoffice''
                      (spawn_args_p1 env_stuck ''/app/uploads/1b9d6bcd-bbfd-4b2d-9b5d-ab8dfbbd4bed-report.docx''
                         (outputPath_p1 env_stuck ''report.docx'' ''pdf'') ''pdf'')]\<rparr>)"
proof -
  let ?f = "stored_upload_p1 env0 ''report.docx''"
  let ?p = "''/app/uploads/1b9d6bcd-bbfd-4b2d-9b5d-ab8dfbbd4bed-report.docx''"
  let ?w' = "\<lparr>w_fs = w_fs (w_p1 ''report.docx''),
           w_log = [SpawnCalled ''libreoffice''
                      (spawn_args_p1 env_stuck ?p (outputPath_p1 env_stuck ''report.docx'' ''pdf'') ''pdf'')]\<rparr>"
  have d: "dispatch_p1 env_stuck (getFileCategory_p1 env_stuck (originalname ?f)) (file_path ?f)
             (outputPath_p1 env_stuck (originalname ?f) ''pdf'') ''pdf'' (w_p1 ''report.docx'')
           = (Pending, ?w')"
    by (simp add: stored_docx cat_docx_p1 dispatch_p1_def convertDocument_def env_stuck_def
        w_p1_def Let_def)
  have "convert_p1 env_stuck (req_p1 ''report.docx'' ''pdf'') (w_p1 ''report.docx'') = (None, ?w')"
    using d by (intro convert_p1_pending) (simp_all add: req_p1_def)
  with cat_docx_p1 show ?thesis by simp
qed

lemma libreoffice_command_not_which: "\<not> startsWith (libreoffice_command_p0 fmt d t) ''which''"
  by (simp add: libreoffice_command_p0_def startsWith_def)

lemma probe_stuck:
  "exec env_stuck ''which soffice || which libreoffice'' None w_cjs
     = (Callback None, \<lparr>w_fs = fs_cjs,
          w_log = [ExecCalled ''which soffice || which libreoffice'' None]\<rparr>)"
  by (simp add: exec_def env_stuck_def env0_def soffice_hangs_def quiet_shell_def
      timed_out_def w_cjs_def startsWith_def Let_def)

lemma temp_paths_p0:
  "path_join [script_dir env_stuck, ''temp'', uuidv4 env_stuck]
     = ''/app/temp/1b9d6bcd-bbfd-4b2d-9b5d-ab8dfbbd4bed''"
  "path_join [''/app/temp/1b9d6bcd-bbfd-4b2d-9b5d-ab8dfbbd4bed'', path_basename upload_p0]
     = ''/app/temp/1b9d6bcd-bbfd-4b2d-9b5d-ab8dfbbd4bed/0123456789abcdef0123456789abcdef''"
  by (simp_all add: env_stuck_def env0_def upload_p0_def path_defs Let_def)

lemma copy_p0:
  "copyFileSync (ensureDirSync (w_fs w_p0) ''/app/temp/1b9d6bcd-bbfd-4b2d-9b5d-ab8dfbbd4bed'')
      upload_p0 ''/app/temp/1b9d6bcd-bbfd-4b2d-9b5d-ab8dfbbd4bed/0123456789abcdef0123456789abcdef''
   = Inr \<lparr>files = [(upload_p0, ''upload''),
            (''/app/temp/1b9d6bcd-bbfd-4b2d-9b5d-ab8dfbbd4bed/0123456789abcdef0123456789abcdef'',
             ''upload'')],
          dirs = [''/'', ''/app'', ''/app/uploads'', ''/app/outputs'', ''/app/temp'',
                  ''/app/temp/1b9d6bcd-bbfd-4b2d-9b5d-ab8dfbbd4bed'']\<rparr>"
  by (simp add: copyFileSync_def readFile_def writeFileSync_def ensureDirSync_def isDir_def
      w_p0_def fs_app_def upload_p0_def path_defs Let_def)

theorem conversion_timeout_C4_witness:
  "fst (DocumentConverter_convert env_stuck upload_cjs ''pdf'' w_cjs) \<noteq> Pending
   \<and> w_log (snd (DocumentConverter_convert env_stuck upload_cjs ''pdf'' w_cjs))
       = [ExecCalled ''which soffice || which libreoffice'' None,
          ExecCalled (soffice_command env_stuck upload_cjs ''pdf'') (Some 30000)]
   \<and> DocumentConverter_convert env_stuck upload_cjs ''pdf'' w_cjs
       = DocumentConverter_catch env_stuck upload_cjs ''pdf''
           \<lparr>w_fs = fs_cjs,
            w_log = [ExecCalled ''which soffice || which libreoffice'' None,
                     ExecCalled (soffice_command env_stuck upload_cjs ''pdf'') (Some 30000)]\<rparr>
   \<and> fst (convertWithLibreOffice env_stuck upload_p0 ''/app/uploads'' ''pdf'' w_p0)
       = Rejected (Error (''LibreOffice conversion failed: Command failed: ''
           @ libreoffice_command_p0 ''pdf'' ''/app/uploads''
               ''/app/temp/1b9d6bcd-bbfd-4b2d-9b5d-ab8dfbbd4bed/0123456789abcdef0123456789abcdef''
           @ nl))"
proof -
  let ?w1 = "\<lparr>w_fs = fs_cjs, w_log = [ExecCalled ''which soffice || which libreoffice'' None]\<rparr>"
  let ?fs2 = "\<lparr>files = [(upload_p0, ''upload''),
            (''/app/temp/1b9d6bcd-bbfd-4b2d-9b5d-ab8dfbbd4bed/0123456789abcdef0123456789abcdef'',
             ''upload'')],
          dirs = [''/'', ''/app'', ''/app/uploads'', ''/app/outputs'', ''/app/temp'',
                  ''/app/temp/1b9d6bcd-bbfd-4b2d-9b5d-ab8dfbbd4bed'']\<rparr>"
  note t = conversion_timeout_C4
    [where e = env_stuck and w = w_cjs and ?w1.0 = ?w1 and p = upload_cjs and fmt = "''pdf''",
     THEN conjunct1]
  have r1: "shell env_stuck (soffice_command env_stuck upload_cjs ''pdf'') fs
              = \<lparr>pr_duration = None, pr_exit = 0, pr_stderr = [], pr_fs = fs\<rparr>" for fs
    by (simp add: env_stuck_def soffice_hangs_def soffice_command_not_which)
  note t' = mp [OF t probe_stuck]
  have "pr_duration (shell env_stuck (soffice_command env_stuck upload_cjs ''pdf'') (w_fs ?w1)) = None"
    by (simp add: r1)
  with t' have "DocumentConverter_convert env_stuck upload_cjs ''pdf'' w_cjs
       = DocumentConverter_catch env_stuck upload_cjs ''pdf''
           \<lparr>w_fs = pr_fs (shell env_stuck (soffice_command env_stuck upload_cjs ''pdf'') (w_fs ?w1)),
            w_log = w_log ?w1 @ [ExecCalled (soffice_command env_stuck upload_cjs ''pdf'') (Some 30000)]\<rparr>"
    by blast
  then have a3: "DocumentConverter_convert env_stuck upload_cjs ''pdf'' w_cjs
       = DocumentConverter_catch env_stuck upload_cjs ''pdf''
           \<lparr>w_fs = fs_cjs,
            w_log = [ExecCalled ''which soffice || which libreoffice'' None,
                     ExecCalled (soffice_command env_stuck upload_cjs ''pdf'') (Some 30000)]\<rparr>"
    by (simp add: r1)
  from t' have a1: "fst (DocumentConverter_convert env_stuck upload_cjs ''pdf'' w_cjs) \<noteq> Pending"
    by blast
  from t' have "w_log (snd (DocumentConverter_convert env_stuck upload_cjs ''pdf'' w_cjs))
       = w_log ?w1 @ [ExecCalled (soffice_command env_stuck upload_cjs ''pdf'') (Some 30000)]"
    by blast
  then have a2: "w_log (snd (DocumentConverter_convert env_stuck upload_cjs ''pdf'' w_cjs))
       = [ExecCalled ''which soffice || which libreoffice'' None,
          ExecCalled (soffice_command env_stuck upload_cjs ''pdf'') (Some 30000)]"
    by simp
  note a = conjI [OF a1 conjI [OF a2 a3]]
  note u = conversion_timeout_C4
    [where e = env_stuck and w = w_p0 and p = upload_p0 and fmt = "''pdf''"
       and outputDir = "''/app/uploads''" and ?fs2.0 = ?fs2,
     THEN conjunct2, THEN conjunct2]
  have r2: "shell env_stuck (libreoffice_command_p0 fmt d t) fs
              = \<lparr>pr_duration = None, pr_exit = 0, pr_stderr = [], pr_fs = fs\<rparr>" for fmt d t fs
    by (simp add: env_stuck_def soffice_hangs_def libreoffice_command_not_which)
  have cp: "copyFileSync
              (ensureDirSync (w_fs w_p0) (path_join [script_dir env_stuck, ''temp'', uuidv4 env_stuck]))
              upload_p0
              (path_join [path_join [script_dir env_stuck, ''temp'', uuidv4 env_stuck],
                          path_basename upload_p0]) = Inr ?fs2"
    by (simp only: temp_paths_p0 copy_p0)
  note u' = mp [OF u cp]
  have "fst (convertWithLibreOffice env_stuck upload_p0 ''/app/uploads'' ''pdf'' w_p0)
       = Rejected (Error (''LibreOffice conversion failed: Command failed: ''
           @ libreoffice_command_p0 ''pdf'' ''/app/uploads''
               (path_join [path_join [script_dir env_stuck, ''temp'', uuidv4 env_stuck],
                          path_basename upload_p0])
           @ nl @ []))"
    using u' by (simp add: Let_def r2)
  then have b: "fst (convertWithLibreOffice env_stuck upload_p0 ''/app/uploads'' ''pdf'' w_p0)
       = Rejected (Error (''LibreOffice conversion failed: Command failed: ''
           @ libreoffice_command_p0 ''pdf'' ''/app/uploads''
               ''/app/temp/1b9d6bcd-bbfd-4b2d-9b5d-ab8dfbbd4bed/0123456789abcdef0123456789abcdef''
           @ nl))"
    by (simp only: temp_paths_p0 append_Nil2)
  from a b show ?thesis by blast
qed

section \<open>The discovery of the converted document\<close>

lemma find_output_p0_spec:
  assumes "readdirSync fs outputDir = Inr names" "[] \<notin> set names"
  shows "find_output_p0 fs inputPath outputDir fmt =
     (case discover_spec fs outputDir (path_parse_name (path_basename inputPath)) fmt of
        Some found \<Rightarrow> Resolved found
      | None \<Rightarrow> Rejected (Error ''LibreOffice conversion completed but output file not found''))"
proof -
  let ?base = "path_parse_name (path_basename inputPath)"
  show ?thesis
  proof (cases "find (\<lambda>name. startsWith name ?base) names")
    case None
    with assms show ?thesis
      by (simp add: find_output_p0_def discover_spec_def Let_def)
  next
    case (Some n)
    then have "n \<in> set names"
      by (auto simp: find_Some_iff)
    with assms(2) have "n \<noteq> []" by auto
    with Some assms show ?thesis
      by (simp add: find_output_p0_def discover_spec_def Let_def)
  qed
qed

text \<open>
  Claim C5, as the code has it. The search of \<open>convertWithLibreOffice\<close> (\<open>part_000\<close>),
  which runs when the command has ended in time with exit code 0: the expected path
  \<open>{baseName}.{targetFormat}\<close> if it exists; otherwise the first entry of the output
  directory whose name starts with \<open>baseName\<close>; otherwise the rejection \<open>output file not
  found\<close>. This is the discovery of the specification. \<open>DocumentConverter.convert\<close> of
  \<open>server.cjs\<close> checks the expected path only and goes to its \<open>catch\<close> block when the
  file is absent.
\<close>

theorem output_discovery_C5:
  "(existsSync fs (path_join [outputDir, path_parse_name (path_basename inputPath) @ ''.'' @ fmt])
      \<longrightarrow> find_output_p0 fs inputPath outputDir fmt
          = Resolved (path_join [outputDir, path_parse_name (path_basename inputPath) @ ''.'' @ fmt]))
   \<and> (\<not> existsSync fs (path_join [outputDir, path_parse_name (path_basename inputPath) @ ''.'' @ fmt])
       \<and> readdirSync fs outputDir = Inr names
       \<and> find (\<lambda>name. startsWith name (path_parse_name (path_basename inputPath))) names = Some n
       \<and> n \<noteq> []
      \<longrightarrow> find_output_p0 fs inputPath outputDir fmt = Resolved (path_join [outputDir, n])
          \<and> (\<exists>i < length names. names ! i = n
                \<and> (\<forall>j < i. \<not> startsWith (names ! j) (path_parse_name (path_basename inputPath)))))
   \<and> (\<not> existsSync fs (path_join [outputDir, path_parse_name (path_basename inputPath) @ ''.'' @ fmt])
       \<and> readdirSync fs outputDir = Inr names
       \<and> find (\<lambda>name. startsWith name (path_parse_name (path_basename inputPath))) names = None
      \<longrightarrow> find_output_p0 fs inputPath outputDir fmt
          = Rejected (Error ''LibreOffice conversion completed but output file not found''))
   \<and> (readdirSync fs outputDir = Inr names \<and> [] \<notin> set names
      \<longrightarrow> find_output_p0 fs inputPath outputDir fmt
          = (case discover_spec fs outputDir (path_parse_name (path_basename inputPath)) fmt of
               Some found \<Rightarrow> Resolved found
             | None \<Rightarrow> Rejected
                 (Error ''LibreOffice conversion completed but output file not found'')))
   \<and> (copyFileSync (ensureDirSync (w_fs w) (path_join [script_dir e, ''temp'', uuidv4 e])) inputPath
         (path_join [path_join [script_dir e, ''temp'', uuidv4 e], path_basename inputPath])
         = Inr fs2
       \<and> shell e (libreoffice_command_p0 fmt outputDir
            (path_join [path_join [script_dir e, ''temp'', uuidv4 e], path_basename inputPath])) fs2
         = r
       \<and> pr_duration r = Some d \<and> d \<le> 30000 \<and> pr_exit r = 0
      \<longrightarrow> fst (convertWithLibreOffice e inputPath outputDir fmt w)
          = find_output_p0 (removeSync (pr_fs r) (path_join [script_dir e, ''temp'', uuidv4 e]))
              inputPath outputDir fmt)
   \<and> (exec e ''which soffice || which libreoffice'' None w = (Callback None, w1)
       \<and> shell e (soffice_command e inputPath fmt) (w_fs w1) = r1
       \<and> pr_duration r1 = Some d1 \<and> d1 \<le> 30000 \<and> pr_exit r1 = 0
      \<longrightarrow> DocumentConverter_convert e inputPath fmt w
          = (let w2 = \<lparr>w_fs = pr_fs r1,
                       w_log = w_log w1 @ [ExecCalled (soffice_command e inputPath fmt) (Some 30000)]\<rparr>
             in if existsSync (pr_fs r1) (doc_outputPath e inputPath fmt)
                then (Resolved (doc_outputPath e inputPath fmt), w2)
                else DocumentConverter_catch e inputPath fmt w2))"
proof (intro conjI impI)
  let ?base = "path_parse_name (path_basename inputPath)"
  let ?expected = "path_join [outputDir, ?base @ ''.'' @ fmt]"
  show "find_output_p0 fs inputPath outputDir fmt = Resolved ?expected"
    if "existsSync fs ?expected"
    using that by (simp add: find_output_p0_def Let_def)
  show "find_output_p0 fs inputPath outputDir fmt = Resolved (path_join [outputDir, n])"
    if "\<not> existsSync fs ?expected \<and> readdirSync fs outputDir = Inr names
       \<and> find (\<lambda>name. startsWith name ?base) names = Some n \<and> n \<noteq> []"
    using that by (simp add: find_output_p0_def Let_def)
  show "\<exists>i < length names. names ! i = n \<and> (\<forall>j < i. \<not> startsWith (names ! j) ?base)"
    if "\<not> existsSync fs ?expected \<and> readdirSync fs outputDir = Inr names
       \<and> find (\<lambda>name. startsWith name ?base) names = Some n \<and> n \<noteq> []"
  proof -
    from that have "find (\<lambda>name. startsWith name ?base) names = Some n" by simp
    then show ?thesis
      unfolding find_Some_iff by blast
  qed
  show "find_output_p0 fs inputPath outputDir fmt
          = Rejected (Error ''LibreOffice conversion completed but output file not found'')"
    if "\<not> existsSync fs ?expected \<and> readdirSync fs outputDir = Inr names
       \<and> find (\<lambda>name. startsWith name ?base) names = None"
    using that by (simp add: find_output_p0_def Let_def)
  show "find_output_p0 fs inputPath outputDir fmt
          = (case discover_spec fs outputDir ?base fmt of
               Some found \<Rightarrow> Resolved found
             | None \<Rightarrow> Rejected
                 (Error ''LibreOffice conversion completed but output file not found''))"
    if "readdirSync fs outputDir = Inr names \<and> [] \<notin> set names"
    using that find_output_p0_spec [of fs outputDir names inputPath fmt] by blast
next
  let ?tempDir = "path_join [script_dir e, ''temp'', uuidv4 e]"
  assume a: "copyFileSync (ensureDirSync (w_fs w) ?tempDir) inputPath
         (path_join [?tempDir, path_basename inputPath]) = Inr fs2
       \<and> shell e (libreoffice_command_p0 fmt outputDir
            (path_join [?tempDir, path_basename inputPath])) fs2 = r
       \<and> pr_duration r = Some d \<and> d \<le> 30000 \<and> pr_exit r = 0"
  then have cp: "copyFileSync (ensureDirSync (w_fs w) ?tempDir) inputPath
         (path_join [?tempDir, path_basename inputPath]) = Inr fs2" by simp
  from a have "\<not> expired_or_failed r"
    by (simp add: expired_or_failed_def)
  with a show "fst (convertWithLibreOffice e inputPath outputDir fmt w)
          = find_output_p0 (removeSync (pr_fs r) ?tempDir) inputPath outputDir fmt"
    unfolding convertWithLibreOffice_after_copy [OF cp] by (simp add: Let_def)
next
  assume a: "exec e ''which soffice || which libreoffice'' None w = (Callback None, w1)
       \<and> shell e (soffice_command e inputPath fmt) (w_fs w1) = r1
       \<and> pr_duration r1 = Some d1 \<and> d1 \<le> 30000 \<and> pr_exit r1 = 0"
  then have pr: "exec e ''which soffice || which libreoffice'' None w = (Callback None, w1)"
    by simp
  from a have "\<not> expired_or_failed r1"
    by (simp add: expired_or_failed_def)
  with a show "DocumentConverter_convert e inputPath fmt w
          = (let w2 = \<lparr>w_fs = pr_fs r1,
                       w_log = w_log w1 @ [ExecCalled (soffice_command e inputPath fmt) (Some 30000)]\<rparr>
             in if existsSync (pr_fs r1) (doc_outputPath e inputPath fmt)
                then (Resolved (doc_outputPath e inputPath fmt), w2)
                else DocumentConverter_catch e inputPath fmt w2)"
    unfolding DocumentConverter_after_probe [OF pr] by (simp add: Let_def)
qed

lemma base_p0: "path_parse_name (path_basename upload_p0) = ''0123456789abcdef0123456789abcdef''"
  by (simp add: upload_p0_def path_defs Let_def)

lemma expected_p0:
  "path_join [''/app/uploads'', ''0123456789abcdef0123456789abcdef.pdf'']
     = ''/app/uploads/0123456789abcdef0123456789abcdef.pdf''"
  by (simp add: path_defs Let_def)

lemma found_p0:
  "path_join [''/app/uploads'', ''0123456789abcdef0123456789abcdef'']
     = ''/app/uploads/0123456789abcdef0123456789abcdef''"
  by (simp add: path_defs Let_def)

lemma readdir_p0:
  "readdirSync (w_fs w_p0) ''/app/uploads'' = Inr [''0123456789abcdef0123456789abcdef'']"
  by (simp add: readdirSync_def isDir_def w_p0_def fs_app_def upload_p0_def path_defs Let_def)

lemma readdir_app: "readdirSync fs_app ''/app/uploads'' = Inr []"
  by (simp add: readdirSync_def isDir_def fs_app_def path_defs Let_def)

lemma base_cjs: "path_parse_name upload_cjs = ''0123456789abcdef0123456789abcdef''"
  "path_dirname upload_cjs = ''uploads''"
  "str_lower e = ascii_lower
     \<Longrightarrow> doc_outputPath e upload_cjs ''pdf'' = ''uploads/0123456789abcdef0123456789abcdef.pdf''"
  "str_upper e = ascii_upper
     \<Longrightarrow> doc_fallback_path e upload_cjs ''pdf''
           = ''uploads/0123456789abcdef0123456789abcdef_conversion_note.txt''"
  by (simp_all add: upload_cjs_def doc_outputPath_def doc_fallback_path_def doc_noteOutputPath_def
      js_defs path_defs Let_def)

lemma readdir_cjs:
  "readdirSync fs_cjs ''uploads'' = Inr [''0123456789abcdef0123456789abcdef'']"
  by (simp add: readdirSync_def isDir_def fs_cjs_def upload_cjs_def path_defs Let_def)

lemma probe_env0:
  "exec env0 ''which soffice || which libreoffice'' None w_cjs
     = (Callback None, \<lparr>w_fs = fs_cjs,
          w_log = [ExecCalled ''which soffice || which libreoffice'' None]\<rparr>)"
  by (simp add: exec_def env0_def quiet_shell_def timed_out_def w_cjs_def Let_def)

lemma conv_env0:
  "exec env0 (soffice_command env0 upload_cjs ''pdf'') (Some 30000)
       \<lparr>w_fs = fs_cjs, w_log = [ExecCalled ''which soffice || which libreoffice'' None]\<rparr>
     = (Callback None,
        \<lparr>w_fs = fs_cjs,
         w_log = [ExecCalled ''which soffice || which libreoffice'' None,
                  ExecCalled (soffice_command env0 upload_cjs ''pdf'') (Some 30000)]\<rparr>)"
  by (simp add: exec_def env0_def quiet_shell_def timed_out_def Let_def)

lemma no_pdf_cjs: "\<not> existsSync fs_cjs ''uploads/0123456789abcdef0123456789abcdef.pdf''"
  by (simp add: existsSync_def isFile_def isDir_def fs_cjs_def upload_cjs_def)

text \<open>
  The claim fails on \<open>server.cjs\<close>: the command ends with exit code 0 and leaves no file
  at the expected path. The discovery of the specification would go on to scan the
  directory and take the first entry that starts with the base name (here the stored
  upload itself); the adapter does not scan and resolves with the path of its note.
\<close>

theorem exact_path_only_C5_counterexample:
  "discover_spec fs_cjs (path_dirname upload_cjs) (path_parse_name upload_cjs) ''pdf''
     = Some ''uploads/0123456789abcdef0123456789abcdef''
   \<and> fst (DocumentConverter_convert env0 upload_cjs ''pdf'' w_cjs)
       = Resolved ''uploads/0123456789abcdef0123456789abcdef_conversion_note.txt''"
proof -
  have j: "path_join [''uploads'', ''0123456789abcdef0123456789abcdef.pdf'']
             = ''uploads/0123456789abcdef0123456789abcdef.pdf''"
    "path_join [''uploads'', ''0123456789abcdef0123456789abcdef'']
             = ''uploads/0123456789abcdef0123456789abcdef''"
    by (simp_all add: path_defs Let_def)
  have a: "discover_spec fs_cjs (path_dirname upload_cjs) (path_parse_name upload_cjs) ''pdf''
     = Some ''uploads/0123456789abcdef0123456789abcdef''"
    by (simp add: discover_spec_def base_cjs j no_pdf_cjs readdir_cjs startsWith_def Let_def)
  let ?w2 = "\<lparr>w_fs = fs_cjs,
         w_log = [ExecCalled ''which soffice || which libreoffice'' None,
                  ExecCalled (soffice_command env0 upload_cjs ''pdf'') (Some 30000)]\<rparr>"
  have "DocumentConverter_convert env0 upload_cjs ''pdf'' w_cjs
          = DocumentConverter_catch env0 upload_cjs ''pdf'' ?w2"
    by (rule DocumentConverter_failed [OF probe_env0 conv_env0]) (simp add: base_cjs no_pdf_cjs)
  also have "\<dots> = (Resolved (doc_fallback_path env0 upload_cjs ''pdf''),
        ?w2\<lparr>w_fs := fs_cjs\<lparr>files := [(upload_cjs, ''upload''),
            (''uploads/0123456789abcdef0123456789abcdef_conversion_note.txt'',
             doc_fallback_content env0 upload_cjs ''pdf'')]\<rparr>\<rparr>)"
    by (rule DocumentConverter_catch_written) (simp add: base_cjs note_written)
  finally have b: "fst (DocumentConverter_convert env0 upload_cjs ''pdf'' w_cjs)
       = Resolved ''uploads/0123456789abcdef0123456789abcdef_conversion_note.txt''"
    by (simp add: base_cjs)
  from a b show ?thesis by blast
qed

lemma env_office_paths:
  "path_join [script_dir env_office, ''temp'', uuidv4 env_office]
     = ''/app/temp/1b9d6bcd-bbfd-4b2d-9b5d-ab8dfbbd4bed''"
  by (simp add: env_office_def env0_def path_defs Let_def)

lemma office_result:
  "removeSync
     (pr_fs (libreoffice_writes command
        \<lparr>files = [(upload_p0, ''upload''),
            (''/app/temp/1b9d6bcd-bbfd-4b2d-9b5d-ab8dfbbd4bed/0123456789abcdef0123456789abcdef'',
             ''upload'')],
          dirs = [''/'', ''/app'', ''/app/uploads'', ''/app/outputs'', ''/app/temp'',
                  ''/app/temp/1b9d6bcd-bbfd-4b2d-9b5d-ab8dfbbd4bed'']\<rparr>))
     ''/app/temp/1b9d6bcd-bbfd-4b2d-9b5d-ab8dfbbd4bed''
   = fs_app\<lparr>files := [(upload_p0, ''upload''),
                         (''/app/uploads/0123456789abcdef0123456789abcdef.pdf'', ''pdf'')]\<rparr>"
  by (simp add: removeSync_def under_def startsWith_def libreoffice_writes_def upload_p0_def
      fs_app_def)

lemma pdf_exists_p0:
  "existsSync (fs_app\<lparr>files := [(upload_p0, ''upload''),
                         (''/app/uploads/0123456789abcdef0123456789abcdef.pdf'', ''pdf'')]\<rparr>)
     ''/app/uploads/0123456789abcdef0123456789abcdef.pdf''"
  by (simp add: existsSync_def isFile_def)

lemma no_pdf_p0:
  "\<not> existsSync (w_fs w_p0) ''/app/uploads/0123456789abcdef0123456789abcdef.pdf''"
  "\<not> existsSync fs_app ''/app/uploads/0123456789abcdef0123456789abcdef.pdf''"
  by (simp_all add: existsSync_def isFile_def isDir_def w_p0_def fs_app_def upload_p0_def)

theorem output_discovery_C5_witness:
  "find_output_p0 (fs_app\<lparr>files := [(upload_p0, ''upload''),
                         (''/app/uploads/0123456789abcdef0123456789abcdef.pdf'', ''pdf'')]\<rparr>)
       upload_p0 ''/app/uploads'' ''pdf''
     = Resolved ''/app/uploads/0123456789abcdef0123456789abcdef.pdf''
   \<and> find_output_p0 (w_fs w_p0) upload_p0 ''/app/uploads'' ''pdf''
     = Resolved ''/app/uploads/0123456789abcdef0123456789abcdef''
   \<and> find_output_p0 fs_app upload_p0 ''/app/uploads'' ''pdf''
     = Rejected (Error ''LibreOffice conversion completed but output file not found'')
   \<and> discover_spec (w_fs w_p0) ''/app/uploads'' ''0123456789abcdef0123456789abcdef'' ''pdf''
     = Some ''/app/uploads/0123456789abcdef0123456789abcdef''
   \<and> fst (convertWithLibreOffice env_office upload_p0 ''/app/uploads'' ''pdf'' w_p0)
     = Resolved ''/app/uploads/0123456789abcdef0123456789abcdef.pdf''
   \<and> fst (DocumentConverter_convert env0 upload_cjs ''pdf'' w_cjs)
     = fst (DocumentConverter_catch env0 upload_cjs ''pdf''
              \<lparr>w_fs = fs_cjs,
               w_log = [ExecCalled ''which soffice || which libreoffice'' None,
                        ExecCalled (soffice_command env0 upload_cjs ''pdf'') (Some 30000)]\<rparr>)"
proof -
  let ?hex = "''0123456789abcdef0123456789abcdef''"
  let ?both = "fs_app\<lparr>files := [(upload_p0, ''upload''),
                         (''/app/uploads/0123456789abcdef0123456789abcdef.pdf'', ''pdf'')]\<rparr>"
  let ?fs2 = "\<lparr>files = [(upload_p0, ''upload''),
            (''/app/temp/1b9d6bcd-bbfd-4b2d-9b5d-ab8dfbbd4bed/0123456789abcdef0123456789abcdef'',
             ''upload'')],
          dirs = [''/'', ''/app'', ''/app/uploads'', ''/app/outputs'', ''/app/temp'',
                  ''/app/temp/1b9d6bcd-bbfd-4b2d-9b5d-ab8dfbbd4bed'']\<rparr>"
  have st: "find (\<lambda>name. startsWith name ?hex) [?hex] = Some ?hex"
    by (simp add: startsWith_def)
  note t1 = output_discovery_C5
    [where fs = ?both and outputDir = "''/app/uploads''" and inputPath = upload_p0
       and fmt = "''pdf''", THEN conjunct1]
  have a: "find_output_p0 ?both upload_p0 ''/app/uploads'' ''pdf''
             = Resolved ''/app/uploads/0123456789abcdef0123456789abcdef.pdf''"
    using t1 pdf_exists_p0 by (simp add: base_p0 expected_p0)
  note t2 = output_discovery_C5
    [where fs = "w_fs w_p0" and outputDir = "''/app/uploads''" and inputPath = upload_p0
       and fmt = "''pdf''" and names = "[?hex]" and n = ?hex]
  have b: "find_output_p0 (w_fs w_p0) upload_p0 ''/app/uploads'' ''pdf''
             = Resolved ''/app/uploads/0123456789abcdef0123456789abcdef''"
    using t2 [THEN conjunct2, THEN conjunct1] no_pdf_p0 readdir_p0 st
    by (simp add: base_p0 expected_p0 found_p0)
  have "find_output_p0 (w_fs w_p0) upload_p0 ''/app/uploads'' ''pdf''
          = (case discover_spec (w_fs w_p0) ''/app/uploads'' ?hex ''pdf'' of
               Some found \<Rightarrow> Resolved found
             | None \<Rightarrow> Rejected
                 (Error ''LibreOffice conversion completed but output file not found''))"
    using t2 [THEN conjunct2, THEN conjunct2, THEN conjunct2, THEN conjunct1] readdir_p0
    by (simp add: base_p0)
  with b have d: "discover_spec (w_fs w_p0) ''/app/uploads'' ?hex ''pdf''
                    = Some ''/app/uploads/0123456789abcdef0123456789abcdef''"
    by (simp split: option.splits)
  note t3 = output_discovery_C5
    [where fs = fs_app and outputDir = "''/app/uploads''" and inputPath = upload_p0
       and fmt = "''pdf''" and names = "[]",
     THEN conjunct2, THEN conjunct2, THEN conjunct1]
  have c: "find_output_p0 fs_app upload_p0 ''/app/uploads'' ''pdf''
             = Rejected (Error ''LibreOffice conversion completed but output file not found'')"
    using t3 no_pdf_p0 readdir_app by (simp add: base_p0 expected_p0)
  have cp: "copyFileSync
              (ensureDirSync (w_fs w_p0) (path_join [script_dir env_office, ''temp'', uuidv4 env_office]))
              upload_p0
              (path_join [path_join [script_dir env_office, ''temp'', uuidv4 env_office],
                          path_basename upload_p0]) = Inr ?fs2"
    by (simp only: env_office_paths temp_paths_p0 copy_p0)
  let ?cmd = "libreoffice_command_p0 ''pdf'' ''/app/uploads''
                (path_join [path_join [script_dir env_office, ''temp'', uuidv4 env_office],
                            path_basename upload_p0])"
  note t5 = output_discovery_C5
    [where e = env_office and w = w_p0 and outputDir = "''/app/uploads''"
       and inputPath = upload_p0 and fmt = "''pdf''" and ?fs2.0 = ?fs2
       and r = "libreoffice_writes ?cmd ?fs2" and d = 1200,
     THEN conjunct2, THEN conjunct2, THEN conjunct2, THEN conjunct2, THEN conjunct1]
  have sh: "shell env_office = libreoffice_writes"
    by (simp add: env_office_def)
  have dur: "pr_duration (libreoffice_writes ?cmd ?fs2) = Some 1200"
    "pr_exit (libreoffice_writes ?cmd ?fs2) = 0"
    by (simp_all add: libreoffice_writes_def)
  have "fst (convertWithLibreOffice env_office upload_p0 ''/app/uploads'' ''pdf'' w_p0)
          = find_output_p0
              (removeSync (pr_fs (libreoffice_writes ?cmd ?fs2))
                 (path_join [script_dir env_office, ''temp'', uuidv4 env_office]))
              upload_p0 ''/app/uploads'' ''pdf''"
    using t5 cp dur by (simp add: sh)
  then have e: "fst (convertWithLibreOffice env_office upload_p0 ''/app/uploads'' ''pdf'' w_p0)
                  = Resolved ''/app/uploads/0123456789abcdef0123456789abcdef.pdf''"
    by (simp only: env_office_paths office_result a)
  note t6 = output_discovery_C5
    [where e = env0 and w = w_cjs and inputPath = upload_cjs and fmt = "''pdf''"
       and ?w1.0 = "\<lparr>w_fs = fs_cjs,
                       w_log = [ExecCalled ''which soffice || which libreoffice'' None]\<rparr>"
       and ?r1.0 = "quiet_shell (soffice_command env0 upload_cjs ''pdf'') fs_cjs" and ?d1.0 = 50,
     THEN conjunct2, THEN conjunct2, THEN conjunct2, THEN conjunct2, THEN conjunct2]
  have f: "fst (DocumentConverter_convert env0 upload_cjs ''pdf'' w_cjs)
     = fst (DocumentConverter_catch env0 upload_cjs ''pdf''
              \<lparr>w_fs = fs_cjs,
               w_log = [ExecCalled ''which soffice || which libreoffice'' None,
                        ExecCalled (soffice_command env0 upload_cjs ''pdf'') (Some 30000)]\<rparr>)"
    using t6 probe_env0 no_pdf_cjs
    by (simp add: env0_def quiet_shell_def base_cjs Let_def)
  from a b c d e f show ?thesis by blast
qed

section \<open>Cleanup of the scratch files\<close>

lemma try_unlink_not_file: "\<not> isFile (try_unlink_if_exists fs p) p"
  using delete_notin_dom [of p "files fs"]
  by (auto simp: try_unlink_if_exists_def unlink_if_exists_def unlinkSync_def existsSync_def
      isFile_def)

lemma try_unlink_keeps_absent:
  "\<not> isFile fs q \<Longrightarrow> \<not> isFile (try_unlink_if_exists fs p) q"
  using dom_delete_subset [of p "files fs"]
  by (auto simp: try_unlink_if_exists_def unlink_if_exists_def unlinkSync_def existsSync_def
      isFile_def)

text \<open>What the cleanup of \<open>part_000\<close> does reach: the two registered paths.\<close>

lemma cleanup_p0_registered:
  "\<not> isFile (cleanup_p0 fs [a, b]) a \<and> \<not> isFile (cleanup_p0 fs [a, b]) b"
  by (simp add: cleanup_p0_def try_unlink_not_file try_unlink_keeps_absent)

lemma convert_p0_branch:
  assumes "req_file req = Some f" "req_outputFormat req = Some fmt" "fmt \<noteq> []"
  shows "convert_p0 e req w =
     (let outputFileName = path_parse_name (originalname f) @ ''.'' @ fmt;
          outputPath = path_join [uploadsDir_p0 e,
                         ''converted_'' @ decimal (date_now e) @ ''_'' @ outputFileName];
          tempFiles = [file_path f, outputPath]
      in case branch_p0 e (originalname f) (file_path f) fmt outputPath w of
           (Resolved u, w') \<Rightarrow>
             if \<not> existsSync (w_fs w') outputPath then
               (Some (Json 500 [(''error'', Str ''Conversion failed''),
                                (''details'', Str ''Conversion completed but output file not found'')]),
                w'\<lparr>w_fs := cleanup_p0 (w_fs w') tempFiles\<rparr>)
             else
               (Some (Download outputPath outputFileName (transfer e outputPath (w_fs w'))),
                w'\<lparr>w_fs := cleanup_p0 (w_fs w') tempFiles\<rparr>)
         | (Rejected err, w') \<Rightarrow>
             (Some (Json 500 [(''error'', Str ''Conversion failed''),
                              (''details'', Str (message err))]),
              w'\<lparr>w_fs := cleanup_p0 (w_fs w') tempFiles\<rparr>)
         | (Pending, w') \<Rightarrow> (None, w')
         | (Uncaught ex, w') \<Rightarrow> (None, w'))"
  using assms
  by (simp add: convert_p0_def res_json_def stringify_props_def omitted_def Let_def
      split: prod.splits promise.splits)

lemma office_converted:
  "convertWithLibreOffice env_office upload_p0 ''/app/uploads'' ''pdf'' w_p0
     = (Resolved ''/app/uploads/0123456789abcdef0123456789abcdef.pdf'',
        \<lparr>w_fs = fs_app\<lparr>files := [(upload_p0, ''upload''),
                  (''/app/uploads/0123456789abcdef0123456789abcdef.pdf'', ''pdf'')]\<rparr>,
         w_log = [ExecCalled (libreoffice_command_p0 ''pdf'' ''/app/uploads''
                    ''/app/temp/1b9d6bcd-bbfd-4b2d-9b5d-ab8dfbbd4bed/0123456789abcdef0123456789abcdef'')
                    (Some 30000)]\<rparr>)"
proof -
  let ?fs2 = "\<lparr>files = [(upload_p0, ''upload''),
            (''/app/temp/1b9d6bcd-bbfd-4b2d-9b5d-ab8dfbbd4bed/0123456789abcdef0123456789abcdef'',
             ''upload'')],
          dirs = [''/'', ''/app'', ''/app/uploads'', ''/app/outputs'', ''/app/temp'',
                  ''/app/temp/1b9d6bcd-bbfd-4b2d-9b5d-ab8dfbbd4bed'']\<rparr>"
  have cp: "copyFileSync
              (ensureDirSync (w_fs w_p0) (path_join [script_dir env_office, ''temp'', uuidv4 env_office]))
              upload_p0
              (path_join [path_join [script_dir env_office, ''temp'', uuidv4 env_office],
                          path_basename upload_p0]) = Inr ?fs2"
    by (simp only: env_office_paths temp_paths_p0 copy_p0)
  have sh: "shell env_office = libreoffice_writes"
    by (simp add: env_office_def)
  have ok: "\<not> expired_or_failed (libreoffice_writes c fs)" for c fs
    by (simp add: expired_or_failed_def libreoffice_writes_def)
  have l: "w_log w_p0 = []"
    by (simp add: w_p0_def)
  let ?both = "fs_app\<lparr>files := [(upload_p0, ''upload''),
                         (''/app/uploads/0123456789abcdef0123456789abcdef.pdf'', ''pdf'')]\<rparr>"
  have fo: "find_output_p0 ?both upload_p0 ''/app/uploads'' ''pdf''
              = Resolved ''/app/uploads/0123456789abcdef0123456789abcdef.pdf''"
    by (simp add: find_output_p0_def base_p0 expected_p0 pdf_exists_p0 Let_def)
  show ?thesis
    unfolding convertWithLibreOffice_after_copy [OF cp]
    by (simp add: Let_def sh ok l env_office_paths temp_paths_p0 office_result fo)
qed

lemma uploadsDir_office: "uploadsDir_p0 env_office = ''/app/uploads''"
  by (simp add: uploadsDir_p0_def env_office_def env0_def path_defs Let_def)

lemma ext_docx: "toLowerCase env_office (path_extname ''report.docx'') = ''.docx''"
  "path_parse_name ''report.docx'' = ''report''"
  by (simp_all add: js_defs path_defs Let_def)

lemma date_office: "decimal (date_now env_office) = ''1700000000000''"
  by (simp add: env_office_def env0_def decimal.simps)

lemma outputPath_office:
  "path_join [''/app/uploads'', ''converted_1700000000000_report.pdf'']
     = ''/app/uploads/converted_1700000000000_report.pdf''"
  by (simp add: path_defs Let_def)

lemma report_pdf_path:
  "path_join [''/app/uploads'', ''report.pdf''] = ''/app/uploads/report.pdf''"
  by (simp add: path_defs Let_def)

lemma branch_office:
  "branch_p0 env_office ''report.docx'' upload_p0 ''pdf''
       ''/app/uploads/converted_1700000000000_report.pdf'' w_p0
     = (Rejected (Error ''LibreOffice conversion failed - output file not found''),
        \<lparr>w_fs = fs_app\<lparr>files := [(upload_p0, ''upload''),
                  (''/app/uploads/0123456789abcdef0123456789abcdef.pdf'', ''pdf'')]\<rparr>,
         w_log = [ExecCalled (libreoffice_command_p0 ''pdf'' ''/app/uploads''
                    ''/app/temp/1b9d6bcd-bbfd-4b2d-9b5d-ab8dfbbd4bed/0123456789abcdef0123456789abcdef'')
                    (Some 30000)]\<rparr>)"
proof -
  have m: "\<not> arr_includes image_formats_p0 ''docx''" "\<not> arr_includes media_exts_p0 ''docx''"
    "arr_includes doc_exts_p0 ''docx''"
    by (simp_all add: arr_includes_def image_formats_p0_def media_exts_p0_def doc_exts_p0_def)
  have ne: "\<not> existsSync (fs_app\<lparr>files := [(upload_p0, ''upload''),
                  (''/app/uploads/0123456789abcdef0123456789abcdef.pdf'', ''pdf'')]\<rparr>)
              ''/app/uploads/report.pdf''"
    by (simp add: existsSync_def isFile_def isDir_def fs_app_def upload_p0_def)
  show ?thesis
    by (simp add: branch_p0_def ext_docx m uploadsDir_office office_converted report_pdf_path ne
        Let_def)
qed

lemma cleanup_office:
  "cleanup_p0 (fs_app\<lparr>files := [(upload_p0, ''upload''),
                  (''/app/uploads/0123456789abcdef0123456789abcdef.pdf'', ''pdf'')]\<rparr>)
      [upload_p0, ''/app/uploads/converted_1700000000000_report.pdf'']
     = fs_app\<lparr>files := [(''/app/uploads/0123456789abcdef0123456789abcdef.pdf'', ''pdf'')]\<rparr>"
  by (simp add: cleanup_p0_def try_unlink_if_exists_def unlink_if_exists_def unlinkSync_def
      existsSync_def isFile_def isDir_def fs_app_def upload_p0_def)

text \<open>
  Claim C1. Two exits of the handlers leave a scratch file of the job on disk. In
  \<open>part_000\<close>, a document job whose LibreOffice run succeeds ends in the conversion-error
  path (the handler looks for the output under the original name, LibreOffice names it
  after the stored upload), and the file that LibreOffice produced stays in the uploads
  directory: the cleanup removes only the two registered paths. And in \<open>part_000\<close> as in
  \<open>server.cjs\<close>, a request with a file and without an output format is answered with
  status 400 and the stored upload stays where it is.
\<close>

theorem scratch_files_left_C1:
  "convert_p0 env_office (req_p0 ''report.docx'' (Some ''pdf'')) w_p0
     = (Some (Json 500 [(''error'', Str ''Conversion failed''),
                        (''details'', Str ''LibreOffice conversion failed - output file not found'')]),
        \<lparr>w_fs = fs_app\<lparr>files :=
                  [(''/app/uploads/0123456789abcdef0123456789abcdef.pdf'', ''pdf'')]\<rparr>,
         w_log = [ExecCalled (libreoffice_command_p0 ''pdf'' ''/app/uploads''
                    ''/app/temp/1b9d6bcd-bbfd-4b2d-9b5d-ab8dfbbd4bed/0123456789abcdef0123456789abcdef'')
                    (Some 30000)]\<rparr>)
   \<and> convert_p0 env_office (req_p0 ''report.docx'' None) w_p0
     = (Some (Json 400 [(''error'', Str ''Output format not specified'')]), w_p0)
   \<and> isFile (w_fs w_p0) upload_p0
   \<and> convert_cjs env0 \<lparr>req_file = Some \<lparr>originalname = ''report.docx'', file_path = upload_cjs\<rparr>,
                         req_outputFormat = None\<rparr> w_cjs
     = (Some (Json 400 [(''success'', Bool False),
                        (''error'', Str ''Output format not specified'')]), w_cjs)
   \<and> isFile (w_fs w_cjs) upload_cjs"
proof -
  let ?f = "\<lparr>originalname = ''report.docx'', file_path = upload_p0\<rparr>"
  have a: "convert_p0 env_office (req_p0 ''report.docx'' (Some ''pdf'')) w_p0
     = (Some (Json 500 [(''error'', Str ''Conversion failed''),
                        (''details'', Str ''LibreOffice conversion failed - output file not found'')]),
        \<lparr>w_fs = fs_app\<lparr>files :=
                  [(''/app/uploads/0123456789abcdef0123456789abcdef.pdf'', ''pdf'')]\<rparr>,
         w_log = [ExecCalled (libreoffice_command_p0 ''pdf'' ''/app/uploads''
                    ''/app/temp/1b9d6bcd-bbfd-4b2d-9b5d-ab8dfbbd4bed/0123456789abcdef0123456789abcdef'')
                    (Some 30000)]\<rparr>)"
    by (subst convert_p0_branch [where f = ?f and fmt = "''pdf''"])
      (simp_all add: req_p0_def ext_docx uploadsDir_office date_office outputPath_office branch_office
        cleanup_office Let_def)
  have b: "convert_p0 env_office (req_p0 ''report.docx'' None) w_p0
     = (Some (Json 400 [(''error'', Str ''Output format not specified'')]), w_p0)"
    by (simp add: convert_p0_def req_p0_def res_json_def stringify_props_def omitted_def)
  have c: "isFile (w_fs w_p0) upload_p0"
    by (simp add: isFile_def w_p0_def)
  have d: "convert_cjs env0 \<lparr>req_file = Some \<lparr>originalname = ''report.docx'', file_path = upload_cjs\<rparr>,
                         req_outputFormat = None\<rparr> w_cjs
     = (Some (Json 400 [(''success'', Bool False),
                        (''error'', Str ''Output format not specified'')]), w_cjs)"
    by (simp add: convert_cjs_def res_json_def stringify_props_def omitted_def)
  have e: "isFile (w_fs w_cjs) upload_cjs"
    by (simp add: isFile_def w_cjs_def fs_cjs_def)
  from a b c d e show ?thesis by blast
qed

end
